theory Spec2Isabelle
  imports Main
begin

section \<open>Python values used by the module\<close>

text \<open>
  \<^verbatim>\<open>'%s' % n\<close> for an integer \<open>n\<close>: the decimal digits, with a leading minus sign
  for a negative number. Python integers are unbounded, so \<open>nat\<close> and \<open>int\<close> model them.
\<close>

definition digit :: "nat \<Rightarrow> char" where
  "digit d = ''0123456789'' ! d"

fun str_nat :: "nat \<Rightarrow> string" where
  "str_nat n = (if n < 10 then [digit n] else str_nat (n div 10) @ [digit (n mod 10)])"

declare str_nat.simps [simp del]

definition str_int :: "int \<Rightarrow> string" where
  "str_int i = (if i < 0 then CHR ''-'' # str_nat (nat (- i)) else str_nat (nat i))"

text \<open>
  \<^verbatim>\<open>s[:k]\<close>: the first \<open>k\<close> characters, and for a negative \<open>k\<close> all but the
  last \<open>-k\<close> characters.
\<close>

definition slice_to :: "int \<Rightarrow> string \<Rightarrow> string" where
  "slice_to k s = (if 0 \<le> k then take (nat k) s else take (length s - nat (- k)) s)"

text \<open>
  The exceptions the module raises or lets through. \<open>CalledProcessException\<close> is what
  \<^verbatim>\<open>IssueRetryableCommand\<close> raises when it gives up; \<open>ParseError\<close> stands for
  \<^verbatim>\<open>json.loads\<close> or a subscript of its result raising.
\<close>

datatype error =
    ValueError string
  | RetryableCreationError string
  | AssertionError
  | TypeError
  | CalledProcessException
  | ParseError

section \<open>The objects of the module\<close>

text \<open>
  Modelled from the spec: \<^verbatim>\<open>resource.BaseResource\<close> is not among the sources. The spec
  gives every handle an internal "already created" flag, and makes deletion collapse to one
  call each; \<open>created\<close> and \<open>deleted\<close> are these flags, both unset by
  \<^verbatim>\<open>super().__init__()\<close>. Every class below extends this record, as every class of the
  module extends \<^verbatim>\<open>BaseResource\<close>.
\<close>

record BaseResource =
  created :: bool
  deleted :: bool

record AzureResourceGroup = BaseResource +
  name :: string
  storage_account_prefix :: string
  location :: string
  args :: "string list"

text \<open>
  A reference to an object is its address in the store. An attribute that
  \<^verbatim>\<open>__init__\<close> does not set (\<open>connection_string\<close>, \<open>connection_args\<close>,
  \<open>key\<close>) is \<open>None\<close> until \<^verbatim>\<open>_PostCreate\<close> sets it.
\<close>

record AzureStorageAccount = BaseResource +
  storage_type :: string
  name :: string
  resource_group :: nat
  location :: string
  kind :: string
  access_tier :: "string option"
  connection_string :: "string option"
  connection_args :: "string list option"
  key :: "string option"

record AzureVirtualNetwork = BaseResource +
  name :: string
  resource_group :: nat
  location :: string
  args :: "string list"
  vnet_num :: nat
  address_space :: string

record AzureSubnet = BaseResource +
  resource_group :: nat
  vnet :: nat
  name :: string
  args :: "string list"

text \<open>
  \<open>rules\<close> is the dictionary \<^verbatim>\<open>(start_port, end_port) -> rule name\<close>, kept as an
  association list in insertion order; \<^verbatim>\<open>len\<close> is its length. The lock
  \<^verbatim>\<open>rules_lock\<close> serialises the calls, which the model runs one after the other.
\<close>

record AzureNetworkSecurityGroup = BaseResource +
  location :: string
  subnet :: nat
  name :: string
  resource_group :: nat
  args :: "string list"
  rules :: "((int \<times> int) \<times> string) list"
  have_deny_all_rule :: bool

record AzureNetwork =
  zone :: string
  resource_group :: nat
  storage_account :: nat
  vnet :: nat
  subnet :: nat
  nsg :: nat

text \<open>A virtual machine, as far as this module reads it: \<^verbatim>\<open>vm.network\<close>.\<close>

record VirtualMachine =
  network :: nat

text \<open>
  The benchmark spec of the current thread: its \<open>uid\<close>, and the attribute
  \<^verbatim>\<open>azure_resource_group\<close> that \<^verbatim>\<open>GetResourceGroup\<close> attaches on its first call
  (\<open>None\<close>: the attribute is absent).
\<close>

record BenchmarkSpec =
  uid :: string
  azure_resource_group :: "nat option"

text \<open>
  The state of the process: the commands handed to \<^verbatim>\<open>vm_util.IssueCommand\<close> and
  \<^verbatim>\<open>vm_util.IssueRetryableCommand\<close> so far (oldest first), one store per class, the next
  free address, the benchmark spec, the class attribute
  \<^verbatim>\<open>AzureVirtualNetwork.num_vnets\<close> and the module global \<^verbatim>\<open>ALL_NSGS\<close> (a set,
  kept as the list of its members in the order they were added).
\<close>

record world =
  log :: "string list list"
  next_addr :: nat
  groups :: "nat \<Rightarrow> AzureResourceGroup"
  storage_accounts :: "nat \<Rightarrow> AzureStorageAccount"
  vnets :: "nat \<Rightarrow> AzureVirtualNetwork"
  subnets :: "nat \<Rightarrow> AzureSubnet"
  nsgs :: "nat \<Rightarrow> AzureNetworkSecurityGroup"
  networks :: "nat \<Rightarrow> AzureNetwork"
  spec :: BenchmarkSpec
  num_vnets :: nat
  ALL_NSGS :: "nat list"

text \<open>
  What the module takes from outside its file, as parameters: the constant
  \<^verbatim>\<open>azure.AZURE_PATH\<close>, the flags it reads, and what the provider's command-line tool
  answers. \<open>command_result\<close> is the \<^verbatim>\<open>(stdout, stderr, retcode)\<close> of
  \<^verbatim>\<open>IssueCommand\<close> and \<open>retryable_result\<close> the \<^verbatim>\<open>(stdout, stderr)\<close> of
  \<^verbatim>\<open>IssueRetryableCommand\<close>, \<open>None\<close> when it gives up and raises; both may depend
  on the commands issued before. \<open>json_string\<close> is \<^verbatim>\<open>json.loads(stdout)['string']\<close>
  and \<open>json_first_key\<close> the \<^verbatim>\<open>permissions\<close> and \<^verbatim>\<open>value\<close> of
  \<^verbatim>\<open>json.loads(stdout)[0]\<close>, \<open>None\<close> when the text does not parse that way.
  \<open>retries\<close> bounds the retry policy.
\<close>

record env =
  AZURE_PATH :: string
  FLAGS_run_uri :: string
  FLAGS_zones :: "string list"
  FLAGS_azure_storage_type :: string
  command_result :: "string list list \<Rightarrow> string list \<Rightarrow> string \<times> string \<times> int"
  retryable_result :: "string list list \<Rightarrow> string list \<Rightarrow> (string \<times> string) option"
  json_string :: "string \<Rightarrow> string option"
  json_first_key :: "string \<Rightarrow> (string \<times> string) option"
  retries :: nat

definition DEFAULT_LOCATION :: string where
  "DEFAULT_LOCATION = ''eastus2''"

section \<open>Issuing commands\<close>

text \<open>
  Each call appends its argument list to the log. A retryable command that gives up raises
  after the call was made, so the command is logged in both cases.
\<close>

definition IssueCommand :: "env \<Rightarrow> string list \<Rightarrow> world \<Rightarrow> (string \<times> string \<times> int) \<times> world" where
  "IssueCommand E cmd w = (command_result E (log w) cmd, w\<lparr>log := log w @ [cmd]\<rparr>)"

definition IssueRetryableCommand ::
  "env \<Rightarrow> string list \<Rightarrow> world \<Rightarrow> (error + string \<times> string) \<times> world" where
  "IssueRetryableCommand E cmd w =
     (case retryable_result E (log w) cmd of
        None \<Rightarrow> (Inl CalledProcessException, w\<lparr>log := log w @ [cmd]\<rparr>)
      | Some out \<Rightarrow> (Inr out, w\<lparr>log := log w @ [cmd]\<rparr>))"

section \<open>The resource group of the run\<close>

definition AzureResourceGroup_init :: "env \<Rightarrow> string \<Rightarrow> string \<Rightarrow> world \<Rightarrow> nat \<times> world" where
  "AzureResourceGroup_init E run_uri spec_uid w =
     (let self = next_addr w;
          nm = ''pkb'' @ run_uri @ ''-'' @ spec_uid
      in (self,
          w\<lparr>next_addr := Suc self,
            groups := (groups w)(self :=
              \<lparr>created = False, deleted = False,
               AzureResourceGroup.name = nm,
               storage_account_prefix = ''pkb'' @ run_uri @ spec_uid,
               AzureResourceGroup.location =
                 (case FLAGS_zones E of [] \<Rightarrow> DEFAULT_LOCATION | z # _ \<Rightarrow> z),
               AzureResourceGroup.args = [''--resource-group'', nm]\<rparr>)\<rparr>))"

definition GetResourceGroup :: "env \<Rightarrow> world \<Rightarrow> nat \<times> world" where
  "GetResourceGroup E w =
     (case azure_resource_group (spec w) of
        Some grp \<Rightarrow> (grp, w)
      | None \<Rightarrow>
          (let (grp, w1) = AzureResourceGroup_init E (FLAGS_run_uri E) (uid (spec w)) w
           in (grp, w1\<lparr>spec := (spec w1)\<lparr>azure_resource_group := Some grp\<rparr>\<rparr>)))"

section \<open>The retry policy and the lifecycle of a handle\<close>

text \<open>
  Modelled from the spec: \<^verbatim>\<open>vm_util.Retry\<close> is not among the sources. The spec gives
  the retry policy bounded attempts: the operation is run again while it raises an error the
  policy retries and attempts are left, and the last error is passed on. \<open>Retry n\<close> makes at
  most \<open>n + 1\<close> attempts.
\<close>

fun Retry ::
  "nat \<Rightarrow> (error \<Rightarrow> bool) \<Rightarrow> (world \<Rightarrow> (error + 'a) \<times> world) \<Rightarrow> world \<Rightarrow> (error + 'a) \<times> world" where
  "Retry 0 retryable f w = f w"
| "Retry (Suc n) retryable f w =
     (case f w of
        (Inl e, w1) \<Rightarrow> if retryable e then Retry n retryable f w1 else (Inl e, w1)
      | (Inr x, w1) \<Rightarrow> (Inr x, w1))"

definition is_RetryableCreationError :: "error \<Rightarrow> bool" where
  "is_RetryableCreationError e = (case e of RetryableCreationError _ \<Rightarrow> True | _ \<Rightarrow> False)"

text \<open>
  Modelled from the spec: \<^verbatim>\<open>BaseResource.Create\<close> and \<^verbatim>\<open>BaseResource.Delete\<close> are
  not among the sources. By the spec, \<^verbatim>\<open>Create\<close> on a handle that is already created
  does nothing; otherwise it runs the underlying creation, retried while that signals a
  retryable creation failure, sets the flag only after the creation reports success, and then
  runs the post-create hook. \<^verbatim>\<open>Delete\<close> may be called any number of times, collapses
  to one underlying deletion, and passes a failure on without retrying. The handle is given
  by how its flag is read and set in its store.
\<close>

definition BaseResource_Create ::
  "env \<Rightarrow> (world \<Rightarrow> bool) \<Rightarrow> (world \<Rightarrow> world) \<Rightarrow> (world \<Rightarrow> (error + unit) \<times> world)
     \<Rightarrow> (world \<Rightarrow> (error + unit) \<times> world) \<Rightarrow> world \<Rightarrow> (error + unit) \<times> world" where
  "BaseResource_Create E is_created set_created create post_create w =
     (if is_created w then (Inr (), w)
      else
        case Retry (retries E) is_RetryableCreationError create w of
          (Inl e, w1) \<Rightarrow> (Inl e, w1)
        | (Inr _, w1) \<Rightarrow> post_create (set_created w1))"

text \<open>
  Modelled from the spec: \<^verbatim>\<open>BaseResource.Delete\<close>, which is not among the sources. A
  handle that is already deleted is left alone; otherwise the underlying deletion runs once,
  its failure is passed on, and the flag is set when it returned.
\<close>

definition BaseResource_Delete ::
  "(world \<Rightarrow> bool) \<Rightarrow> (world \<Rightarrow> world) \<Rightarrow> (world \<Rightarrow> (error + unit) \<times> world)
     \<Rightarrow> world \<Rightarrow> (error + unit) \<times> world" where
  "BaseResource_Delete is_deleted set_deleted delete w =
     (if is_deleted w then (Inr (), w)
      else
        case delete w of
          (Inl e, w1) \<Rightarrow> (Inl e, w1)
        | (Inr _, w1) \<Rightarrow> (Inr (), set_deleted w1))"

text \<open>
  Modelled from the spec: the optional \<^verbatim>\<open>PostCreate\<close> hook of \<^verbatim>\<open>BaseResource\<close>,
  which does nothing unless a class overrides it.
\<close>

definition BaseResource__PostCreate :: "world \<Rightarrow> (error + unit) \<times> world" where
  "BaseResource__PostCreate w = (Inr (), w)"

section \<open>The methods of the resource group\<close>

definition AzureResourceGroup__Create :: "env \<Rightarrow> nat \<Rightarrow> world \<Rightarrow> (error + unit) \<times> world" where
  "AzureResourceGroup__Create E self w =
     (let ((_, _, retcode), w1) =
            IssueCommand E
              [AZURE_PATH E, ''group'', ''create'',
               AzureResourceGroup.name (groups w self), AzureResourceGroup.location (groups w self)] w
      in if retcode \<noteq> 0
         then (Inl (RetryableCreationError ''Error creating Azure resource group''), w1)
         else (Inr (), w1))"

definition AzureResourceGroup__Exists :: "env \<Rightarrow> nat \<Rightarrow> world \<Rightarrow> bool \<times> world" where
  "AzureResourceGroup__Exists E self w =
     (let ((_, _, retcode), w1) =
            IssueCommand E
              [AZURE_PATH E, ''resource'', ''list'', AzureResourceGroup.name (groups w self)] w
      in (retcode = 0, w1))"

definition AzureResourceGroup__Delete :: "env \<Rightarrow> nat \<Rightarrow> world \<Rightarrow> (error + unit) \<times> world" where
  "AzureResourceGroup__Delete E self w =
     (let (_, w1) =
            IssueCommand E
              [AZURE_PATH E, ''group'', ''delete'',
               ''--quiet'',
               AzureResourceGroup.name (groups w self)] w
      in (Inr (), w1))"

text \<open>
  \<^verbatim>\<open>Create\<close> and \<^verbatim>\<open>Delete\<close> of a resource group are the methods it inherits from
  \<^verbatim>\<open>BaseResource\<close>, here on the store of the resource groups; the same holds for the
  other classes below.
\<close>

definition AzureResourceGroup_Create :: "env \<Rightarrow> nat \<Rightarrow> world \<Rightarrow> (error + unit) \<times> world" where
  "AzureResourceGroup_Create E self =
     BaseResource_Create E
       (\<lambda>w. created (groups w self))
       (\<lambda>w. w\<lparr>groups := (groups w)(self := (groups w self)\<lparr>created := True\<rparr>)\<rparr>)
       (AzureResourceGroup__Create E self)
       BaseResource__PostCreate"

definition AzureResourceGroup_Delete :: "env \<Rightarrow> nat \<Rightarrow> world \<Rightarrow> (error + unit) \<times> world" where
  "AzureResourceGroup_Delete E self =
     BaseResource_Delete
       (\<lambda>w. deleted (groups w self))
       (\<lambda>w. w\<lparr>groups := (groups w)(self := (groups w self)\<lparr>deleted := True\<rparr>)\<rparr>)
       (AzureResourceGroup__Delete E self)"

section \<open>The storage account\<close>

text \<open>
  \<^verbatim>\<open>kind or 'Storage'\<close> and \<^verbatim>\<open>access_tier or 'Hot'\<close>: a missing argument and the
  empty string are both falsy.
\<close>

definition or_default :: "string option \<Rightarrow> string \<Rightarrow> string" where
  "or_default v d = (case v of None \<Rightarrow> d | Some s \<Rightarrow> if s = [] then d else s)"

definition AzureStorageAccount_init ::
  "env \<Rightarrow> string \<Rightarrow> string \<Rightarrow> string \<Rightarrow> string option \<Rightarrow> string option \<Rightarrow> world
     \<Rightarrow> (error + nat) \<times> world" where
  "AzureStorageAccount_init E stype loc nm knd tier w =
     (let (rg, w1) = GetResourceGroup E w;
          self = next_addr w1;
          obj = \<lparr>created = False, deleted = False,
                 storage_type = stype,
                 AzureStorageAccount.name = nm,
                 AzureStorageAccount.resource_group = rg,
                 AzureStorageAccount.location = loc,
                 kind = or_default knd ''Storage'',
                 access_tier = None,
                 connection_string = None,
                 connection_args = None,
                 key = None\<rparr>
      in if knd = Some ''BlobStorage''
         then (Inr self,
               w1\<lparr>next_addr := Suc self,
                  storage_accounts := (storage_accounts w1)
                    (self := obj\<lparr>access_tier := Some (or_default tier ''Hot'')\<rparr>)\<rparr>)
         else if tier \<noteq> None then (Inl AssertionError, w1)
         else (Inr self,
               w1\<lparr>next_addr := Suc self,
                  storage_accounts := (storage_accounts w1)(self := obj\<lparr>access_tier := tier\<rparr>)\<rparr>))"

text \<open>
  A blob storage account always has an access tier; a command line holding \<^verbatim>\<open>None\<close>
  is refused with a \<open>TypeError\<close>.
\<close>

definition AzureStorageAccount__Create :: "env \<Rightarrow> nat \<Rightarrow> world \<Rightarrow> (error + unit) \<times> world" where
  "AzureStorageAccount__Create E self w =
     (let this = storage_accounts w self;
          create_cmd = [AZURE_PATH E,
                        ''storage'',
                        ''account'',
                        ''create'',
                        ''--kind'', kind this,
                        ''--sku-name'', storage_type this,
                        AzureStorageAccount.name this]
                       @ AzureResourceGroup.args (groups w (AzureStorageAccount.resource_group this));
          create_cmd = (if AzureStorageAccount.location this \<noteq> []
                        then create_cmd @ [''--location'', AzureStorageAccount.location this]
                        else create_cmd)
      in if kind this = ''BlobStorage''
         then (case access_tier this of
                 None \<Rightarrow> (Inl TypeError, w)
               | Some t \<Rightarrow> (Inr (), snd (IssueCommand E (create_cmd @ [''--access-tier'', t]) w)))
         else (Inr (), snd (IssueCommand E create_cmd w)))"

definition AzureStorageAccount__PostCreate :: "env \<Rightarrow> nat \<Rightarrow> world \<Rightarrow> (error + unit) \<times> world" where
  "AzureStorageAccount__PostCreate E self w =
     (case IssueRetryableCommand E
             ([AZURE_PATH E, ''storage'', ''account'', ''connectionstring'', ''show'',
               ''--json'',
               AzureStorageAccount.name (storage_accounts w self)]
              @ AzureResourceGroup.args
                  (groups w (AzureStorageAccount.resource_group (storage_accounts w self)))) w of
        (Inl e, w1) \<Rightarrow> (Inl e, w1)
      | (Inr (stdout, _), w1) \<Rightarrow>
          (case json_string E stdout of
             None \<Rightarrow> (Inl ParseError, w1)
           | Some cs \<Rightarrow>
               let w2 = w1\<lparr>storage_accounts := (storage_accounts w1)
                          (self := (storage_accounts w1 self)
                             \<lparr>connection_string := Some cs,
                              connection_args := Some [''--connection-string'', cs]\<rparr>)\<rparr>
               in
                 (case IssueRetryableCommand E
                         ([AZURE_PATH E, ''storage'', ''account'', ''keys'', ''list'',
                           ''--json'',
                           AzureStorageAccount.name (storage_accounts w2 self)]
                          @ AzureResourceGroup.args
                              (groups w2 (AzureStorageAccount.resource_group (storage_accounts w2 self)))) w2 of
                    (Inl e, w3) \<Rightarrow> (Inl e, w3)
                  | (Inr (stdout, _), w3) \<Rightarrow>
                      (case json_first_key E stdout of
                         None \<Rightarrow> (Inl ParseError, w3)
                       | Some (permissions, v) \<Rightarrow>
                           if permissions \<noteq> ''Full'' then (Inl AssertionError, w3)
                           else (Inr (),
                                 w3\<lparr>storage_accounts := (storage_accounts w3)
                                      (self := (storage_accounts w3 self)\<lparr>key := Some v\<rparr>)\<rparr>)))))"

definition AzureStorageAccount__Delete :: "env \<Rightarrow> nat \<Rightarrow> world \<Rightarrow> (error + unit) \<times> world" where
  "AzureStorageAccount__Delete E self w =
     (let (_, w1) =
            IssueCommand E
              ([AZURE_PATH E, ''storage'', ''account'', ''delete'',
                ''--quiet'',
                AzureStorageAccount.name (storage_accounts w self)]
               @ AzureResourceGroup.args
                   (groups w (AzureStorageAccount.resource_group (storage_accounts w self)))) w
      in (Inr (), w1))"

definition AzureStorageAccount__Exists :: "env \<Rightarrow> nat \<Rightarrow> world \<Rightarrow> bool \<times> world" where
  "AzureStorageAccount__Exists E self w =
     (let ((_, _, retcode), w1) =
            IssueCommand E
              ([AZURE_PATH E, ''storage'', ''account'', ''show'',
                ''--json'',
                AzureStorageAccount.name (storage_accounts w self)]
               @ AzureResourceGroup.args
                   (groups w (AzureStorageAccount.resource_group (storage_accounts w self)))) w
      in (retcode = 0, w1))"

definition AzureStorageAccount_Create :: "env \<Rightarrow> nat \<Rightarrow> world \<Rightarrow> (error + unit) \<times> world" where
  "AzureStorageAccount_Create E self =
     BaseResource_Create E
       (\<lambda>w. created (storage_accounts w self))
       (\<lambda>w. w\<lparr>storage_accounts := (storage_accounts w)
                (self := (storage_accounts w self)\<lparr>created := True\<rparr>)\<rparr>)
       (AzureStorageAccount__Create E self)
       (AzureStorageAccount__PostCreate E self)"

definition AzureStorageAccount_Delete :: "env \<Rightarrow> nat \<Rightarrow> world \<Rightarrow> (error + unit) \<times> world" where
  "AzureStorageAccount_Delete E self =
     BaseResource_Delete
       (\<lambda>w. deleted (storage_accounts w self))
       (\<lambda>w. w\<lparr>storage_accounts := (storage_accounts w)
                (self := (storage_accounts w self)\<lparr>deleted := True\<rparr>)\<rparr>)
       (AzureStorageAccount__Delete E self)"

section \<open>The virtual network\<close>

text \<open>
  The constructor takes the next number of the class counter \<^verbatim>\<open>num_vnets\<close> under
  \<^verbatim>\<open>vnet_lock\<close>; the model runs the constructions in the order they take the lock.
\<close>

definition AzureVirtualNetwork_init :: "env \<Rightarrow> string \<Rightarrow> string \<Rightarrow> world \<Rightarrow> nat \<times> world" where
  "AzureVirtualNetwork_init E loc nm w =
     (let (rg, w1) = GetResourceGroup E w;
          self = next_addr w1;
          n = num_vnets w1
      in (self,
          w1\<lparr>next_addr := Suc self,
             num_vnets := n + 1,
             vnets := (vnets w1)(self :=
               \<lparr>created = False, deleted = False,
                AzureVirtualNetwork.name = nm,
                AzureVirtualNetwork.resource_group = rg,
                AzureVirtualNetwork.location = loc,
                AzureVirtualNetwork.args = [''--vnet-name'', nm],
                vnet_num = n,
                address_space = ''10.'' @ str_int (int n) @ ''.0.0/16''\<rparr>)\<rparr>))"

definition AzureVirtualNetwork__Create :: "env \<Rightarrow> nat \<Rightarrow> world \<Rightarrow> (error + unit) \<times> world" where
  "AzureVirtualNetwork__Create E self w =
     (let (_, w1) =
            IssueCommand E
              ([AZURE_PATH E, ''network'', ''vnet'', ''create'',
                ''--location'', AzureVirtualNetwork.location (vnets w self),
                ''--address-prefixes'', address_space (vnets w self),
                AzureVirtualNetwork.name (vnets w self)]
               @ AzureResourceGroup.args
                   (groups w (AzureVirtualNetwork.resource_group (vnets w self)))) w
      in (Inr (), w1))"

definition AzureVirtualNetwork__Delete :: "env \<Rightarrow> nat \<Rightarrow> world \<Rightarrow> (error + unit) \<times> world" where
  "AzureVirtualNetwork__Delete E self w =
     (let (_, w1) =
            IssueCommand E
              ([AZURE_PATH E, ''network'', ''vnet'', ''delete'',
                ''--quiet'',
                AzureVirtualNetwork.name (vnets w self)]
               @ AzureResourceGroup.args
                   (groups w (AzureVirtualNetwork.resource_group (vnets w self)))) w
      in (Inr (), w1))"

definition AzureVirtualNetwork__Exists :: "env \<Rightarrow> nat \<Rightarrow> world \<Rightarrow> bool \<times> world" where
  "AzureVirtualNetwork__Exists E self w =
     (let ((stdout, _, retcode), w1) =
            IssueCommand E
              ([AZURE_PATH E, ''network'', ''vnet'', ''show'',
                ''--json'',
                AzureVirtualNetwork.name (vnets w self)]
               @ AzureResourceGroup.args
                   (groups w (AzureVirtualNetwork.resource_group (vnets w self)))) w
      in (retcode = 0 \<and> stdout \<noteq> ''{}'' @ [CHR 0x0A], w1))"

definition AzureVirtualNetwork_Create :: "env \<Rightarrow> nat \<Rightarrow> world \<Rightarrow> (error + unit) \<times> world" where
  "AzureVirtualNetwork_Create E self =
     BaseResource_Create E
       (\<lambda>w. created (vnets w self))
       (\<lambda>w. w\<lparr>vnets := (vnets w)(self := (vnets w self)\<lparr>created := True\<rparr>)\<rparr>)
       (AzureVirtualNetwork__Create E self)
       BaseResource__PostCreate"

definition AzureVirtualNetwork_Delete :: "env \<Rightarrow> nat \<Rightarrow> world \<Rightarrow> (error + unit) \<times> world" where
  "AzureVirtualNetwork_Delete E self =
     BaseResource_Delete
       (\<lambda>w. deleted (vnets w self))
       (\<lambda>w. w\<lparr>vnets := (vnets w)(self := (vnets w self)\<lparr>deleted := True\<rparr>)\<rparr>)
       (AzureVirtualNetwork__Delete E self)"

section \<open>The subnet\<close>

definition AzureSubnet_init :: "env \<Rightarrow> nat \<Rightarrow> string \<Rightarrow> world \<Rightarrow> nat \<times> world" where
  "AzureSubnet_init E vn nm w =
     (let (rg, w1) = GetResourceGroup E w;
          self = next_addr w1
      in (self,
          w1\<lparr>next_addr := Suc self,
             subnets := (subnets w1)(self :=
               \<lparr>created = False, deleted = False,
                AzureSubnet.resource_group = rg,
                AzureSubnet.vnet = vn,
                AzureSubnet.name = nm,
                AzureSubnet.args = [''--vnet-subnet-name'', nm]\<rparr>)\<rparr>))"

definition AzureSubnet__Create :: "env \<Rightarrow> nat \<Rightarrow> world \<Rightarrow> (error + unit) \<times> world" where
  "AzureSubnet__Create E self w =
     (let (_, w1) =
            IssueCommand E
              ([AZURE_PATH E, ''network'', ''vnet'', ''subnet'', ''create'',
                ''--vnet-name'', AzureVirtualNetwork.name (vnets w (AzureSubnet.vnet (subnets w self))),
                ''--address-prefix'', address_space (vnets w (AzureSubnet.vnet (subnets w self))),
                AzureSubnet.name (subnets w self)]
               @ AzureResourceGroup.args (groups w (AzureSubnet.resource_group (subnets w self)))) w
      in (Inr (), w1))"

definition AzureSubnet__Exists :: "env \<Rightarrow> nat \<Rightarrow> world \<Rightarrow> bool \<times> world" where
  "AzureSubnet__Exists E self w =
     (let ((stdout, _, retcode), w1) =
            IssueCommand E
              ([AZURE_PATH E, ''network'', ''vnet'', ''subnet'', ''show'',
                ''--vnet-name'', AzureVirtualNetwork.name (vnets w (AzureSubnet.vnet (subnets w self))),
                ''--json'',
                AzureSubnet.name (subnets w self)]
               @ AzureResourceGroup.args (groups w (AzureSubnet.resource_group (subnets w self)))) w
      in (retcode = 0 \<and> stdout \<noteq> ''{}'' @ [CHR 0x0A], w1))"

definition AzureSubnet__Delete :: "env \<Rightarrow> nat \<Rightarrow> world \<Rightarrow> (error + unit) \<times> world" where
  "AzureSubnet__Delete E self w =
     (let (_, w1) =
            IssueCommand E
              ([AZURE_PATH E, ''network'', ''vnet'', ''subnet'', ''delete'',
                ''--vnet-name'', AzureVirtualNetwork.name (vnets w (AzureSubnet.vnet (subnets w self))),
                ''--quiet'',
                AzureSubnet.name (subnets w self)]
               @ AzureResourceGroup.args (groups w (AzureSubnet.resource_group (subnets w self)))) w
      in (Inr (), w1))"

definition AzureSubnet_Create :: "env \<Rightarrow> nat \<Rightarrow> world \<Rightarrow> (error + unit) \<times> world" where
  "AzureSubnet_Create E self =
     BaseResource_Create E
       (\<lambda>w. created (subnets w self))
       (\<lambda>w. w\<lparr>subnets := (subnets w)(self := (subnets w self)\<lparr>created := True\<rparr>)\<rparr>)
       (AzureSubnet__Create E self)
       BaseResource__PostCreate"

definition AzureSubnet_Delete :: "env \<Rightarrow> nat \<Rightarrow> world \<Rightarrow> (error + unit) \<times> world" where
  "AzureSubnet_Delete E self =
     BaseResource_Delete
       (\<lambda>w. deleted (subnets w self))
       (\<lambda>w. w\<lparr>subnets := (subnets w)(self := (subnets w self)\<lparr>deleted := True\<rparr>)\<rparr>)
       (AzureSubnet__Delete E self)"

section \<open>The network security group\<close>

definition AzureNetworkSecurityGroup_init ::
  "env \<Rightarrow> string \<Rightarrow> nat \<Rightarrow> string \<Rightarrow> world \<Rightarrow> nat \<times> world" where
  "AzureNetworkSecurityGroup_init E loc sn nm w =
     (let (rg, w1) = GetResourceGroup E w;
          self = next_addr w1
      in (self,
          w1\<lparr>next_addr := Suc self,
             nsgs := (nsgs w1)(self :=
               \<lparr>created = False, deleted = False,
                AzureNetworkSecurityGroup.location = loc,
                AzureNetworkSecurityGroup.subnet = sn,
                AzureNetworkSecurityGroup.name = nm,
                AzureNetworkSecurityGroup.resource_group = rg,
                AzureNetworkSecurityGroup.args = [''--nsg-name'', nm],
                rules = [],
                have_deny_all_rule = False\<rparr>)\<rparr>))"

text \<open>
  \<^verbatim>\<open>self.resource_group.args + self.args\<close>, the tail of every command of a security
  group.
\<close>

definition nsg_args :: "world \<Rightarrow> nat \<Rightarrow> string list" where
  "nsg_args w self =
     AzureResourceGroup.args (groups w (AzureNetworkSecurityGroup.resource_group (nsgs w self)))
     @ AzureNetworkSecurityGroup.args (nsgs w self)"

text \<open>
  \<^verbatim>\<open>end_port or start_port\<close>: a missing end port and the end port \<open>0\<close> are both
  falsy.
\<close>

definition end_port_or :: "int option \<Rightarrow> int \<Rightarrow> int" where
  "end_port_or end_port start_port =
     (case end_port of None \<Rightarrow> start_port | Some e \<Rightarrow> if e = 0 then start_port else e)"

definition AzureNetworkSecurityGroup_AllowPort ::
  "env \<Rightarrow> nat \<Rightarrow> VirtualMachine \<Rightarrow> int \<Rightarrow> int option \<Rightarrow> string option \<Rightarrow> world
     \<Rightarrow> (error + unit) \<times> world" where
  "AzureNetworkSecurityGroup_AllowPort E self vm start_port end_port source_range w =
     (let end_port = end_port_or end_port start_port in
      if (start_port, end_port) \<in> set (map fst (rules (nsgs w self))) then (Inr (), w)
      else
        let port_range = str_int start_port @ ''-'' @ str_int end_port;
            rule_name = ''allow-'' @ port_range;
            rule_priority = 100 + int (length (rules (nsgs w self)))
        in
          if rule_priority \<ge> 4095 then (Inl (ValueError ''Too many firewall rules!''), w)
          else
            let w1 = w\<lparr>nsgs := (nsgs w)(self := (nsgs w self)
                       \<lparr>rules := rules (nsgs w self) @ [((start_port, end_port), rule_name)]\<rparr>)\<rparr>
            in
              case IssueRetryableCommand E
                     ([AZURE_PATH E, ''network'', ''nsg'', ''rule'', ''create'',
                       rule_name,
                       ''--destination-port-range'', port_range,
                       ''--access'', ''Allow'',
                       ''--priority'', str_int rule_priority]
                      @ nsg_args w1 self) w1 of
                (Inl e, w2) \<Rightarrow> (Inl e, w2)
              | (Inr _, w2) \<Rightarrow> (Inr (), w2))"

text \<open>
  The loop of \<^verbatim>\<open>DisallowAllPorts\<close> over \<^verbatim>\<open>self.rules.iteritems()\<close>. Python leaves
  the order of a dictionary's items open; the model takes them in insertion order. A command
  that raises ends the loop and the call.
\<close>

fun delete_rules ::
  "env \<Rightarrow> nat \<Rightarrow> ((int \<times> int) \<times> string) list \<Rightarrow> world \<Rightarrow> (error + unit) \<times> world" where
  "delete_rules E self [] w = (Inr (), w)"
| "delete_rules E self ((port, rule) # rest) w =
     (case IssueRetryableCommand E
             ([AZURE_PATH E, ''network'', ''nsg'', ''rule'', ''delete'',
               ''--quiet'',
               rule]
              @ nsg_args w self) w of
        (Inl e, w1) \<Rightarrow> (Inl e, w1)
      | (Inr _, w1) \<Rightarrow> delete_rules E self rest w1)"

definition AzureNetworkSecurityGroup_DisallowAllPorts ::
  "env \<Rightarrow> nat \<Rightarrow> world \<Rightarrow> (error + unit) \<times> world" where
  "AzureNetworkSecurityGroup_DisallowAllPorts E self w =
     (case delete_rules E self (rules (nsgs w self)) w of
        (Inl e, w1) \<Rightarrow> (Inl e, w1)
      | (Inr _, w1) \<Rightarrow>
          let w2 = w1\<lparr>nsgs := (nsgs w1)(self := (nsgs w1 self)\<lparr>rules := []\<rparr>)\<rparr> in
          if have_deny_all_rule (nsgs w2 self) then (Inr (), w2)
          else
            (case IssueRetryableCommand E
                    ([AZURE_PATH E, ''network'', ''nsg'', ''rule'', ''create'',
                      ''DenyAll'',
                      ''--access'', ''Deny'',
                      ''--priority'', ''4095'']
                     @ nsg_args w2 self) w2 of
               (Inl e, w3) \<Rightarrow> (Inl e, w3)
             | (Inr _, w3) \<Rightarrow>
                 (Inr (), w3\<lparr>nsgs := (nsgs w3)(self := (nsgs w3 self)
                                  \<lparr>have_deny_all_rule := True\<rparr>)\<rparr>)))"

definition AzureNetworkSecurityGroup__Create :: "env \<Rightarrow> nat \<Rightarrow> world \<Rightarrow> (error + unit) \<times> world" where
  "AzureNetworkSecurityGroup__Create E self w =
     (let (_, w1) =
            IssueCommand E
              ([AZURE_PATH E, ''network'', ''nsg'', ''create'',
                ''--location'', AzureNetworkSecurityGroup.location (nsgs w self),
                AzureNetworkSecurityGroup.name (nsgs w self)]
               @ AzureResourceGroup.args
                   (groups w (AzureNetworkSecurityGroup.resource_group (nsgs w self)))) w
      in (Inr (), w1))"

definition AzureNetworkSecurityGroup__Exists :: "env \<Rightarrow> nat \<Rightarrow> world \<Rightarrow> bool \<times> world" where
  "AzureNetworkSecurityGroup__Exists E self w =
     (let ((stdout, _, retcode), w1) =
            IssueCommand E
              ([AZURE_PATH E, ''network'', ''nsg'', ''show'',
                ''--json'',
                AzureNetworkSecurityGroup.name (nsgs w self)]
               @ AzureResourceGroup.args
                   (groups w (AzureNetworkSecurityGroup.resource_group (nsgs w self)))) w
      in (retcode = 0 \<and> stdout \<noteq> ''{}'' @ [CHR 0x0A], w1))"

definition AzureNetworkSecurityGroup__Delete :: "env \<Rightarrow> nat \<Rightarrow> world \<Rightarrow> (error + unit) \<times> world" where
  "AzureNetworkSecurityGroup__Delete E self w =
     (let (_, w1) =
            IssueCommand E
              ([AZURE_PATH E, ''network'', ''nsg'', ''delete'',
                ''--quiet'',
                AzureNetworkSecurityGroup.name (nsgs w self)]
               @ AzureResourceGroup.args
                   (groups w (AzureNetworkSecurityGroup.resource_group (nsgs w self)))) w
      in (Inr (), w1))"

definition AzureNetworkSecurityGroup_AttachToSubnet ::
  "env \<Rightarrow> nat \<Rightarrow> world \<Rightarrow> (error + unit) \<times> world" where
  "AzureNetworkSecurityGroup_AttachToSubnet E self w =
     (case IssueRetryableCommand E
             ([AZURE_PATH E, ''network'', ''vnet'', ''subnet'', ''set'',
               ''--name'', AzureSubnet.name (subnets w (AzureNetworkSecurityGroup.subnet (nsgs w self))),
               ''--network-security-group-name'', AzureNetworkSecurityGroup.name (nsgs w self)]
              @ AzureResourceGroup.args
                  (groups w (AzureNetworkSecurityGroup.resource_group (nsgs w self)))
              @ AzureVirtualNetwork.args
                  (vnets w (AzureSubnet.vnet
                     (subnets w (AzureNetworkSecurityGroup.subnet (nsgs w self)))))) w of
        (Inl e, w1) \<Rightarrow> (Inl e, w1)
      | (Inr _, w1) \<Rightarrow> (Inr (), w1))"

definition AzureNetworkSecurityGroup_Create :: "env \<Rightarrow> nat \<Rightarrow> world \<Rightarrow> (error + unit) \<times> world" where
  "AzureNetworkSecurityGroup_Create E self =
     BaseResource_Create E
       (\<lambda>w. created (nsgs w self))
       (\<lambda>w. w\<lparr>nsgs := (nsgs w)(self := (nsgs w self)\<lparr>created := True\<rparr>)\<rparr>)
       (AzureNetworkSecurityGroup__Create E self)
       BaseResource__PostCreate"

definition AzureNetworkSecurityGroup_Delete :: "env \<Rightarrow> nat \<Rightarrow> world \<Rightarrow> (error + unit) \<times> world" where
  "AzureNetworkSecurityGroup_Delete E self =
     BaseResource_Delete
       (\<lambda>w. deleted (nsgs w self))
       (\<lambda>w. w\<lparr>nsgs := (nsgs w)(self := (nsgs w self)\<lparr>deleted := True\<rparr>)\<rparr>)
       (AzureNetworkSecurityGroup__Delete E self)"

section \<open>The firewall\<close>

definition AzureFirewall_AllowPort ::
  "env \<Rightarrow> VirtualMachine \<Rightarrow> int \<Rightarrow> int option \<Rightarrow> string option \<Rightarrow> world
     \<Rightarrow> (error + unit) \<times> world" where
  "AzureFirewall_AllowPort E vm start_port end_port source_range w =
     AzureNetworkSecurityGroup_AllowPort E (nsg (networks w (network vm)))
       vm start_port end_port source_range w"

text \<open>The loop over \<^verbatim>\<open>ALL_NSGS\<close>; a call that raises ends it.\<close>

fun DisallowAllPorts_each :: "env \<Rightarrow> nat list \<Rightarrow> world \<Rightarrow> (error + unit) \<times> world" where
  "DisallowAllPorts_each E [] w = (Inr (), w)"
| "DisallowAllPorts_each E (n # ns) w =
     (case AzureNetworkSecurityGroup_DisallowAllPorts E n w of
        (Inl e, w1) \<Rightarrow> (Inl e, w1)
      | (Inr _, w1) \<Rightarrow> DisallowAllPorts_each E ns w1)"

definition AzureFirewall_DisallowAllPorts :: "env \<Rightarrow> world \<Rightarrow> (error + unit) \<times> world" where
  "AzureFirewall_DisallowAllPorts E w = DisallowAllPorts_each E (ALL_NSGS w) w"

section \<open>The network of a zone\<close>

text \<open>
  \<^verbatim>\<open>BaseNetwork.__init__\<close> is not among the sources; the constructor is given the zone
  it keeps as \<^verbatim>\<open>self.zone\<close>. With the default \<open>kind\<close> and \<open>access_tier\<close> the storage
  account's constructor cannot fail, but its assertion stays a branch.
\<close>

definition AzureNetwork_init :: "env \<Rightarrow> string \<Rightarrow> world \<Rightarrow> (error + nat) \<times> world" where
  "AzureNetwork_init E zn w =
     (let (rg, w1) = GetResourceGroup E w;
          suffix = zn @ ''storage'';
          (sa_result, w2) =
            AzureStorageAccount_init E (FLAGS_azure_storage_type E) zn
              (slice_to (24 - int (length suffix)) (storage_account_prefix (groups w1 rg)) @ suffix)
              None None w1
      in case sa_result of
           Inl e \<Rightarrow> (Inl e, w2)
         | Inr sa \<Rightarrow>
             (let prefix = AzureResourceGroup.name (groups w2 rg) @ ''-'' @ zn;
                  (vn, w3) = AzureVirtualNetwork_init E zn (prefix @ ''-vnet'') w2;
                  (sn, w4) = AzureSubnet_init E vn (AzureVirtualNetwork.name (vnets w3 vn) @ ''-subnet'') w3;
                  (ng, w5) = AzureNetworkSecurityGroup_init E zn sn
                               (AzureSubnet.name (subnets w4 sn) @ ''-nsg'') w4;
                  self = next_addr w5
              in (Inr self,
                  w5\<lparr>next_addr := Suc self,
                     networks := (networks w5)(self :=
                       \<lparr>zone = zn,
                        AzureNetwork.resource_group = rg,
                        storage_account = sa,
                        AzureNetwork.vnet = vn,
                        AzureNetwork.subnet = sn,
                        nsg = ng\<rparr>),
                     ALL_NSGS := (if ng \<in> set (ALL_NSGS w5) then ALL_NSGS w5
                                  else ALL_NSGS w5 @ [ng])\<rparr>)))"

text \<open>
  The body of \<^verbatim>\<open>Create\<close>: each step runs only when the one before returned, as an
  exception leaves the method.
\<close>

definition and_then ::
  "(world \<Rightarrow> (error + unit) \<times> world) \<Rightarrow> (world \<Rightarrow> (error + unit) \<times> world)
     \<Rightarrow> world \<Rightarrow> (error + unit) \<times> world" where
  "and_then f g w = (case f w of (Inl e, w1) \<Rightarrow> (Inl e, w1) | (Inr _, w1) \<Rightarrow> g w1)"

definition AzureNetwork_Create_body :: "env \<Rightarrow> nat \<Rightarrow> world \<Rightarrow> (error + unit) \<times> world" where
  "AzureNetwork_Create_body E self w =
     (let this = networks w self in
      and_then (AzureResourceGroup_Create E (AzureNetwork.resource_group this))
     (and_then (AzureStorageAccount_Create E (storage_account this))
     (and_then (AzureVirtualNetwork_Create E (AzureNetwork.vnet this))
     (and_then (AzureSubnet_Create E (AzureNetwork.subnet this))
     (and_then (AzureNetworkSecurityGroup_Create E (nsg this))
               (AzureNetworkSecurityGroup_AttachToSubnet E (nsg this)))))) w)"

text \<open>
  \<^verbatim>\<open>Create\<close> carries the decorator \<^verbatim>\<open>@vm_util.Retry()\<close>, which retries the whole
  body on every exception, within the bound of the retry policy.
\<close>

definition AzureNetwork_Create :: "env \<Rightarrow> nat \<Rightarrow> world \<Rightarrow> (error + unit) \<times> world" where
  "AzureNetwork_Create E self w =
     Retry (retries E) (\<lambda>e. True) (AzureNetwork_Create_body E self) w"

definition AzureNetwork_Delete :: "env \<Rightarrow> nat \<Rightarrow> world \<Rightarrow> (error + unit) \<times> world" where
  "AzureNetwork_Delete E self w =
     (let this = networks w self in
      and_then (AzureSubnet_Delete E (AzureNetwork.subnet this))
     (and_then (AzureNetworkSecurityGroup_Delete E (nsg this))
     (and_then (AzureVirtualNetwork_Delete E (AzureNetwork.vnet this))
     (and_then (AzureStorageAccount_Delete E (storage_account this))
               (AzureResourceGroup_Delete E (AzureNetwork.resource_group this))))) w)"

section \<open>Sequences of calls, and a concrete run\<close>

text \<open>
  The arguments of one \<^verbatim>\<open>AllowPort\<close> call, the key of the rule table the call looks
  up, and a caller that makes the calls of a list one after the other on one security group,
  going on after a call that raised. The result is what each call returned or raised, and
  the state after the last one.
\<close>

type_synonym allow_req = "VirtualMachine \<times> int \<times> int option \<times> string option"

definition req_key :: "allow_req \<Rightarrow> int \<times> int" where
  "req_key r = (case r of (vm, start_port, end_port, source_range) \<Rightarrow>
      (start_port, end_port_or end_port start_port))"

definition AllowPort_req :: "env \<Rightarrow> nat \<Rightarrow> allow_req \<Rightarrow> world \<Rightarrow> (error + unit) \<times> world" where
  "AllowPort_req E self r w = (case r of (vm, start_port, end_port, source_range) \<Rightarrow>
      AzureNetworkSecurityGroup_AllowPort E self vm start_port end_port source_range w)"

fun AllowPort_calls ::
  "env \<Rightarrow> nat \<Rightarrow> allow_req list \<Rightarrow> world \<Rightarrow> (error + unit) list \<times> world" where
  "AllowPort_calls E self [] w = ([], w)"
| "AllowPort_calls E self (r # rs) w =
     (let (res, w1) = AllowPort_req E self r w;
          (ress, w2) = AllowPort_calls E self rs w1
      in (res # ress, w2))"

text \<open>
  The name of the rule of a port range, the command that creates it at a priority, the
  state with the rule recorded in the table, and what a call returns after a retryable
  command with a given outcome.
\<close>

definition rule_name_of :: "int \<times> int \<Rightarrow> string" where
  "rule_name_of k = ''allow-'' @ str_int (fst k) @ ''-'' @ str_int (snd k)"

definition allow_rule_command :: "env \<Rightarrow> world \<Rightarrow> nat \<Rightarrow> int \<times> int \<Rightarrow> int \<Rightarrow> string list" where
  "allow_rule_command E w self k priority =
     [AZURE_PATH E, ''network'', ''nsg'', ''rule'', ''create'',
      rule_name_of k,
      ''--destination-port-range'', str_int (fst k) @ ''-'' @ str_int (snd k),
      ''--access'', ''Allow'',
      ''--priority'', str_int priority]
     @ nsg_args w self"

definition add_rule :: "nat \<Rightarrow> int \<times> int \<Rightarrow> world \<Rightarrow> world" where
  "add_rule self k w = w\<lparr>nsgs := (nsgs w)(self := (nsgs w self)
       \<lparr>rules := rules (nsgs w self) @ [(k, rule_name_of k)]\<rparr>)\<rparr>"

definition raised :: "'a option \<Rightarrow> error + unit" where
  "raised out = (case out of None \<Rightarrow> Inl CalledProcessException | Some _ \<Rightarrow> Inr ())"

text \<open>
  A process that has just started, with the benchmark spec \<open>u\<close>: no command issued, no
  object made, no resource group attached to the spec, the counter of virtual networks at
  zero.
\<close>

definition fresh_world :: "string \<Rightarrow> world" where
  "fresh_world u =
     \<lparr>log = [], next_addr = 0,
      groups = (\<lambda>_. undefined), storage_accounts = (\<lambda>_. undefined),
      vnets = (\<lambda>_. undefined), subnets = (\<lambda>_. undefined),
      nsgs = (\<lambda>_. undefined), networks = (\<lambda>_. undefined),
      spec = \<lparr>uid = u, azure_resource_group = None\<rparr>,
      num_vnets = 0, ALL_NSGS = []\<rparr>"

text \<open>
  The run of the spec's example: run id \<open>abc\<close>, zone \<open>eastus2\<close>, and a provider whose
  every command succeeds and answers with full-permission keys.
\<close>

definition example_env :: env where
  "example_env =
     \<lparr>AZURE_PATH = ''azure'', FLAGS_run_uri = ''abc'', FLAGS_zones = [''eastus2''],
      FLAGS_azure_storage_type = ''LRS'',
      command_result = (\<lambda>h c. ([], [], 0)),
      retryable_result = (\<lambda>h c. Some ([], [])),
      json_string = (\<lambda>s. Some s),
      json_first_key = (\<lambda>s. Some (''Full'', s)),
      retries = 0\<rparr>"

text \<open>A security group made in the fresh process; it is the object at address 1.\<close>

definition example_nsg_world :: world where
  "example_nsg_world =
     snd (AzureNetworkSecurityGroup_init example_env ''eastus2'' 0 ''nsg'' (fresh_world ''1''))"

text \<open>
  The command that deletes a rule, and the command that creates the \<open>DenyAll\<close> rule.
\<close>

definition delete_rule_command :: "env \<Rightarrow> world \<Rightarrow> nat \<Rightarrow> string \<Rightarrow> string list" where
  "delete_rule_command E w self rule =
     [AZURE_PATH E, ''network'', ''nsg'', ''rule'', ''delete'', ''--quiet'', rule]
     @ nsg_args w self"

definition deny_all_command :: "env \<Rightarrow> world \<Rightarrow> nat \<Rightarrow> string list" where
  "deny_all_command E w self =
     [AZURE_PATH E, ''network'', ''nsg'', ''rule'', ''create'', ''DenyAll'',
      ''--access'', ''Deny'', ''--priority'', ''4095'']
     @ nsg_args w self"

text \<open>
  A caller that mixes the two operations on one security group, again going on after a call
  that raised.
\<close>

datatype nsg_call =
    CallAllowPort VirtualMachine int "int option" "string option"
  | CallDisallowAllPorts

fun run_call :: "env \<Rightarrow> nat \<Rightarrow> nsg_call \<Rightarrow> world \<Rightarrow> (error + unit) \<times> world" where
  "run_call E self (CallAllowPort vm start_port end_port source_range) w =
     AzureNetworkSecurityGroup_AllowPort E self vm start_port end_port source_range w"
| "run_call E self CallDisallowAllPorts w = AzureNetworkSecurityGroup_DisallowAllPorts E self w"

fun run_calls :: "env \<Rightarrow> nat \<Rightarrow> nsg_call list \<Rightarrow> world \<Rightarrow> (error + unit) list \<times> world" where
  "run_calls E self [] w = ([], w)"
| "run_calls E self (c # cs) w =
     (let (res, w1) = run_call E self c w;
          (ress, w2) = run_calls E self cs w1
      in (res # ress, w2))"

text \<open>The \<open>DenyAll\<close> creations among a list of commands.\<close>

definition is_deny_all_create :: "string list \<Rightarrow> bool" where
  "is_deny_all_create cmd = (take 5 (tl cmd) = [''network'', ''nsg'', ''rule'', ''create'', ''DenyAll''])"

definition deny_all_count :: "world \<Rightarrow> nat" where
  "deny_all_count w = length (filter is_deny_all_create (log w))"

text \<open>
  The example provider with one transient failure: the first retryable command of the
  process gives up, every later one succeeds.
\<close>

definition flaky_env :: env where
  "flaky_env = example_env\<lparr>retryable_result := (\<lambda>h c. if h = [] then None else Some ([], []))\<rparr>"

text \<open>
  The network of zone \<open>eastus2\<close> made in the fresh process: the resource group is the
  object at address 0, the storage account at 1, the virtual network at 2, the subnet at 3,
  the security group at 4 and the network at 5.
\<close>

definition example_network_world :: world where
  "example_network_world = snd (AzureNetwork_init example_env ''eastus2'' (fresh_world ''1''))"

text \<open>
  The text \<^verbatim>\<open>'{}\n'\<close>, an empty JSON object on a line, and a provider that answers every
  command with it and exit status 0.
\<close>

definition empty_object :: string where
  "empty_object = ''{}'' @ [CHR 0x0A]"

definition empty_object_env :: env where
  "empty_object_env = example_env\<lparr>command_result := (\<lambda>h c. (empty_object, [], 0))\<rparr>"

text \<open>
  What the provider answered to the command a probe issued: \<open>w\<close> is the state before the
  probe and \<open>w'\<close> the state after it, whose last logged command is the probe's.
\<close>

definition probe_answer :: "env \<Rightarrow> world \<Rightarrow> world \<Rightarrow> string \<times> string \<times> int" where
  "probe_answer E w w' = command_result E (log w) (last (log w'))"

text \<open>
  A process that constructs one virtual network after the other, each with its location and
  name, in the order in which the constructors take the counter; the result is the list of
  the objects made.
\<close>

fun construct_vnets :: "env \<Rightarrow> (string \<times> string) list \<Rightarrow> world \<Rightarrow> nat list \<times> world" where
  "construct_vnets E [] w = ([], w)"
| "construct_vnets E ((loc, nm) # rest) w =
     (let (a, w1) = AzureVirtualNetwork_init E loc nm w;
          (as, w2) = construct_vnets E rest w1
      in (a # as, w2))"

text \<open>A run that calls \<^verbatim>\<open>GetResourceGroup\<close> \<open>n\<close> times; the result is the handles returned.\<close>

fun GetResourceGroup_calls :: "env \<Rightarrow> nat \<Rightarrow> world \<Rightarrow> nat list \<times> world" where
  "GetResourceGroup_calls E 0 w = ([], w)"
| "GetResourceGroup_calls E (Suc n) w =
     (let (g, w1) = GetResourceGroup E w;
          (gs, w2) = GetResourceGroup_calls E n w1
      in (g # gs, w2))"

text \<open>
  The steps of creating and deleting a network, and the step a command carries out, read off
  the words that follow the path of the command-line tool. A command that only queries (the
  connection string and the keys of a storage account, the existence probes) or that changes
  a rule is no step.
\<close>

datatype step =
    CreateResourceGroup
  | CreateStorageAccount
  | CreateVirtualNetwork
  | CreateSubnet
  | CreateSecurityGroup
  | AttachToSubnet
  | DeleteSubnet
  | DeleteSecurityGroup
  | DeleteVirtualNetwork
  | DeleteStorageAccount
  | DeleteResourceGroup

definition has_words :: "string list \<Rightarrow> string list \<Rightarrow> bool" where
  "has_words ws cmd = (take (length ws) (tl cmd) = ws)"

definition step_of :: "string list \<Rightarrow> step option" where
  "step_of cmd =
     (if has_words [''group'', ''create''] cmd then Some CreateResourceGroup
      else if has_words [''storage'', ''account'', ''create''] cmd then Some CreateStorageAccount
      else if has_words [''network'', ''vnet'', ''create''] cmd then Some CreateVirtualNetwork
      else if has_words [''network'', ''vnet'', ''subnet'', ''create''] cmd then Some CreateSubnet
      else if has_words [''network'', ''nsg'', ''create''] cmd then Some CreateSecurityGroup
      else if has_words [''network'', ''vnet'', ''subnet'', ''set''] cmd then Some AttachToSubnet
      else if has_words [''network'', ''vnet'', ''subnet'', ''delete''] cmd then Some DeleteSubnet
      else if has_words [''network'', ''nsg'', ''delete''] cmd then Some DeleteSecurityGroup
      else if has_words [''network'', ''vnet'', ''delete''] cmd then Some DeleteVirtualNetwork
      else if has_words [''storage'', ''account'', ''delete''] cmd then Some DeleteStorageAccount
      else if has_words [''group'', ''delete''] cmd then Some DeleteResourceGroup
      else None)"

text \<open>
  The steps carried out between a state \<open>w\<close> and a later state \<open>w'\<close>, in the order of
  their commands, and the number of times a step was carried out since the process started.
\<close>

definition steps_between :: "world \<Rightarrow> world \<Rightarrow> step list" where
  "steps_between w w' = List.map_filter step_of (drop (length (log w)) (log w'))"

definition step_count :: "step \<Rightarrow> world \<Rightarrow> nat" where
  "step_count s w = length (filter (\<lambda>cmd. step_of cmd = Some s) (log w))"

text \<open>
  A provider that works: every command exits with status 0, no retryable command gives up,
  and the answers about a storage account parse, with a first key of full permissions.
\<close>

definition provider_succeeds :: "env \<Rightarrow> bool" where
  "provider_succeeds E =
     ((\<forall>h c. snd (snd (command_result E h c)) = 0)
      \<and> (\<forall>h c. retryable_result E h c \<noteq> None)
      \<and> (\<forall>s. json_string E s \<noteq> None)
      \<and> (\<forall>s. map_option fst (json_first_key E s) = Some ''Full''))"

text \<open>
  The handles of a network that are not created yet, and not deleted yet.
\<close>

definition none_created :: "world \<Rightarrow> nat \<Rightarrow> bool" where
  "none_created w n =
     (\<not> created (groups w (AzureNetwork.resource_group (networks w n)))
      \<and> \<not> created (storage_accounts w (storage_account (networks w n)))
      \<and> \<not> created (vnets w (AzureNetwork.vnet (networks w n)))
      \<and> \<not> created (subnets w (AzureNetwork.subnet (networks w n)))
      \<and> \<not> created (nsgs w (nsg (networks w n))))"

definition none_deleted :: "world \<Rightarrow> nat \<Rightarrow> bool" where
  "none_deleted w n =
     (\<not> deleted (groups w (AzureNetwork.resource_group (networks w n)))
      \<and> \<not> deleted (storage_accounts w (storage_account (networks w n)))
      \<and> \<not> deleted (vnets w (AzureNetwork.vnet (networks w n)))
      \<and> \<not> deleted (subnets w (AzureNetwork.subnet (networks w n)))
      \<and> \<not> deleted (nsgs w (nsg (networks w n))))"

text \<open>
  A caller that creates and deletes networks, in any order and any number of times, going
  on after a call that raised.
\<close>

datatype net_call = CallCreate nat | CallDelete nat

fun network_of :: "net_call \<Rightarrow> nat" where
  "network_of (CallCreate n) = n"
| "network_of (CallDelete n) = n"

fun run_net_call :: "env \<Rightarrow> net_call \<Rightarrow> world \<Rightarrow> (error + unit) \<times> world" where
  "run_net_call E (CallCreate n) w = AzureNetwork_Create E n w"
| "run_net_call E (CallDelete n) w = AzureNetwork_Delete E n w"

fun run_net_calls :: "env \<Rightarrow> net_call list \<Rightarrow> world \<Rightarrow> (error + unit) list \<times> world" where
  "run_net_calls E [] w = ([], w)"
| "run_net_calls E (c # cs) w =
     (let (res, w1) = run_net_call E c w;
          (ress, w2) = run_net_calls E cs w1
      in (res # ress, w2))"

text \<open>
  A second network, of zone \<open>westus\<close>, made after the first: it is the object at address
  10 and shares the resource group at address 0.
\<close>

definition example_two_networks_world :: world where
  "example_two_networks_world =
     snd (AzureNetwork_init example_env ''westus'' example_network_world)"

text \<open>
  The storage account of a network is well formed when, being a blob storage account, it has
  an access tier; the constructor makes no other.
\<close>

definition storage_ok :: "world \<Rightarrow> nat \<Rightarrow> bool" where
  "storage_ok w n =
     (kind (storage_accounts w (storage_account (networks w n))) = ''BlobStorage'' \<longrightarrow>
      access_tier (storage_accounts w (storage_account (networks w n))) \<noteq> None)"

text \<open>
  Calls on networks that all hold the resource group \<open>g\<close> and a well-formed storage
  account.
\<close>

definition share_group :: "world \<Rightarrow> nat \<Rightarrow> net_call list \<Rightarrow> bool" where
  "share_group w g calls =
     (\<forall>c\<in>set calls. AzureNetwork.resource_group (networks w (network_of c)) = g
                     \<and> storage_ok w (network_of c))"

section \<open>Facts about one \<^verbatim>\<open>AllowPort\<close> call\<close>

lemma nsg_args_add_rule [simp]: "nsg_args (add_rule self k w) self' = nsg_args w self'"
  by (simp add: nsg_args_def add_rule_def)

lemma AllowPort_req_present:
  "req_key r \<in> set (map fst (rules (nsgs w self))) \<Longrightarrow> AllowPort_req E self r w = (Inr (), w)"
  by (cases r) (simp add: AllowPort_req_def req_key_def AzureNetworkSecurityGroup_AllowPort_def)

lemma AllowPort_req_full:
  "req_key r \<notin> set (map fst (rules (nsgs w self))) \<Longrightarrow> 3995 \<le> length (rules (nsgs w self)) \<Longrightarrow>
   AllowPort_req E self r w = (Inl (ValueError ''Too many firewall rules!''), w)"
  by (cases r) (simp add: AllowPort_req_def req_key_def AzureNetworkSecurityGroup_AllowPort_def Let_def)

lemma AllowPort_req_new:
  assumes "req_key r \<notin> set (map fst (rules (nsgs w self)))" "length (rules (nsgs w self)) < 3995"
  shows "AllowPort_req E self r w =
     (let cmd = allow_rule_command E w self (req_key r) (100 + int (length (rules (nsgs w self))))
      in (raised (retryable_result E (log w) cmd), (add_rule self (req_key r) w)\<lparr>log := log w @ [cmd]\<rparr>))"
  using assms
  by (cases r) (simp add: AllowPort_req_def req_key_def AzureNetworkSecurityGroup_AllowPort_def Let_def
      IssueRetryableCommand_def add_rule_def rule_name_of_def raised_def nsg_args_def
      allow_rule_command_def split: option.splits)

lemma AllowPort_calls_noop:
  "\<forall>r\<in>set reqs. req_key r \<in> set (map fst (rules (nsgs w self))) \<Longrightarrow>
   AllowPort_calls E self reqs w = (replicate (length reqs) (Inr ()), w)"
  by (induction reqs) (simp_all add: AllowPort_req_present)

lemma rules_add_rule [simp]:
  "rules (nsgs (add_rule self k w) self) = rules (nsgs w self) @ [(k, rule_name_of k)]"
  by (simp add: add_rule_def)

lemma log_add_rule [simp]: "log (add_rule self k w) = log w"
  by (simp add: add_rule_def)

lemma keys_full:
  assumes "distinct (map fst R)" "set (map fst R) \<subseteq> K" "finite K" "length R = card K"
  shows "set (map fst R) = K"
proof -
  have "card (set (map fst R)) = card K"
    using assms(1,4) distinct_card[of "map fst R"] by simp
  then show ?thesis using assms(2,3) card_subset_eq by blast
qed

lemma AllowPort_req_inv:
  assumes "distinct (map fst (rules (nsgs w self)))"
    and "set (map fst (rules (nsgs w self))) \<subseteq> K" and "finite K"
    and "length (rules (nsgs w self)) = min 3995 (card K)"
  shows "distinct (map fst (rules (nsgs (snd (AllowPort_req E self r w)) self)))
       \<and> set (map fst (rules (nsgs (snd (AllowPort_req E self r w)) self))) \<subseteq> insert (req_key r) K
       \<and> length (rules (nsgs (snd (AllowPort_req E self r w)) self)) = min 3995 (card (insert (req_key r) K))"
proof (cases "req_key r \<in> set (map fst (rules (nsgs w self)))")
  case True
  then have "req_key r \<in> K" using assms(2) by blast
  then have "insert (req_key r) K = K" by blast
  then show ?thesis using assms True by (simp add: AllowPort_req_present)
next
  case False
  show ?thesis
  proof (cases "length (rules (nsgs w self)) < 3995")
    case True
    then have len: "length (rules (nsgs w self)) = card K" and lt: "card K < 3995"
      using assms(4) by auto
    have "set (map fst (rules (nsgs w self))) = K"
      using keys_full[OF assms(1,2,3) len] .
    then have new: "req_key r \<notin> K" using False by simp
    have "card (insert (req_key r) K) = Suc (card K)"
      using assms(3) new by simp
    then show ?thesis
      using AllowPort_req_new[OF False True, of E] assms(1,2) False len lt
      by (auto simp: Let_def)
  next
    case full: False
    then have len: "length (rules (nsgs w self)) = 3995" and ge: "3995 \<le> card K"
      using assms(4) by auto
    have "card K \<le> card (insert (req_key r) K)"
      using assms(3) by (simp add: card_insert_le)
    then have "min 3995 (card (insert (req_key r) K)) = 3995" using ge by simp
    then show ?thesis
      using AllowPort_req_full[OF False, of E] assms(1,2) len by auto
  qed
qed

lemma AllowPort_calls_inv:
  assumes "distinct (map fst (rules (nsgs w self)))"
    and "set (map fst (rules (nsgs w self))) \<subseteq> K" and "finite K"
    and "length (rules (nsgs w self)) = min 3995 (card K)"
  shows "distinct (map fst (rules (nsgs (snd (AllowPort_calls E self reqs w)) self)))
       \<and> set (map fst (rules (nsgs (snd (AllowPort_calls E self reqs w)) self))) \<subseteq> K \<union> req_key ` set reqs
       \<and> length (rules (nsgs (snd (AllowPort_calls E self reqs w)) self)) = min 3995 (card (K \<union> req_key ` set reqs))"
  using assms
proof (induction reqs arbitrary: w K)
  case Nil
  then show ?case by simp
next
  case (Cons r reqs)
  let ?w1 = "snd (AllowPort_req E self r w)"
  have step: "distinct (map fst (rules (nsgs ?w1 self)))
       \<and> set (map fst (rules (nsgs ?w1 self))) \<subseteq> insert (req_key r) K
       \<and> length (rules (nsgs ?w1 self)) = min 3995 (card (insert (req_key r) K))"
    using AllowPort_req_inv[OF Cons.prems] .
  have fin: "finite (insert (req_key r) K)" using Cons.prems(3) by simp
  have eq: "insert (req_key r) K \<union> req_key ` set reqs = K \<union> req_key ` set (r # reqs)"
    by auto
  have "snd (AllowPort_calls E self (r # reqs) w) = snd (AllowPort_calls E self reqs ?w1)"
    by (simp add: split_beta Let_def)
  then show ?case
    using Cons.IH[of ?w1 "insert (req_key r) K"] step fin eq by simp
qed

lemma example_nsg_world_rules: "rules (nsgs example_nsg_world 1) = []"
  by (simp add: example_nsg_world_def AzureNetworkSecurityGroup_init_def GetResourceGroup_def
      AzureResourceGroup_init_def fresh_world_def example_env_def Let_def)

lemma example_nsg_world_args:
  "nsg_args example_nsg_world 1 = [''--resource-group'', ''pkbabc-1'', ''--nsg-name'', ''nsg'']"
  by (simp add: nsg_args_def example_nsg_world_def AzureNetworkSecurityGroup_init_def
      GetResourceGroup_def AzureResourceGroup_init_def fresh_world_def example_env_def Let_def)

lemma example_nsg_world_log: "log example_nsg_world = []"
  by (simp add: example_nsg_world_def AzureNetworkSecurityGroup_init_def GetResourceGroup_def
      AzureResourceGroup_init_def fresh_world_def example_env_def Let_def)

section \<open>Repeated requests for one port range\<close>

text \<open>
  Claim C1. On a security group whose table does not hold the pair yet and is not full (a
  new security group is one), any non-empty sequence of \<^verbatim>\<open>AllowPort\<close> calls that all
  come to the same (start_port, end_port) pair, whatever the virtual machine and the source
  range of each, issues exactly one command, the rule creation for that pair; the table
  gains exactly one entry, the one for the pair; and every call after the first returns
  without changing the state the first call left.
\<close>

theorem AllowPort_same_pair_once:
  assumes "reqs \<noteq> []" and "\<forall>r\<in>set reqs. req_key r = k"
    and "k \<notin> set (map fst (rules (nsgs w self)))" and "length (rules (nsgs w self)) < 3995"
  shows "log (snd (AllowPort_calls E self reqs w)) =
           log w @ [allow_rule_command E w self k (100 + int (length (rules (nsgs w self))))]
       \<and> rules (nsgs (snd (AllowPort_calls E self reqs w)) self) =
           rules (nsgs w self) @ [(k, rule_name_of k)]
       \<and> length (filter (\<lambda>e. fst e = k) (rules (nsgs (snd (AllowPort_calls E self reqs w)) self))) = 1
       \<and> AllowPort_calls E self reqs w =
           (fst (AllowPort_req E self (hd reqs) w) # replicate (length reqs - 1) (Inr ()),
            snd (AllowPort_req E self (hd reqs) w))"
proof -
  obtain r rest where reqs: "reqs = r # rest" using assms(1) by (cases reqs) auto
  have kr: "req_key r = k" and krest: "\<forall>r\<in>set rest. req_key r = k"
    using assms(2) reqs by auto
  define cmd where "cmd = allow_rule_command E w self k (100 + int (length (rules (nsgs w self))))"
  define w1 where "w1 = (add_rule self k w)\<lparr>log := log w @ [cmd]\<rparr>"
  have first: "AllowPort_req E self r w = (raised (retryable_result E (log w) cmd), w1)"
    using AllowPort_req_new[of r w self E] assms(3,4) kr by (simp add: Let_def cmd_def w1_def)
  have rules1: "rules (nsgs w1 self) = rules (nsgs w self) @ [(k, rule_name_of k)]"
    by (simp add: w1_def)
  have "\<forall>r\<in>set rest. req_key r \<in> set (map fst (rules (nsgs w1 self)))"
    using krest rules1 by simp
  then have rest: "AllowPort_calls E self rest w1 = (replicate (length rest) (Inr ()), w1)"
    by (rule AllowPort_calls_noop)
  have all: "AllowPort_calls E self reqs w =
      (raised (retryable_result E (log w) cmd) # replicate (length rest) (Inr ()), w1)"
    by (simp add: reqs first rest)
  have nofilter: "filter (\<lambda>e. fst e = k) (rules (nsgs w self)) = []"
    using assms(3) by (auto simp: filter_empty_conv)
  have hd: "hd reqs = r" by (simp add: reqs)
  show ?thesis
    unfolding all hd first by (simp add: rules1 nofilter) (simp add: w1_def cmd_def reqs)
qed

lemma example_env_path: "AZURE_PATH example_env = ''azure''"
  by (simp add: example_env_def)

lemma example_rule_command:
  "allow_rule_command example_env example_nsg_world 1 (22, 22) 100 =
     [''azure'', ''network'', ''nsg'', ''rule'', ''create'', ''allow-22-22'',
       ''--destination-port-range'', ''22-22'', ''--access'', ''Allow'',
       ''--priority'', ''100'', ''--resource-group'', ''pkbabc-1'', ''--nsg-name'', ''nsg'']"
  by (simp add: allow_rule_command_def rule_name_of_def str_int_def str_nat.simps digit_def
      example_env_path example_nsg_world_args del: One_nat_def)

theorem AllowPort_same_pair_once_witness:
  "log (snd (AllowPort_calls example_env 1
          [(\<lparr>network = 0\<rparr>, 22, None, None), (\<lparr>network = 5\<rparr>, 22, Some 22, Some ''10.0.0.0/8'')]
          example_nsg_world)) =
     [[''azure'', ''network'', ''nsg'', ''rule'', ''create'', ''allow-22-22'',
       ''--destination-port-range'', ''22-22'', ''--access'', ''Allow'',
       ''--priority'', ''100'', ''--resource-group'', ''pkbabc-1'', ''--nsg-name'', ''nsg'']]
   \<and> rules (nsgs (snd (AllowPort_calls example_env 1
          [(\<lparr>network = 0\<rparr>, 22, None, None), (\<lparr>network = 5\<rparr>, 22, Some 22, Some ''10.0.0.0/8'')]
          example_nsg_world)) 1) = [((22, 22), ''allow-22-22'')]"
proof -
  let ?reqs = "[(\<lparr>network = 0\<rparr>, 22, None, None),
                (\<lparr>network = 5\<rparr>, 22, Some 22, Some ''10.0.0.0/8'')] :: allow_req list"
  have h1: "?reqs \<noteq> []" by simp
  have h2: "\<forall>r\<in>set ?reqs. req_key r = (22, 22)"
    by (simp add: req_key_def end_port_or_def)
  have h3: "(22, 22) \<notin> set (map fst (rules (nsgs example_nsg_world 1)))"
    by (simp add: example_nsg_world_rules del: One_nat_def)
  have h4: "length (rules (nsgs example_nsg_world 1)) < 3995"
    by (simp add: example_nsg_world_rules del: One_nat_def)
  have name: "rule_name_of (22, 22) = ''allow-22-22''"
    by (simp add: rule_name_of_def str_int_def str_nat.simps digit_def)
  note once = AllowPort_same_pair_once [OF h1 h2 h3 h4, of example_env]
  show ?thesis
    using once [THEN conjunct1] once [THEN conjunct2, THEN conjunct1]
    by (simp add: example_nsg_world_rules example_nsg_world_log example_rule_command name
        del: One_nat_def AllowPort_calls.simps)
qed

section \<open>Priorities in call order, and the capacity of the table\<close>

text \<open>
  Claim C2. Start from a security group with an empty table (a new one, or one just after
  \<^verbatim>\<open>DisallowAllPorts\<close>) and make any sequence of \<^verbatim>\<open>AllowPort\<close> calls, repeated
  pairs included. A further call for a pair not requested before is the \<open>k\<close>-th distinct
  request, \<open>k\<close> being one more than the number of distinct pairs requested so far. For
  \<open>k \<le> 3995\<close> it records the rule and issues the rule creation with priority
  \<open>99 + k\<close>, so the priorities are 100, 101, 102, ... in call order. From \<open>k = 3996\<close>
  on it raises \<^verbatim>\<open>ValueError('Too many firewall rules!')\<close>, issues no command and leaves
  the state, the rule table included, as it was.
\<close>

theorem AllowPort_priorities:
  assumes "rules (nsgs w0 self) = []"
    and "w = snd (AllowPort_calls E self reqs w0)"
    and "req_key r \<notin> req_key ` set reqs"
    and "k = card (req_key ` set reqs) + 1"
  shows "AllowPort_req E self r w =
     (if k \<le> 3995
      then (raised (retryable_result E (log w) (allow_rule_command E w self (req_key r) (99 + int k))),
            (add_rule self (req_key r) w)
              \<lparr>log := log w @ [allow_rule_command E w self (req_key r) (99 + int k)]\<rparr>)
      else (Inl (ValueError ''Too many firewall rules!''), w))"
proof -
  have inv: "distinct (map fst (rules (nsgs w self)))
       \<and> set (map fst (rules (nsgs w self))) \<subseteq> req_key ` set reqs
       \<and> length (rules (nsgs w self)) = min 3995 (card (req_key ` set reqs))"
    using AllowPort_calls_inv[of w0 self "{}" E reqs] assms(1,2) by simp
  then have absent: "req_key r \<notin> set (map fst (rules (nsgs w self)))"
    using assms(3) by blast
  show ?thesis
  proof (cases "k \<le> 3995")
    case True
    then have len: "length (rules (nsgs w self)) = k - 1" and lt: "length (rules (nsgs w self)) < 3995"
      using inv assms(4) by auto
    have prio: "100 + int (length (rules (nsgs w self))) = 99 + int k"
      using len assms(4) by simp
    show ?thesis
      using AllowPort_req_new[OF absent lt, of E] True unfolding prio by (simp add: Let_def)
  next
    case False
    then have "3995 \<le> length (rules (nsgs w self))"
      using inv assms(4) by auto
    then show ?thesis
      using AllowPort_req_full[OF absent, of E] False by simp
  qed
qed

lemma nsg_args_AllowPort_req [simp]:
  "nsg_args (snd (AllowPort_req E self r w)) s = nsg_args w s"
proof (cases "req_key r \<in> set (map fst (rules (nsgs w self)))")
  case True
  then show ?thesis by (simp add: AllowPort_req_present)
next
  case False
  show ?thesis
  proof (cases "length (rules (nsgs w self)) < 3995")
    case True
    then show ?thesis
      using AllowPort_req_new [OF False True, of E]
      by (simp add: Let_def nsg_args_def add_rule_def)
  next
    case full: False
    then show ?thesis using AllowPort_req_full [OF False, of E] by simp
  qed
qed

lemma nsg_args_AllowPort_calls [simp]:
  "nsg_args (snd (AllowPort_calls E self reqs w)) s = nsg_args w s"
  by (induction reqs arbitrary: w) (simp_all add: split_beta Let_def)

theorem AllowPort_priorities_witness:
  "AllowPort_req example_env 1 (\<lparr>network = 0\<rparr>, 3306, Some 0, None)
     (snd (AllowPort_calls example_env 1
        [(\<lparr>network = 0\<rparr>, 22, None, None), (\<lparr>network = 5\<rparr>, 22, Some 22, None),
         (\<lparr>network = 0\<rparr>, 80, Some 443, None)] example_nsg_world)) =
   (Inr (),
    (add_rule 1 (3306, 3306)
      (snd (AllowPort_calls example_env 1
        [(\<lparr>network = 0\<rparr>, 22, None, None), (\<lparr>network = 5\<rparr>, 22, Some 22, None),
         (\<lparr>network = 0\<rparr>, 80, Some 443, None)] example_nsg_world)))
     \<lparr>log := log (snd (AllowPort_calls example_env 1
        [(\<lparr>network = 0\<rparr>, 22, None, None), (\<lparr>network = 5\<rparr>, 22, Some 22, None),
         (\<lparr>network = 0\<rparr>, 80, Some 443, None)] example_nsg_world)) @
       [[''azure'', ''network'', ''nsg'', ''rule'', ''create'', ''allow-3306-3306'',
         ''--destination-port-range'', ''3306-3306'', ''--access'', ''Allow'',
         ''--priority'', ''102'', ''--resource-group'', ''pkbabc-1'', ''--nsg-name'', ''nsg'']]\<rparr>)
   \<and> AllowPort_req example_env 1 (\<lparr>network = 0\<rparr>, 4000, None, None)
       (snd (AllowPort_calls example_env 1
          (map (\<lambda>i. (\<lparr>network = 0\<rparr>, int i, None, None)) [1..<3996]) example_nsg_world)) =
     (Inl (ValueError ''Too many firewall rules!''),
      snd (AllowPort_calls example_env 1
          (map (\<lambda>i. (\<lparr>network = 0\<rparr>, int i, None, None)) [1..<3996]) example_nsg_world))"
proof -
  let ?reqs = "[(\<lparr>network = 0\<rparr>, 22, None, None), (\<lparr>network = 5\<rparr>, 22, Some 22, None),
         (\<lparr>network = 0\<rparr>, 80, Some 443, None)] :: allow_req list"
  let ?r = "(\<lparr>network = 0\<rparr>, 3306, Some 0, None) :: allow_req"
  let ?w = "snd (AllowPort_calls example_env 1 ?reqs example_nsg_world)"
  have keys: "req_key ` set ?reqs = {(22, 22), (80, 443)}"
    by (auto simp: req_key_def end_port_or_def)
  have key: "req_key ?r = (3306, 3306)"
    by (simp add: req_key_def end_port_or_def)
  have h3: "req_key ?r \<notin> req_key ` set ?reqs"
    unfolding keys key by simp
  have h4: "(3::nat) = card (req_key ` set ?reqs) + 1"
    unfolding keys by simp
  have cmd: "allow_rule_command example_env ?w 1 (3306, 3306) 102 =
       [''azure'', ''network'', ''nsg'', ''rule'', ''create'', ''allow-3306-3306'',
         ''--destination-port-range'', ''3306-3306'', ''--access'', ''Allow'',
         ''--priority'', ''102'', ''--resource-group'', ''pkbabc-1'', ''--nsg-name'', ''nsg'']"
    by (simp add: allow_rule_command_def rule_name_of_def str_int_def str_nat.simps digit_def
        example_env_path example_nsg_world_args del: One_nat_def AllowPort_calls.simps)
  have ok: "retryable_result example_env h c = Some ([], [])" for h c
    by (simp add: example_env_def)
  have first: "AllowPort_req example_env 1 ?r ?w =
      (Inr (), (add_rule 1 (3306, 3306) ?w)\<lparr>log := log ?w @
       [[''azure'', ''network'', ''nsg'', ''rule'', ''create'', ''allow-3306-3306'',
         ''--destination-port-range'', ''3306-3306'', ''--access'', ''Allow'',
         ''--priority'', ''102'', ''--resource-group'', ''pkbabc-1'', ''--nsg-name'', ''nsg'']]\<rparr>)"
    using AllowPort_priorities [OF example_nsg_world_rules refl h3 h4, of example_env]
    unfolding key
    by (simp add: cmd ok raised_def del: One_nat_def AllowPort_calls.simps)
  let ?many = "map (\<lambda>i. (\<lparr>network = 0\<rparr>, int i, None, None)) [1..<3996] :: allow_req list"
  let ?last = "(\<lparr>network = 0\<rparr>, 4000, None, None) :: allow_req"
  have many_keys: "req_key ` set ?many = (\<lambda>i. (int i, int i)) ` {1..<3996}"
    by (simp add: req_key_def end_port_or_def image_image)
  have "inj_on (\<lambda>i. (int i, int i)) {1..<3996}"
    by (simp add: inj_on_def)
  then have many_card: "card (req_key ` set ?many) = 3995"
    unfolding many_keys by (simp add: card_image)
  have g3: "req_key ?last \<notin> req_key ` set ?many"
    unfolding many_keys by (auto simp: req_key_def end_port_or_def)
  have g4: "(3996::nat) = card (req_key ` set ?many) + 1"
    unfolding many_card by simp
  have second: "AllowPort_req example_env 1 ?last (snd (AllowPort_calls example_env 1 ?many example_nsg_world)) =
      (Inl (ValueError ''Too many firewall rules!''),
       snd (AllowPort_calls example_env 1 ?many example_nsg_world))"
    using AllowPort_priorities [OF example_nsg_world_rules refl g3 g4, of example_env]
    by simp
  show ?thesis using first second by blast
qed

section \<open>Closing all ports\<close>

lemma nsg_args_log [simp]: "nsg_args (w\<lparr>log := l\<rparr>) s = nsg_args w s"
  by (simp add: nsg_args_def)

lemma delete_rules_Inr:
  "delete_rules E self rs w = (Inr (), w1) \<Longrightarrow>
     w1 = w\<lparr>log := log w @ map (\<lambda>(port, rule). delete_rule_command E w self rule) rs\<rparr>"
proof (induction rs arbitrary: w)
  case Nil
  then show ?case by simp
next
  case (Cons a rs)
  obtain port rule where a: "a = (port, rule)" by (cases a)
  let ?cmd = "delete_rule_command E w self rule"
  let ?w = "w\<lparr>log := log w @ [?cmd]\<rparr>"
  from Cons.prems have rest: "delete_rules E self rs ?w = (Inr (), w1)"
    by (auto simp: a IssueRetryableCommand_def delete_rule_command_def split: option.splits)
  have "w1 = ?w\<lparr>log := log ?w @ map (\<lambda>(port, rule). delete_rule_command E ?w self rule) rs\<rparr>"
    using Cons.IH [OF rest] .
  then show ?case by (simp add: a delete_rule_command_def)
qed

lemma delete_rules_succeeds:
  "\<forall>h c. retryable_result E h c \<noteq> None \<Longrightarrow> fst (delete_rules E self rs w) = Inr ()"
proof (induction rs arbitrary: w)
  case Nil
  then show ?case by simp
next
  case (Cons a rs)
  obtain port rule where a: "a = (port, rule)" by (cases a)
  show ?case using Cons
    by (auto simp: a IssueRetryableCommand_def split: option.splits)
qed

lemma clear_rules_triv:
  "rules (nsgs w self) = [] \<Longrightarrow>
   w\<lparr>nsgs := (nsgs w)(self := (nsgs w self)\<lparr>rules := []\<rparr>)\<rparr> = w"
proof -
  assume e: "rules (nsgs w self) = []"
  have "(nsgs w self)\<lparr>rules := []\<rparr> = (nsgs w self)\<lparr>rules := rules (nsgs w self)\<rparr>"
    by (simp only: e)
  then have "(nsgs w self)\<lparr>rules := []\<rparr> = nsgs w self" by simp
  then show ?thesis by simp
qed

lemma DisallowAllPorts_again:
  "rules (nsgs w self) = [] \<Longrightarrow> have_deny_all_rule (nsgs w self) \<Longrightarrow>
   AzureNetworkSecurityGroup_DisallowAllPorts E self w = (Inr (), w)"
  by (simp add: AzureNetworkSecurityGroup_DisallowAllPorts_def clear_rules_triv Let_def)

lemma DisallowAllPorts_Inr:
  assumes "AzureNetworkSecurityGroup_DisallowAllPorts E self w = (Inr (), w1)"
  shows "w1 = w\<lparr>log := log w @ map (\<lambda>(port, rule). delete_rule_command E w self rule) (rules (nsgs w self))
                         @ (if have_deny_all_rule (nsgs w self) then [] else [deny_all_command E w self]),
                nsgs := (nsgs w)(self := (nsgs w self)\<lparr>rules := [], have_deny_all_rule := True\<rparr>)\<rparr>"
proof -
  obtain res wd where d: "delete_rules E self (rules (nsgs w self)) w = (res, wd)"
    by (cases "delete_rules E self (rules (nsgs w self)) w")
  have res: "res = Inr ()"
    using assms d by (cases res) (auto simp: AzureNetworkSecurityGroup_DisallowAllPorts_def)
  have wd: "wd = w\<lparr>log := log w @ map (\<lambda>(port, rule). delete_rule_command E w self rule) (rules (nsgs w self))\<rparr>"
    using delete_rules_Inr d res by blast
  show ?thesis
  proof (cases "have_deny_all_rule (nsgs w self)")
    case True
    have "(nsgs w self)\<lparr>rules := [], have_deny_all_rule := True\<rparr> = (nsgs w self)\<lparr>rules := [], have_deny_all_rule := have_deny_all_rule (nsgs w self)\<rparr>"
      by (simp only: True)
    then have eq: "(nsgs w self)\<lparr>rules := [], have_deny_all_rule := True\<rparr> = (nsgs w self)\<lparr>rules := []\<rparr>"
      by simp
    have "w1 = wd\<lparr>nsgs := (nsgs wd)(self := (nsgs wd self)\<lparr>rules := []\<rparr>)\<rparr>"
      using assms d res True wd
      by (simp add: AzureNetworkSecurityGroup_DisallowAllPorts_def Let_def)
    then show ?thesis
      unfolding eq wd using True by simp
  next
    case False
    then show ?thesis
      using assms d res wd
      by (auto simp: AzureNetworkSecurityGroup_DisallowAllPorts_def Let_def IssueRetryableCommand_def
          deny_all_command_def nsg_args_def split: option.splits)
  qed
qed

text \<open>
  Claim C3. When \<^verbatim>\<open>DisallowAllPorts\<close> returns, the rule table is empty and the
  deny-all flag is set; the commands it issued are one rule deletion for every rule that was
  in the table, in the order of the iteration, followed by the creation of the \<open>DenyAll\<close>
  rule if the flag was not set before; and a second call returns at once, issuing no command
  and leaving the state as it is.
\<close>

theorem DisallowAllPorts_clears:
  assumes "AzureNetworkSecurityGroup_DisallowAllPorts E self w = (Inr (), w1)"
  shows "rules (nsgs w1 self) = []
       \<and> have_deny_all_rule (nsgs w1 self)
       \<and> log w1 = log w @ map (\<lambda>(port, rule). delete_rule_command E w self rule) (rules (nsgs w self))
                         @ (if have_deny_all_rule (nsgs w self) then [] else [deny_all_command E w self])
       \<and> AzureNetworkSecurityGroup_DisallowAllPorts E self w1 = (Inr (), w1)"
proof -
  note w1 = DisallowAllPorts_Inr [OF assms]
  have r: "rules (nsgs w1 self) = []" and f: "have_deny_all_rule (nsgs w1 self)"
    by (simp_all add: w1)
  have l: "log w1 = log w @ map (\<lambda>(port, rule). delete_rule_command E w self rule) (rules (nsgs w self))
                         @ (if have_deny_all_rule (nsgs w self) then [] else [deny_all_command E w self])"
    by (simp add: w1)
  show ?thesis using r f l DisallowAllPorts_again [OF r f] by blast
qed

lemmas example_defs = example_nsg_world_def AzureNetworkSecurityGroup_init_def GetResourceGroup_def
      AzureResourceGroup_init_def fresh_world_def example_env_def

lemma example_two_rules:
  "rules (nsgs (snd (AllowPort_calls example_env 1
      [(\<lparr>network = 0\<rparr>, 22, None, None), (\<lparr>network = 0\<rparr>, 80, None, None)] example_nsg_world)) 1) =
     [((22, 22), ''allow-22-22''), ((80, 80), ''allow-80-80'')]"
  "log (snd (AllowPort_calls example_env 1
      [(\<lparr>network = 0\<rparr>, 22, None, None), (\<lparr>network = 0\<rparr>, 80, None, None)] example_nsg_world)) =
     [[''azure'', ''network'', ''nsg'', ''rule'', ''create'', ''allow-22-22'',
       ''--destination-port-range'', ''22-22'', ''--access'', ''Allow'',
       ''--priority'', ''100'', ''--resource-group'', ''pkbabc-1'', ''--nsg-name'', ''nsg''],
      [''azure'', ''network'', ''nsg'', ''rule'', ''create'', ''allow-80-80'',
       ''--destination-port-range'', ''80-80'', ''--access'', ''Allow'',
       ''--priority'', ''101'', ''--resource-group'', ''pkbabc-1'', ''--nsg-name'', ''nsg'']]"
  "\<not> have_deny_all_rule (nsgs (snd (AllowPort_calls example_env 1
      [(\<lparr>network = 0\<rparr>, 22, None, None), (\<lparr>network = 0\<rparr>, 80, None, None)] example_nsg_world)) 1)"
  by (simp_all add: example_defs AllowPort_req_def AzureNetworkSecurityGroup_AllowPort_def
      end_port_or_def Let_def IssueRetryableCommand_def nsg_args_def str_int_def str_nat.simps digit_def)


lemma DisallowAllPorts_succeeds:
  assumes "\<forall>h c. retryable_result E h c \<noteq> None"
  shows "fst (AzureNetworkSecurityGroup_DisallowAllPorts E self w) = Inr ()"
proof -
  obtain res wd where d: "delete_rules E self (rules (nsgs w self)) w = (res, wd)"
    by (cases "delete_rules E self (rules (nsgs w self)) w")
  have res: "res = Inr ()"
    using delete_rules_succeeds [OF assms, of self "rules (nsgs w self)" w] d by simp
  have nf: "retryable_result E h c \<noteq> None" for h c using assms by blast
  show ?thesis
    using d res
    by (simp add: AzureNetworkSecurityGroup_DisallowAllPorts_def Let_def IssueRetryableCommand_def nf
        split: option.splits)
qed

lemma example_env_never_fails: "\<forall>h c. retryable_result example_env h c \<noteq> None"
  by (simp add: example_env_def)

theorem DisallowAllPorts_clears_witness:
  "rules (nsgs (snd (AzureNetworkSecurityGroup_DisallowAllPorts example_env 1
      (snd (AllowPort_calls example_env 1
        [(\<lparr>network = 0\<rparr>, 22, None, None), (\<lparr>network = 0\<rparr>, 80, None, None)] example_nsg_world)))) 1) = []
   \<and> have_deny_all_rule (nsgs (snd (AzureNetworkSecurityGroup_DisallowAllPorts example_env 1
      (snd (AllowPort_calls example_env 1
        [(\<lparr>network = 0\<rparr>, 22, None, None), (\<lparr>network = 0\<rparr>, 80, None, None)] example_nsg_world)))) 1)
   \<and> log (snd (AzureNetworkSecurityGroup_DisallowAllPorts example_env 1
      (snd (AllowPort_calls example_env 1
        [(\<lparr>network = 0\<rparr>, 22, None, None), (\<lparr>network = 0\<rparr>, 80, None, None)] example_nsg_world)))) =
     [[''azure'', ''network'', ''nsg'', ''rule'', ''create'', ''allow-22-22'',
       ''--destination-port-range'', ''22-22'', ''--access'', ''Allow'',
       ''--priority'', ''100'', ''--resource-group'', ''pkbabc-1'', ''--nsg-name'', ''nsg''],
      [''azure'', ''network'', ''nsg'', ''rule'', ''create'', ''allow-80-80'',
       ''--destination-port-range'', ''80-80'', ''--access'', ''Allow'',
       ''--priority'', ''101'', ''--resource-group'', ''pkbabc-1'', ''--nsg-name'', ''nsg''],
      [''azure'', ''network'', ''nsg'', ''rule'', ''delete'', ''--quiet'', ''allow-22-22'',
       ''--resource-group'', ''pkbabc-1'', ''--nsg-name'', ''nsg''],
      [''azure'', ''network'', ''nsg'', ''rule'', ''delete'', ''--quiet'', ''allow-80-80'',
       ''--resource-group'', ''pkbabc-1'', ''--nsg-name'', ''nsg''],
      [''azure'', ''network'', ''nsg'', ''rule'', ''create'', ''DenyAll'',
       ''--access'', ''Deny'', ''--priority'', ''4095'',
       ''--resource-group'', ''pkbabc-1'', ''--nsg-name'', ''nsg'']]
   \<and> AzureNetworkSecurityGroup_DisallowAllPorts example_env 1
       (snd (AzureNetworkSecurityGroup_DisallowAllPorts example_env 1
         (snd (AllowPort_calls example_env 1
           [(\<lparr>network = 0\<rparr>, 22, None, None), (\<lparr>network = 0\<rparr>, 80, None, None)] example_nsg_world)))) =
     (Inr (),
      snd (AzureNetworkSecurityGroup_DisallowAllPorts example_env 1
         (snd (AllowPort_calls example_env 1
           [(\<lparr>network = 0\<rparr>, 22, None, None), (\<lparr>network = 0\<rparr>, 80, None, None)] example_nsg_world))))"
proof -
  let ?w = "snd (AllowPort_calls example_env 1
        [(\<lparr>network = 0\<rparr>, 22, None, None), (\<lparr>network = 0\<rparr>, 80, None, None)] example_nsg_world)"
  let ?w1 = "snd (AzureNetworkSecurityGroup_DisallowAllPorts example_env 1 ?w)"
  have returns: "AzureNetworkSecurityGroup_DisallowAllPorts example_env 1 ?w = (Inr (), ?w1)"
    using DisallowAllPorts_succeeds [OF example_env_never_fails, of 1 ?w]
    by (simp add: prod_eq_iff del: One_nat_def AllowPort_calls.simps)
  note clears = DisallowAllPorts_clears [OF returns]
  have l: "log ?w1 = log ?w @ map (\<lambda>(port, rule). delete_rule_command example_env ?w 1 rule) (rules (nsgs ?w 1))
                         @ (if have_deny_all_rule (nsgs ?w 1) then [] else [deny_all_command example_env ?w 1])"
    using clears by blast
  show ?thesis
    using clears [THEN conjunct1] clears [THEN conjunct2, THEN conjunct1]
      clears [THEN conjunct2, THEN conjunct2, THEN conjunct2] l
    by (simp add: example_two_rules delete_rule_command_def deny_all_command_def
        example_nsg_world_args example_env_path del: One_nat_def AllowPort_calls.simps)
qed

section \<open>The deny-all rule over the life of a security group\<close>

lemma not_deny_all_allow [simp]: "\<not> is_deny_all_create (allow_rule_command E w self k p)"
  by (simp add: is_deny_all_create_def allow_rule_command_def rule_name_of_def)

lemma not_deny_all_delete [simp]: "\<not> is_deny_all_create (delete_rule_command E w self rule)"
  by (simp add: is_deny_all_create_def delete_rule_command_def)

lemma is_deny_all_deny [simp]: "is_deny_all_create (deny_all_command E w self)"
  by (simp add: is_deny_all_create_def deny_all_command_def)

lemma AllowPort_req_keeps:
  "have_deny_all_rule (nsgs (snd (AllowPort_req E self r w)) self) = have_deny_all_rule (nsgs w self)
   \<and> deny_all_count (snd (AllowPort_req E self r w)) = deny_all_count w"
proof (cases "req_key r \<in> set (map fst (rules (nsgs w self)))")
  case True
  then show ?thesis by (simp add: AllowPort_req_present)
next
  case False
  show ?thesis
  proof (cases "length (rules (nsgs w self)) < 3995")
    case True
    then show ?thesis
      using AllowPort_req_new [OF False True, of E]
      by (simp add: Let_def add_rule_def deny_all_count_def)
  next
    case full: False
    then show ?thesis using AllowPort_req_full [OF False, of E] by simp
  qed
qed

lemma delete_rules_keeps:
  "nsgs (snd (delete_rules E self rs w)) = nsgs w
   \<and> groups (snd (delete_rules E self rs w)) = groups w
   \<and> deny_all_count (snd (delete_rules E self rs w)) = deny_all_count w"
proof (induction rs arbitrary: w)
  case Nil
  then show ?case by simp
next
  case (Cons a rs)
  obtain port rule where a: "a = (port, rule)" by (cases a)
  let ?cmd = "delete_rule_command E w self rule"
  let ?w = "w\<lparr>log := log w @ [?cmd]\<rparr>"
  have step: "nsgs ?w = nsgs w \<and> groups ?w = groups w \<and> deny_all_count ?w = deny_all_count w"
    by (simp add: deny_all_count_def)
  show ?case
  proof (cases "retryable_result E (log w) ?cmd")
    case None
    then have "delete_rules E self (a # rs) w = (Inl CalledProcessException, ?w)"
      by (simp add: a IssueRetryableCommand_def delete_rule_command_def)
    then show ?thesis using step by simp
  next
    case (Some out)
    then have "delete_rules E self (a # rs) w = delete_rules E self rs ?w"
      by (simp add: a IssueRetryableCommand_def delete_rule_command_def)
    then show ?thesis using Cons.IH [of ?w] step by simp
  qed
qed

lemma DisallowAllPorts_keeps:
  assumes "have_deny_all_rule (nsgs w self)"
  shows "have_deny_all_rule (nsgs (snd (AzureNetworkSecurityGroup_DisallowAllPorts E self w)) self)
       \<and> deny_all_count (snd (AzureNetworkSecurityGroup_DisallowAllPorts E self w)) = deny_all_count w"
proof -
  obtain res wd where d: "delete_rules E self (rules (nsgs w self)) w = (res, wd)"
    by (cases "delete_rules E self (rules (nsgs w self)) w")
  have keeps: "nsgs wd = nsgs w" "deny_all_count wd = deny_all_count w"
    using delete_rules_keeps [of E self "rules (nsgs w self)" w] d by simp_all
  show ?thesis
    using d keeps assms
    by (cases res) (simp_all add: AzureNetworkSecurityGroup_DisallowAllPorts_def Let_def deny_all_count_def)
qed

lemma DisallowAllPorts_nofail:
  assumes "\<forall>h c. retryable_result E h c \<noteq> None"
  shows "have_deny_all_rule (nsgs (snd (AzureNetworkSecurityGroup_DisallowAllPorts E self w)) self)
       \<and> deny_all_count (snd (AzureNetworkSecurityGroup_DisallowAllPorts E self w)) \<le> deny_all_count w + 1"
proof -
  let ?w1 = "snd (AzureNetworkSecurityGroup_DisallowAllPorts E self w)"
  have "AzureNetworkSecurityGroup_DisallowAllPorts E self w = (Inr (), ?w1)"
    using DisallowAllPorts_succeeds [OF assms, of self w] by (simp add: prod_eq_iff)
  note w1 = DisallowAllPorts_Inr [OF this]
  have flag: "have_deny_all_rule (nsgs ?w1 self)"
    by (subst w1) simp
  have nodel: "filter is_deny_all_create
      (map (\<lambda>(port, rule). delete_rule_command E w self rule) (rules (nsgs w self))) = []"
    by (auto simp: filter_empty_conv)
  have "deny_all_count ?w1 \<le> deny_all_count w + 1"
    by (subst w1) (simp add: deny_all_count_def nodel)
  then show ?thesis using flag by simp
qed

lemma run_calls_flag_set:
  "have_deny_all_rule (nsgs w self) \<Longrightarrow>
     have_deny_all_rule (nsgs (snd (run_calls E self calls w)) self)
     \<and> deny_all_count (snd (run_calls E self calls w)) = deny_all_count w"
proof (induction calls arbitrary: w)
  case Nil
  then show ?case by simp
next
  case (Cons c calls)
  let ?w1 = "snd (run_call E self c w)"
  have step: "have_deny_all_rule (nsgs ?w1 self) \<and> deny_all_count ?w1 = deny_all_count w"
  proof (cases c)
    case (CallAllowPort vm s e sr)
    then show ?thesis
      using AllowPort_req_keeps [of E self "(vm, s, e, sr)" w] Cons.prems
      by (simp add: AllowPort_req_def)
  next
    case CallDisallowAllPorts
    then show ?thesis using DisallowAllPorts_keeps [OF Cons.prems, of E] by simp
  qed
  have "snd (run_calls E self (c # calls) w) = snd (run_calls E self calls ?w1)"
    by (simp add: split_beta Let_def)
  then show ?case using Cons.IH [of ?w1] step by simp
qed

lemma run_calls_nofail:
  assumes "\<forall>h c. retryable_result E h c \<noteq> None"
  shows "deny_all_count (snd (run_calls E self calls w)) \<le> deny_all_count w + 1"
proof (induction calls arbitrary: w)
  case Nil
  then show ?case by simp
next
  case (Cons c calls)
  let ?w1 = "snd (run_call E self c w)"
  have unfold: "snd (run_calls E self (c # calls) w) = snd (run_calls E self calls ?w1)"
    by (simp add: split_beta Let_def)
  show ?case
  proof (cases c)
    case (CallAllowPort vm s e sr)
    then have "deny_all_count ?w1 = deny_all_count w"
      using AllowPort_req_keeps [of E self "(vm, s, e, sr)" w] by (simp add: AllowPort_req_def)
    then show ?thesis using Cons.IH [of ?w1] unfold by simp
  next
    case CallDisallowAllPorts
    then have "have_deny_all_rule (nsgs ?w1 self)" and "deny_all_count ?w1 \<le> deny_all_count w + 1"
      using DisallowAllPorts_nofail [OF assms, of self w] by simp_all
    then show ?thesis using run_calls_flag_set [of ?w1 self E calls] unfold by simp
  qed
qed

text \<open>
  Claim C4, as amended. For every security group and every sequence of \<^verbatim>\<open>AllowPort\<close>
  and \<^verbatim>\<open>DisallowAllPorts\<close> calls: once the deny-all flag is set it stays set, and no
  further \<open>DenyAll\<close> creation is issued; with a provider whose retryable commands never give
  up, at most one \<open>DenyAll\<close> creation is issued over the whole sequence; and the rule table
  is empty, with the flag set, whenever \<^verbatim>\<open>DisallowAllPorts\<close> returns. The table does
  not stay empty afterwards: \<^verbatim>\<open>AllowPort\<close> does not look at the flag.
\<close>

theorem deny_all_sticky:
  "(have_deny_all_rule (nsgs w self) \<longrightarrow>
      have_deny_all_rule (nsgs (snd (run_calls E self calls w)) self)
      \<and> deny_all_count (snd (run_calls E self calls w)) = deny_all_count w)
   \<and> ((\<forall>h c. retryable_result E h c \<noteq> None) \<longrightarrow>
      deny_all_count (snd (run_calls E self calls w)) \<le> deny_all_count w + 1)
   \<and> (AzureNetworkSecurityGroup_DisallowAllPorts E self w = (Inr (), w1) \<longrightarrow>
      rules (nsgs w1 self) = [] \<and> have_deny_all_rule (nsgs w1 self))"
proof -
  have "rules (nsgs w1 self) = [] \<and> have_deny_all_rule (nsgs w1 self)"
    if "AzureNetworkSecurityGroup_DisallowAllPorts E self w = (Inr (), w1)"
    by (subst (1 2) DisallowAllPorts_Inr [OF that]) simp
  then show ?thesis
    using run_calls_flag_set [of w self E calls] run_calls_nofail [of E self calls w] by blast
qed

lemmas nsg_call_defs = AzureNetworkSecurityGroup_AllowPort_def
  AzureNetworkSecurityGroup_DisallowAllPorts_def end_port_or_def Let_def IssueRetryableCommand_def
  nsg_args_def str_int_def str_nat.simps digit_def

text \<open>
  Claim C4 as stated fails in two ways. After \<^verbatim>\<open>DisallowAllPorts\<close> has set the flag,
  \<^verbatim>\<open>AllowPort(vm, 22)\<close> puts a rule into the table, which is then not empty while the
  flag is set. And when the first \<open>DenyAll\<close> creation gives up, the flag stays unset and the
  next \<^verbatim>\<open>DisallowAllPorts\<close> issues the creation again: two \<open>DenyAll\<close> creations for one
  security group.
\<close>

theorem deny_all_sticky_counterexample:
  "have_deny_all_rule (nsgs (snd (run_calls example_env 1
       [CallDisallowAllPorts] example_nsg_world)) 1)
   \<and> rules (nsgs (snd (run_calls example_env 1
       [CallDisallowAllPorts, CallAllowPort \<lparr>network = 0\<rparr> 22 None None] example_nsg_world)) 1) =
     [((22, 22), ''allow-22-22'')]
   \<and> have_deny_all_rule (nsgs (snd (run_calls example_env 1
       [CallDisallowAllPorts, CallAllowPort \<lparr>network = 0\<rparr> 22 None None] example_nsg_world)) 1)
   \<and> filter is_deny_all_create (log (snd (run_calls flaky_env 1
       [CallDisallowAllPorts, CallDisallowAllPorts] example_nsg_world))) =
     [[''azure'', ''network'', ''nsg'', ''rule'', ''create'', ''DenyAll'',
       ''--access'', ''Deny'', ''--priority'', ''4095'',
       ''--resource-group'', ''pkbabc-1'', ''--nsg-name'', ''nsg''],
      [''azure'', ''network'', ''nsg'', ''rule'', ''create'', ''DenyAll'',
       ''--access'', ''Deny'', ''--priority'', ''4095'',
       ''--resource-group'', ''pkbabc-1'', ''--nsg-name'', ''nsg'']]"
  by (simp add: example_defs flaky_env_def nsg_call_defs is_deny_all_create_def)

theorem deny_all_sticky_witness:
  "have_deny_all_rule (nsgs (snd (run_calls example_env 1
       [CallAllowPort \<lparr>network = 0\<rparr> 22 None None, CallDisallowAllPorts]
       (snd (AzureNetworkSecurityGroup_DisallowAllPorts example_env 1 example_nsg_world)))) 1)
   \<and> deny_all_count (snd (run_calls example_env 1
       [CallAllowPort \<lparr>network = 0\<rparr> 22 None None, CallDisallowAllPorts]
       (snd (AzureNetworkSecurityGroup_DisallowAllPorts example_env 1 example_nsg_world)))) = 1
   \<and> deny_all_count (snd (run_calls example_env 1
       [CallDisallowAllPorts, CallAllowPort \<lparr>network = 0\<rparr> 22 None None, CallDisallowAllPorts]
       example_nsg_world)) \<le> 1
   \<and> rules (nsgs (snd (AzureNetworkSecurityGroup_DisallowAllPorts example_env 1 example_nsg_world)) 1) = []"
proof -
  let ?w1 = "snd (AzureNetworkSecurityGroup_DisallowAllPorts example_env 1 example_nsg_world)"
  have returns: "AzureNetworkSecurityGroup_DisallowAllPorts example_env 1 example_nsg_world = (Inr (), ?w1)"
    using DisallowAllPorts_succeeds [OF example_env_never_fails, of 1 example_nsg_world]
    by (simp add: prod_eq_iff del: One_nat_def)
  have flag: "have_deny_all_rule (nsgs ?w1 1)"
    by (simp add: example_defs nsg_call_defs)
  have count1: "deny_all_count ?w1 = 1"
    by (simp add: example_defs nsg_call_defs deny_all_count_def is_deny_all_create_def)
  have count0: "deny_all_count example_nsg_world = 0"
    by (simp add: deny_all_count_def example_nsg_world_log)
  note a = deny_all_sticky [of ?w1 1 example_env
      "[CallAllowPort \<lparr>network = 0\<rparr> 22 None None, CallDisallowAllPorts]" ?w1]
  note b = deny_all_sticky [of example_nsg_world 1 example_env
      "[CallDisallowAllPorts, CallAllowPort \<lparr>network = 0\<rparr> 22 None None, CallDisallowAllPorts]" ?w1]
  have a1: "have_deny_all_rule (nsgs (snd (run_calls example_env 1
       [CallAllowPort \<lparr>network = 0\<rparr> 22 None None, CallDisallowAllPorts] ?w1)) 1)
      \<and> deny_all_count (snd (run_calls example_env 1
       [CallAllowPort \<lparr>network = 0\<rparr> 22 None None, CallDisallowAllPorts] ?w1)) = 1"
    using a [THEN conjunct1] flag count1 by (simp del: One_nat_def run_calls.simps)
  have b2: "deny_all_count (snd (run_calls example_env 1
       [CallDisallowAllPorts, CallAllowPort \<lparr>network = 0\<rparr> 22 None None, CallDisallowAllPorts]
       example_nsg_world)) \<le> 1"
    using b [THEN conjunct2, THEN conjunct1] example_env_never_fails count0
    by (simp del: One_nat_def run_calls.simps)
  have b3: "rules (nsgs ?w1 1) = []"
    using b [THEN conjunct2, THEN conjunct2] returns by (simp del: One_nat_def)
  show ?thesis using a1 b2 b3 by blast
qed

section \<open>The source range and the end port of \<^verbatim>\<open>AllowPort\<close>\<close>

text \<open>
  Claim C8. \<^verbatim>\<open>AllowPort\<close> does not depend on its \<open>source_range\<close> argument: two
  calls that differ only in it return the same result and leave the same state, on the
  security group as through the firewall, which passes the argument on. The command issued,
  if one is, is the rule creation for the port range at the next priority, whose argument
  list names no source.
\<close>

theorem AllowPort_ignores_source_range:
  "AzureNetworkSecurityGroup_AllowPort E self vm start_port end_port source_range w =
     AzureNetworkSecurityGroup_AllowPort E self vm start_port end_port source_range' w
   \<and> AzureFirewall_AllowPort E vm start_port end_port source_range w =
     AzureFirewall_AllowPort E vm start_port end_port source_range' w
   \<and> (log (snd (AzureNetworkSecurityGroup_AllowPort E self vm start_port end_port source_range w)) = log w
      \<or> log (snd (AzureNetworkSecurityGroup_AllowPort E self vm start_port end_port source_range w)) =
          log w @ [allow_rule_command E w self (start_port, end_port_or end_port start_port)
                     (100 + int (length (rules (nsgs w self))))])"
proof -
  let ?r = "(vm, start_port, end_port, source_range)"
  have same: "AzureNetworkSecurityGroup_AllowPort E s vm start_port end_port source_range w =
     AzureNetworkSecurityGroup_AllowPort E s vm start_port end_port source_range' w" for s
    by (simp add: AzureNetworkSecurityGroup_AllowPort_def)
  have key: "req_key ?r = (start_port, end_port_or end_port start_port)"
    by (simp add: req_key_def)
  have req: "AllowPort_req E self ?r w =
      AzureNetworkSecurityGroup_AllowPort E self vm start_port end_port source_range w"
    by (simp add: AllowPort_req_def)
  have cmds: "log (snd (AllowPort_req E self ?r w)) = log w
      \<or> log (snd (AllowPort_req E self ?r w)) =
          log w @ [allow_rule_command E w self (req_key ?r) (100 + int (length (rules (nsgs w self))))]"
  proof (cases "req_key ?r \<in> set (map fst (rules (nsgs w self)))")
    case True
    then show ?thesis by (simp add: AllowPort_req_present)
  next
    case False
    show ?thesis
    proof (cases "length (rules (nsgs w self)) < 3995")
      case True
      then show ?thesis using AllowPort_req_new [OF False True, of E] by (simp add: Let_def)
    next
      case full: False
      then show ?thesis using AllowPort_req_full [OF False, of E] by simp
    qed
  qed
  show ?thesis
    using same [of self] same [of "nsg (networks w (network vm))"] cmds
    unfolding key req AzureFirewall_AllowPort_def by blast
qed

theorem AllowPort_ignores_source_range_witness:
  "AzureNetworkSecurityGroup_AllowPort example_env 1 \<lparr>network = 0\<rparr> 22 None None example_nsg_world =
     AzureNetworkSecurityGroup_AllowPort example_env 1 \<lparr>network = 0\<rparr> 22 None (Some ''10.0.0.0/8'')
       example_nsg_world
   \<and> log (snd (AzureNetworkSecurityGroup_AllowPort example_env 1 \<lparr>network = 0\<rparr> 22 None
            (Some ''10.0.0.0/8'') example_nsg_world)) =
     [[''azure'', ''network'', ''nsg'', ''rule'', ''create'', ''allow-22-22'',
       ''--destination-port-range'', ''22-22'', ''--access'', ''Allow'',
       ''--priority'', ''100'', ''--resource-group'', ''pkbabc-1'', ''--nsg-name'', ''nsg'']]"
proof -
  have "log (snd (AzureNetworkSecurityGroup_AllowPort example_env 1 \<lparr>network = 0\<rparr> 22 None
            (Some ''10.0.0.0/8'') example_nsg_world)) =
     [[''azure'', ''network'', ''nsg'', ''rule'', ''create'', ''allow-22-22'',
       ''--destination-port-range'', ''22-22'', ''--access'', ''Allow'',
       ''--priority'', ''100'', ''--resource-group'', ''pkbabc-1'', ''--nsg-name'', ''nsg'']]"
    by (simp add: example_defs nsg_call_defs)
  then show ?thesis
    using AllowPort_ignores_source_range [of example_env 1 "\<lparr>network = 0\<rparr>" 22 None None
        example_nsg_world "Some ''10.0.0.0/8''", THEN conjunct1]
    by blast
qed

lemma AllowPort_req_again:
  assumes "req_key r2 = req_key r1"
  shows "snd (AllowPort_req E self r2 (snd (AllowPort_req E self r1 w))) = snd (AllowPort_req E self r1 w)
       \<and> (fst (AllowPort_req E self r1 w) \<noteq> Inl (ValueError ''Too many firewall rules!'') \<longrightarrow>
            fst (AllowPort_req E self r2 (snd (AllowPort_req E self r1 w))) = Inr ())"
proof (cases "req_key r1 \<in> set (map fst (rules (nsgs w self)))")
  case True
  then show ?thesis using assms by (simp add: AllowPort_req_present)
next
  case False
  show ?thesis
  proof (cases "length (rules (nsgs w self)) < 3995")
    case True
    let ?w1 = "snd (AllowPort_req E self r1 w)"
    have "req_key r2 \<in> set (map fst (rules (nsgs ?w1 self)))"
      using AllowPort_req_new [OF False True, of E] assms by (simp add: Let_def)
    then show ?thesis by (simp add: AllowPort_req_present)
  next
    case full: False
    then have "AllowPort_req E self r1 w = (Inl (ValueError ''Too many firewall rules!''), w)"
      and "AllowPort_req E self r2 w = (Inl (ValueError ''Too many firewall rules!''), w)"
      using AllowPort_req_full [of _ w self E] False assms by simp_all
    then show ?thesis by simp
  qed
qed

text \<open>
  Claim C10. A falsy end port stands for the start port: for every start port \<open>p\<close>, the
  calls \<^verbatim>\<open>AllowPort(vm, p)\<close>, \<^verbatim>\<open>AllowPort(vm, p, None)\<close>,
  \<^verbatim>\<open>AllowPort(vm, p, 0)\<close> and \<^verbatim>\<open>AllowPort(vm, p, p)\<close> all look up the key
  \<open>(p, p)\<close> and behave as the call without an end port does. Any of them after any other
  changes nothing, and returns normally unless the first was refused for capacity (then the
  second is refused as well).
\<close>

theorem AllowPort_falsy_end_port:
  assumes "e1 \<in> {None, Some 0, Some p}" and "e2 \<in> {None, Some 0, Some p}"
  shows "end_port_or e1 p = p
       \<and> AzureNetworkSecurityGroup_AllowPort E self vm1 p e1 sr1 w =
           AzureNetworkSecurityGroup_AllowPort E self vm1 p None sr1 w
       \<and> snd (AzureNetworkSecurityGroup_AllowPort E self vm2 p e2 sr2
                (snd (AzureNetworkSecurityGroup_AllowPort E self vm1 p e1 sr1 w))) =
           snd (AzureNetworkSecurityGroup_AllowPort E self vm1 p e1 sr1 w)
       \<and> (fst (AzureNetworkSecurityGroup_AllowPort E self vm1 p e1 sr1 w)
             \<noteq> Inl (ValueError ''Too many firewall rules!'') \<longrightarrow>
           fst (AzureNetworkSecurityGroup_AllowPort E self vm2 p e2 sr2
                (snd (AzureNetworkSecurityGroup_AllowPort E self vm1 p e1 sr1 w))) = Inr ())"
proof -
  have k1: "end_port_or e1 p = p" and k2: "end_port_or e2 p = p"
    using assms by (auto simp: end_port_or_def)
  have same: "AzureNetworkSecurityGroup_AllowPort E self vm1 p e1 sr1 w =
           AzureNetworkSecurityGroup_AllowPort E self vm1 p None sr1 w"
    using k1 by (simp add: AzureNetworkSecurityGroup_AllowPort_def end_port_or_def)
  have "req_key (vm2, p, e2, sr2) = req_key (vm1, p, e1, sr1)"
    using k1 k2 by (simp add: req_key_def)
  from AllowPort_req_again [OF this, of E self w] show ?thesis
    using k1 same by (simp add: AllowPort_req_def)
qed

theorem AllowPort_falsy_end_port_witness:
  "end_port_or (Some 0) 22 = 22
   \<and> AzureNetworkSecurityGroup_AllowPort example_env 1 \<lparr>network = 0\<rparr> 22 (Some 0) None example_nsg_world =
       AzureNetworkSecurityGroup_AllowPort example_env 1 \<lparr>network = 0\<rparr> 22 None None example_nsg_world
   \<and> AzureNetworkSecurityGroup_AllowPort example_env 1 \<lparr>network = 3\<rparr> 22 (Some 22) None
        (snd (AzureNetworkSecurityGroup_AllowPort example_env 1 \<lparr>network = 0\<rparr> 22 (Some 0) None
               example_nsg_world)) =
       (Inr (), snd (AzureNetworkSecurityGroup_AllowPort example_env 1 \<lparr>network = 0\<rparr> 22 (Some 0) None
               example_nsg_world))
   \<and> rules (nsgs (snd (AzureNetworkSecurityGroup_AllowPort example_env 1 \<lparr>network = 0\<rparr> 22 (Some 0) None
               example_nsg_world)) 1) = [((22, 22), ''allow-22-22'')]"
proof -
  have first: "fst (AzureNetworkSecurityGroup_AllowPort example_env 1 \<lparr>network = 0\<rparr> 22 (Some 0) None
      example_nsg_world) = Inr ()"
    by (simp add: example_defs nsg_call_defs)
  have table: "rules (nsgs (snd (AzureNetworkSecurityGroup_AllowPort example_env 1 \<lparr>network = 0\<rparr> 22 (Some 0) None
               example_nsg_world)) 1) = [((22, 22), ''allow-22-22'')]"
    by (simp add: example_defs nsg_call_defs)
  have ne: "fst (AzureNetworkSecurityGroup_AllowPort example_env 1 \<lparr>network = 0\<rparr> 22 (Some 0) None
      example_nsg_world) \<noteq> Inl (ValueError ''Too many firewall rules!'')"
    unfolding first by simp
  have m1: "Some 0 \<in> {None, Some 0, Some (22::int)}" and m2: "Some 22 \<in> {None, Some 0, Some (22::int)}"
    by simp_all
  note t = AllowPort_falsy_end_port [OF m1 m2, of example_env 1 "\<lparr>network = 0\<rparr>" None
      example_nsg_world "\<lparr>network = 3\<rparr>" None]
  have t': "end_port_or (Some 0) 22 = 22
       \<and> AzureNetworkSecurityGroup_AllowPort example_env 1 \<lparr>network = 0\<rparr> 22 (Some 0) None example_nsg_world =
           AzureNetworkSecurityGroup_AllowPort example_env 1 \<lparr>network = 0\<rparr> 22 None None example_nsg_world
       \<and> snd (AzureNetworkSecurityGroup_AllowPort example_env 1 \<lparr>network = 3\<rparr> 22 (Some 22) None
                (snd (AzureNetworkSecurityGroup_AllowPort example_env 1 \<lparr>network = 0\<rparr> 22 (Some 0) None example_nsg_world))) =
           snd (AzureNetworkSecurityGroup_AllowPort example_env 1 \<lparr>network = 0\<rparr> 22 (Some 0) None example_nsg_world)
       \<and> fst (AzureNetworkSecurityGroup_AllowPort example_env 1 \<lparr>network = 3\<rparr> 22 (Some 22) None
                (snd (AzureNetworkSecurityGroup_AllowPort example_env 1 \<lparr>network = 0\<rparr> 22 (Some 0) None example_nsg_world))) = Inr ()"
    using t ne by blast
  show ?thesis using t' table by (metis prod.collapse)
qed

section \<open>The existence probes\<close>

text \<open>
  Claim C6, as amended. The probes of the virtual network, the subnet and the network
  security group return false whenever the show query printed an empty JSON object
  (\<^verbatim>\<open>'{}\n'\<close>) or exited non-zero, and true otherwise. The probes of the resource group
  and the storage account look at the exit status alone: they return true exactly when the
  query exited with status 0, whatever it printed.
\<close>

theorem Exists_probes:
  "(case probe_answer E w (snd (AzureVirtualNetwork__Exists E self w)) of (stdout, stderr, retcode) \<Rightarrow>
      fst (AzureVirtualNetwork__Exists E self w) = (retcode = 0 \<and> stdout \<noteq> empty_object))
   \<and> (case probe_answer E w (snd (AzureSubnet__Exists E self w)) of (stdout, stderr, retcode) \<Rightarrow>
      fst (AzureSubnet__Exists E self w) = (retcode = 0 \<and> stdout \<noteq> empty_object))
   \<and> (case probe_answer E w (snd (AzureNetworkSecurityGroup__Exists E self w)) of (stdout, stderr, retcode) \<Rightarrow>
      fst (AzureNetworkSecurityGroup__Exists E self w) = (retcode = 0 \<and> stdout \<noteq> empty_object))
   \<and> (case probe_answer E w (snd (AzureResourceGroup__Exists E self w)) of (stdout, stderr, retcode) \<Rightarrow>
      fst (AzureResourceGroup__Exists E self w) = (retcode = 0))
   \<and> (case probe_answer E w (snd (AzureStorageAccount__Exists E self w)) of (stdout, stderr, retcode) \<Rightarrow>
      fst (AzureStorageAccount__Exists E self w) = (retcode = 0))"
  by (simp add: probe_answer_def empty_object_def IssueCommand_def split_beta Let_def
      AzureVirtualNetwork__Exists_def AzureSubnet__Exists_def AzureNetworkSecurityGroup__Exists_def
      AzureResourceGroup__Exists_def AzureStorageAccount__Exists_def)

lemma empty_object_env_answer: "command_result empty_object_env h c = (empty_object, [], 0)"
  by (simp add: empty_object_env_def)

text \<open>
  Claim C6 as stated fails for the storage account and the resource group: when the query
  prints \<^verbatim>\<open>'{}\n'\<close> and exits with status 0, both probes return true.
\<close>

theorem Exists_probes_counterexample:
  "probe_answer empty_object_env example_network_world
     (snd (AzureStorageAccount__Exists empty_object_env 1 example_network_world)) = (empty_object, [], 0)
   \<and> fst (AzureStorageAccount__Exists empty_object_env 1 example_network_world)
   \<and> probe_answer empty_object_env example_network_world
     (snd (AzureResourceGroup__Exists empty_object_env 0 example_network_world)) = (empty_object, [], 0)
   \<and> fst (AzureResourceGroup__Exists empty_object_env 0 example_network_world)"
  by (simp add: probe_answer_def empty_object_env_answer IssueCommand_def
      AzureStorageAccount__Exists_def AzureResourceGroup__Exists_def del: One_nat_def)

theorem Exists_probes_witness:
  "\<not> fst (AzureVirtualNetwork__Exists empty_object_env 2 example_network_world)
   \<and> \<not> fst (AzureSubnet__Exists empty_object_env 3 example_network_world)
   \<and> \<not> fst (AzureNetworkSecurityGroup__Exists empty_object_env 4 example_network_world)
   \<and> fst (AzureResourceGroup__Exists empty_object_env 0 example_network_world)
   \<and> fst (AzureStorageAccount__Exists empty_object_env 1 example_network_world)"
proof -
  have answer: "probe_answer empty_object_env w w' = (empty_object, [], 0)" for w w'
    by (simp add: probe_answer_def empty_object_env_answer)
  show ?thesis
    using Exists_probes [where E = empty_object_env and w = example_network_world and self = 2, THEN conjunct1]
      Exists_probes [where E = empty_object_env and w = example_network_world and self = 3, THEN conjunct2, THEN conjunct1]
      Exists_probes [where E = empty_object_env and w = example_network_world and self = 4,
        THEN conjunct2, THEN conjunct2, THEN conjunct1]
      Exists_probes [where E = empty_object_env and w = example_network_world and self = 0,
        THEN conjunct2, THEN conjunct2, THEN conjunct2, THEN conjunct1]
      Exists_probes [where E = empty_object_env and w = example_network_world and self = 1,
        THEN conjunct2, THEN conjunct2, THEN conjunct2, THEN conjunct2]
    by (simp add: answer del: One_nat_def)
qed

section \<open>The address spaces of the virtual networks\<close>

lemma digit_inj: "d < 10 \<Longrightarrow> d' < 10 \<Longrightarrow> digit d = digit d' \<Longrightarrow> d = d'"
proof -
  assume a: "d < 10" "d' < 10" "digit d = digit d'"
  have "distinct ''0123456789''" by simp
  moreover have "d < length ''0123456789''" "d' < length ''0123456789''" using a by simp_all
  ultimately show ?thesis using a(3) unfolding digit_def by (simp only: nth_eq_iff_index_eq)
qed

lemma str_nat_not_empty: "str_nat n \<noteq> []"
  by (subst str_nat.simps) simp

lemma str_nat_inj: "str_nat m = str_nat n \<Longrightarrow> m = n"
proof (induction m arbitrary: n rule: less_induct)
  case (less m)
  show ?case
  proof (cases "m < 10")
    case m: True
    show ?thesis
    proof (cases "n < 10")
      case True
      then show ?thesis using less.prems m
        by (subst (asm) (1 2) str_nat.simps) (simp add: digit_inj)
    next
      case False
      then have "str_nat n = str_nat (n div 10) @ [digit (n mod 10)]"
        by (subst str_nat.simps) simp
      moreover have "str_nat m = [digit m]" using m by (subst str_nat.simps) simp
      ultimately show ?thesis using less.prems str_nat_not_empty [of "n div 10"] by simp
    qed
  next
    case m: False
    then have sm: "str_nat m = str_nat (m div 10) @ [digit (m mod 10)]"
      by (subst str_nat.simps) simp
    show ?thesis
    proof (cases "n < 10")
      case True
      then have "str_nat n = [digit n]" by (subst str_nat.simps) simp
      then show ?thesis using less.prems sm str_nat_not_empty [of "m div 10"] by simp
    next
      case False
      then have sn: "str_nat n = str_nat (n div 10) @ [digit (n mod 10)]"
        by (subst str_nat.simps) simp
      from less.prems sm sn have a: "str_nat (m div 10) = str_nat (n div 10)"
        and b: "digit (m mod 10) = digit (n mod 10)" by simp_all
      have "m div 10 < m" using m by simp
      then have "m div 10 = n div 10" using less.IH a by blast
      moreover have "m mod 10 = n mod 10" using b by (simp add: digit_inj)
      ultimately show ?thesis by (metis div_mult_mod_eq)
    qed
  qed
qed

lemma address_space_inj:
  "''10.'' @ str_int (int m) @ ''.0.0/16'' = ''10.'' @ str_int (int n) @ ''.0.0/16'' \<Longrightarrow> m = n"
  by (simp add: str_int_def str_nat_inj)

lemma GetResourceGroup_frame:
  "vnets (snd (GetResourceGroup E w)) = vnets w
   \<and> num_vnets (snd (GetResourceGroup E w)) = num_vnets w
   \<and> next_addr w \<le> next_addr (snd (GetResourceGroup E w))"
  by (simp add: GetResourceGroup_def AzureResourceGroup_init_def Let_def split: option.splits)

lemma AzureVirtualNetwork_init_effect:
  assumes "AzureVirtualNetwork_init E loc nm w = (a, w')"
  shows "next_addr w \<le> a \<and> next_addr w' = Suc a \<and> num_vnets w' = num_vnets w + 1
       \<and> address_space (vnets w' a) = ''10.'' @ str_int (int (num_vnets w)) @ ''.0.0/16''
       \<and> (\<forall>b. b \<noteq> a \<longrightarrow> vnets w' b = vnets w b)"
  using assms GetResourceGroup_frame [of E w]
  by (auto simp: AzureVirtualNetwork_init_def Let_def split_beta)

lemma construct_vnets_effect:
  assumes "construct_vnets E cs w = (addrs, w')"
  shows "(\<forall>a\<in>set addrs. next_addr w \<le> a \<and> a < next_addr w')
       \<and> next_addr w \<le> next_addr w'
       \<and> (\<forall>b. b < next_addr w \<longrightarrow> vnets w' b = vnets w b)
       \<and> num_vnets w' = num_vnets w + length cs
       \<and> map (\<lambda>a. address_space (vnets w' a)) addrs =
           map (\<lambda>k. ''10.'' @ str_int (int (num_vnets w + k)) @ ''.0.0/16'') [0..<length cs]"
  using assms
proof (induction cs arbitrary: w addrs w')
  case Nil
  then show ?case by simp
next
  case (Cons x cs)
  obtain loc nm where x: "x = (loc, nm)" by (cases x)
  obtain a w1 where init: "AzureVirtualNetwork_init E loc nm w = (a, w1)"
    by (cases "AzureVirtualNetwork_init E loc nm w")
  obtain as w2 where rest: "construct_vnets E cs w1 = (as, w2)"
    by (cases "construct_vnets E cs w1")
  have res: "addrs = a # as" "w' = w2"
    using Cons.prems by (simp_all add: x init rest)
  note e = AzureVirtualNetwork_init_effect [OF init]
  note ih = Cons.IH [OF rest]
  have keep: "vnets w2 a = vnets w1 a" using ih e by simp
  have shift: "map (\<lambda>k. ''10.'' @ str_int (int (num_vnets w + k)) @ ''.0.0/16'') [0..<length (x # cs)]
      = (''10.'' @ str_int (int (num_vnets w)) @ ''.0.0/16'') #
        map (\<lambda>k. ''10.'' @ str_int (int (num_vnets w1 + k)) @ ''.0.0/16'') [0..<length cs]"
  proof -
    have up: "[0..<length (x # cs)] = 0 # map Suc [0..<length cs]"
      by (simp add: upt_conv_Cons map_Suc_upt del: upt_Suc)
    have n1: "num_vnets w1 = Suc (num_vnets w)" using e by simp
    show ?thesis unfolding up n1 by (simp add: comp_def del: upt_Suc of_nat_add of_nat_Suc)
  qed
  show ?case
    unfolding res shift using e ih keep by auto
qed

text \<open>
  Claim C9. When virtual networks are constructed one after the other, in the order in which
  the constructors take the shared counter, the \<open>k\<close>-th construction (counting from 0) is
  given the address space \<open>10.(n + k).0.0/16\<close>, where \<open>n\<close> is the value of the counter
  before the first of them, which is 0 when the process starts; so \<open>N\<close> constructions in a
  new process are given \<open>10.0.0.0/16\<close> to \<open>10.(N-1).0.0/16\<close>, and no two of them the same
  address space.
\<close>

theorem vnet_address_spaces:
  assumes "construct_vnets E cs w = (addrs, w')"
  shows "length addrs = length cs
       \<and> map (\<lambda>a. address_space (vnets w' a)) addrs =
           map (\<lambda>k. ''10.'' @ str_int (int (num_vnets w + k)) @ ''.0.0/16'') [0..<length cs]
       \<and> distinct (map (\<lambda>a. address_space (vnets w' a)) addrs)"
proof -
  note e = construct_vnets_effect [OF assms]
  have spaces: "map (\<lambda>a. address_space (vnets w' a)) addrs =
           map (\<lambda>k. ''10.'' @ str_int (int (num_vnets w + k)) @ ''.0.0/16'') [0..<length cs]"
    using e by blast
  have "inj_on (\<lambda>k. ''10.'' @ str_int (int (num_vnets w + k)) @ ''.0.0/16'') (set [0..<length cs])"
    by (rule inj_onI) (drule address_space_inj, simp)
  then have d: "distinct (map (\<lambda>k. ''10.'' @ str_int (int (num_vnets w + k)) @ ''.0.0/16'') [0..<length cs])"
    by (simp add: distinct_map)
  have "length (map (\<lambda>a. address_space (vnets w' a)) addrs) = length [0..<length cs]"
    unfolding spaces by simp
  then have "length addrs = length cs" by simp
  then show ?thesis using spaces d by simp
qed

theorem vnet_address_spaces_witness:
  "map (\<lambda>a. address_space (vnets (snd (construct_vnets example_env
          [(''eastus2'', ''a''), (''westus'', ''b''), (''northeurope'', ''c'')] (fresh_world ''1''))) a))
       (fst (construct_vnets example_env
          [(''eastus2'', ''a''), (''westus'', ''b''), (''northeurope'', ''c'')] (fresh_world ''1''))) =
     [''10.0.0.0/16'', ''10.1.0.0/16'', ''10.2.0.0/16'']
   \<and> distinct (map (\<lambda>a. address_space (vnets (snd (construct_vnets example_env
          [(''eastus2'', ''a''), (''westus'', ''b''), (''northeurope'', ''c'')] (fresh_world ''1''))) a))
       (fst (construct_vnets example_env
          [(''eastus2'', ''a''), (''westus'', ''b''), (''northeurope'', ''c'')] (fresh_world ''1''))))"
proof -
  let ?cs = "[(''eastus2'', ''a''), (''westus'', ''b''), (''northeurope'', ''c'')]"
  let ?R = "construct_vnets example_env ?cs (fresh_world ''1'')"
  have run: "?R = (fst ?R, snd ?R)" by simp
  have start: "num_vnets (fresh_world ''1'') = 0" by (simp add: fresh_world_def)
  have upt: "[0..<length ?cs] = [0, 1, 2]" by (simp add: upt_rec)
  note t = vnet_address_spaces [OF run]
  have spaces: "map (\<lambda>a. address_space (vnets (snd ?R) a)) (fst ?R) =
      [''10.0.0.0/16'', ''10.1.0.0/16'', ''10.2.0.0/16'']"
    using t [THEN conjunct2, THEN conjunct1] unfolding start upt
    by (simp add: str_int_def str_nat.simps digit_def del: construct_vnets.simps)
  show ?thesis
    using spaces t [THEN conjunct2, THEN conjunct2] by blast
qed

section \<open>The resource group of a run\<close>

lemma GetResourceGroup_calls_cached:
  "azure_resource_group (spec w) = Some g \<Longrightarrow> GetResourceGroup_calls E n w = (replicate n g, w)"
  by (induction n) (simp_all add: GetResourceGroup_def)

lemma GetResourceGroup_first:
  assumes "azure_resource_group (spec w) = None"
  shows "fst (GetResourceGroup E w) = next_addr w
       \<and> azure_resource_group (spec (snd (GetResourceGroup E w))) = Some (next_addr w)
       \<and> AzureResourceGroup.name (groups (snd (GetResourceGroup E w)) (next_addr w)) =
           ''pkb'' @ FLAGS_run_uri E @ ''-'' @ uid (spec w)
       \<and> next_addr (snd (GetResourceGroup E w)) = Suc (next_addr w)
       \<and> (\<forall>b. b \<noteq> next_addr w \<longrightarrow> groups (snd (GetResourceGroup E w)) b = groups w b)
       \<and> log (snd (GetResourceGroup E w)) = log w"
  using assms by (simp add: GetResourceGroup_def AzureResourceGroup_init_def Let_def)

lemma GetResourceGroup_again:
  "GetResourceGroup E (snd (GetResourceGroup E v)) =
     (fst (GetResourceGroup E v), snd (GetResourceGroup E v))"
  by (cases "azure_resource_group (spec v)")
     (simp_all add: GetResourceGroup_def AzureResourceGroup_init_def Let_def)

text \<open>
  Claim C7. In a run whose benchmark spec has no resource group attached yet, any number of
  \<^verbatim>\<open>GetResourceGroup\<close> calls return one and the same handle, the object the first
  call constructs; its name is \<open>pkb\<close>, the run id, a hyphen and the uid of the spec. The
  calls after the first change nothing, so over all the calls one handle is constructed, no
  other resource group object is touched, and no command is issued. In any state, a call
  that follows another returns the handle the first returned and leaves the state alone.
\<close>

theorem GetResourceGroup_once:
  assumes "azure_resource_group (spec w) = None"
    and "GetResourceGroup_calls E n w = (hs, w')" and "0 < n"
  shows "hs = replicate n (next_addr w)
       \<and> AzureResourceGroup.name (groups w' (next_addr w)) =
           ''pkb'' @ FLAGS_run_uri E @ ''-'' @ uid (spec w)
       \<and> w' = snd (GetResourceGroup E w)
       \<and> next_addr w' = Suc (next_addr w)
       \<and> (\<forall>b. b \<noteq> next_addr w \<longrightarrow> groups w' b = groups w b)
       \<and> log w' = log w
       \<and> GetResourceGroup E (snd (GetResourceGroup E v)) =
           (fst (GetResourceGroup E v), snd (GetResourceGroup E v))"
proof -
  obtain m where n: "n = Suc m" using assms(3) by (cases n) auto
  note f = GetResourceGroup_first [OF assms(1), of E]
  let ?w1 = "snd (GetResourceGroup E w)"
  have rest: "GetResourceGroup_calls E m ?w1 = (replicate m (next_addr w), ?w1)"
    using GetResourceGroup_calls_cached f by blast
  have "GetResourceGroup_calls E n w = (replicate n (next_addr w), ?w1)"
    using f rest by (simp add: n split_beta Let_def)
  then have "hs = replicate n (next_addr w)" and "w' = ?w1"
    using assms(2) by simp_all
  then show ?thesis using f GetResourceGroup_again [of E v] by simp
qed

theorem GetResourceGroup_once_witness:
  "fst (GetResourceGroup_calls example_env 3 (fresh_world ''1'')) = [0, 0, 0]
   \<and> AzureResourceGroup.name
       (groups (snd (GetResourceGroup_calls example_env 3 (fresh_world ''1''))) 0) = ''pkbabc-1''
   \<and> next_addr (snd (GetResourceGroup_calls example_env 3 (fresh_world ''1''))) = 1
   \<and> log (snd (GetResourceGroup_calls example_env 3 (fresh_world ''1''))) = []"
proof -
  let ?R = "GetResourceGroup_calls example_env 3 (fresh_world ''1'')"
  have h1: "azure_resource_group (spec (fresh_world ''1'')) = None"
    by (simp add: fresh_world_def)
  have h2: "?R = (fst ?R, snd ?R)" by simp
  have h3: "(0::nat) < 3" by simp
  have start: "next_addr (fresh_world ''1'') = 0" "log (fresh_world ''1'') = []"
    "uid (spec (fresh_world ''1'')) = ''1''" "FLAGS_run_uri example_env = ''abc''"
    by (simp_all add: fresh_world_def example_env_def)
  have rep: "replicate 3 (0::nat) = [0, 0, 0]" by (simp add: numeral_3_eq_3)
  note t = GetResourceGroup_once [OF h1 h2 h3]
  show ?thesis
    using t [THEN conjunct1] t [THEN conjunct2, THEN conjunct1]
      t [THEN conjunct2, THEN conjunct2, THEN conjunct2, THEN conjunct1]
      t [THEN conjunct2, THEN conjunct2, THEN conjunct2, THEN conjunct2, THEN conjunct2, THEN conjunct1]
    unfolding start rep by simp
qed

section \<open>Creating and deleting a network\<close>

lemma Retry_Inr: "f w = (Inr x, w1) \<Longrightarrow> Retry n p f w = (Inr x, w1)"
  by (cases n) simp_all

lemma BaseResource_Create_done:
  "is_created w \<Longrightarrow> BaseResource_Create E is_created set_created create post w = (Inr (), w)"
  by (simp add: BaseResource_Create_def)

lemma BaseResource_Create_ok:
  "\<not> is_created w \<Longrightarrow> create w = (Inr (), w1) \<Longrightarrow>
   BaseResource_Create E is_created set_created create post w = post (set_created w1)"
  by (simp add: BaseResource_Create_def Retry_Inr)

lemma BaseResource_Delete_done:
  "is_deleted w \<Longrightarrow> BaseResource_Delete is_deleted set_deleted delete w = (Inr (), w)"
  by (simp add: BaseResource_Delete_def)

lemma BaseResource_Delete_ok:
  "\<not> is_deleted w \<Longrightarrow> delete w = (Inr (), w1) \<Longrightarrow>
   BaseResource_Delete is_deleted set_deleted delete w = (Inr (), set_deleted w1)"
  by (simp add: BaseResource_Delete_def)

lemma succeeds_retcode: "provider_succeeds E \<Longrightarrow> command_result E h c = (a, b, r) \<Longrightarrow> r = 0"
  unfolding provider_succeeds_def by (metis snd_conv)

lemma world_unchanged [simp]: "w\<lparr>log := log w @ []\<rparr> = w"
  by simp

lemma step_of_simps:
  "step_of (p # ''group'' # ''create'' # xs) = Some CreateResourceGroup"
  "step_of (p # ''storage'' # ''account'' # ''create'' # xs) = Some CreateStorageAccount"
  "step_of (p # ''storage'' # ''account'' # ''connectionstring'' # xs) = None"
  "step_of (p # ''storage'' # ''account'' # ''keys'' # xs) = None"
  "step_of (p # ''network'' # ''vnet'' # ''create'' # xs) = Some CreateVirtualNetwork"
  "step_of (p # ''network'' # ''vnet'' # ''subnet'' # ''create'' # xs) = Some CreateSubnet"
  "step_of (p # ''network'' # ''nsg'' # ''create'' # xs) = Some CreateSecurityGroup"
  "step_of (p # ''network'' # ''vnet'' # ''subnet'' # ''set'' # xs) = Some AttachToSubnet"
  "step_of (p # ''network'' # ''vnet'' # ''subnet'' # ''delete'' # xs) = Some DeleteSubnet"
  "step_of (p # ''network'' # ''nsg'' # ''delete'' # xs) = Some DeleteSecurityGroup"
  "step_of (p # ''network'' # ''vnet'' # ''delete'' # xs) = Some DeleteVirtualNetwork"
  "step_of (p # ''storage'' # ''account'' # ''delete'' # xs) = Some DeleteStorageAccount"
  "step_of (p # ''group'' # ''delete'' # xs) = Some DeleteResourceGroup"
  by (simp_all add: step_of_def has_words_def)

lemma AzureResourceGroup_Create_effect:
  assumes "provider_succeeds E"
  shows "\<exists>cs x. AzureResourceGroup_Create E g w =
            (Inr (), w\<lparr>log := log w @ cs, groups := (groups w)(g := x)\<rparr>)
          \<and> created x \<and> deleted x = deleted (groups w g)
          \<and> map step_of cs = (if created (groups w g) then [] else [Some CreateResourceGroup])"
proof (cases "created (groups w g)")
  case True
  then have "AzureResourceGroup_Create E g w = (Inr (), w)"
    by (simp add: AzureResourceGroup_Create_def BaseResource_Create_done)
  then show ?thesis using True
    by (intro exI [of _ "[]"] exI [of _ "groups w g"]) simp
next
  case False
  let ?c = "[AZURE_PATH E, ''group'', ''create'',
             AzureResourceGroup.name (groups w g), AzureResourceGroup.location (groups w g)]"
  have "AzureResourceGroup__Create E g w = (Inr (), w\<lparr>log := log w @ [?c]\<rparr>)"
    using succeeds_retcode [OF assms]
    by (auto simp: AzureResourceGroup__Create_def IssueCommand_def Let_def split: prod.splits)
  then have "AzureResourceGroup_Create E g w =
      (Inr (), w\<lparr>log := log w @ [?c], groups := (groups w)(g := (groups w g)\<lparr>created := True\<rparr>)\<rparr>)"
    using False
    by (simp add: AzureResourceGroup_Create_def BaseResource_Create_ok [where ?w1.0 = "w\<lparr>log := log w @ [?c]\<rparr>"]
        BaseResource__PostCreate_def)
  then show ?thesis using False
    by (intro exI [of _ "[?c]"] exI [of _ "(groups w g)\<lparr>created := True\<rparr>"]) (simp add: step_of_simps)
qed


lemma succeeds_retryable:
  "provider_succeeds E \<Longrightarrow> \<exists>out. retryable_result E h c = Some out"
  unfolding provider_succeeds_def by auto

lemma IssueRetryableCommand_ok:
  "provider_succeeds E \<Longrightarrow>
   \<exists>out. IssueRetryableCommand E c w = (Inr out, w\<lparr>log := log w @ [c]\<rparr>)"
  using succeeds_retryable [of E "log w" c]
  by (auto simp: IssueRetryableCommand_def)

lemma AzureStorageAccount__PostCreate_effect:
  assumes "provider_succeeds E"
  shows "\<exists>c1 c2 x. AzureStorageAccount__PostCreate E a w =
            (Inr (), w\<lparr>log := log w @ [c1, c2], storage_accounts := (storage_accounts w)(a := x)\<rparr>)
          \<and> created x = created (storage_accounts w a)
          \<and> deleted x = deleted (storage_accounts w a)
          \<and> kind x = kind (storage_accounts w a)
          \<and> access_tier x = access_tier (storage_accounts w a)
          \<and> step_of c1 = None \<and> step_of c2 = None"
proof -
  let ?sa = "storage_accounts w a"
  let ?rg = "AzureResourceGroup.args (groups w (AzureStorageAccount.resource_group ?sa))"
  let ?c1 = "[AZURE_PATH E, ''storage'', ''account'', ''connectionstring'', ''show'', ''--json'',
              AzureStorageAccount.name ?sa] @ ?rg"
  let ?c2 = "[AZURE_PATH E, ''storage'', ''account'', ''keys'', ''list'', ''--json'',
              AzureStorageAccount.name ?sa] @ ?rg"
  obtain out1 where o1: "retryable_result E (log w) ?c1 = Some out1"
    using succeeds_retryable [OF assms] by blast
  have "json_string E (fst out1) \<noteq> None"
    using assms unfolding provider_succeeds_def by blast
  then obtain cs where cs: "json_string E (fst out1) = Some cs" by auto
  obtain out2 where o2: "retryable_result E (log w @ [?c1]) ?c2 = Some out2"
    using succeeds_retryable [OF assms] by blast
  have "map_option fst (json_first_key E (fst out2)) = Some ''Full''"
    using assms unfolding provider_succeeds_def by blast
  then obtain v where v: "json_first_key E (fst out2) = Some (''Full'', v)" by auto
  let ?x = "?sa\<lparr>connection_string := Some cs,
                 connection_args := Some [''--connection-string'', cs], key := Some v\<rparr>"
  have "AzureStorageAccount__PostCreate E a w =
      (Inr (), w\<lparr>log := log w @ [?c1, ?c2], storage_accounts := (storage_accounts w)(a := ?x)\<rparr>)"
    using o1 cs o2 v
    by (cases out1; cases out2)
       (simp add: AzureStorageAccount__PostCreate_def IssueRetryableCommand_def Let_def)
  then show ?thesis
    by (intro exI [of _ ?c1] exI [of _ ?c2] exI [of _ ?x]) (simp add: step_of_simps)
qed

lemma AzureStorageAccount_Create_effect:
  assumes "provider_succeeds E"
    and "kind (storage_accounts w a) = ''BlobStorage'' \<longrightarrow> access_tier (storage_accounts w a) \<noteq> None"
  shows "\<exists>cs x. AzureStorageAccount_Create E a w =
            (Inr (), w\<lparr>log := log w @ cs, storage_accounts := (storage_accounts w)(a := x)\<rparr>)
          \<and> created x \<and> deleted x = deleted (storage_accounts w a)
          \<and> kind x = kind (storage_accounts w a)
          \<and> access_tier x = access_tier (storage_accounts w a)
          \<and> map step_of cs =
              (if created (storage_accounts w a) then [] else [Some CreateStorageAccount, None, None])"
proof (cases "created (storage_accounts w a)")
  case True
  then have "AzureStorageAccount_Create E a w = (Inr (), w)"
    by (simp add: AzureStorageAccount_Create_def BaseResource_Create_done)
  then show ?thesis using True
    by (intro exI [of _ "[]"] exI [of _ "storage_accounts w a"]) simp
next
  case False
  let ?sa = "storage_accounts w a"
  let ?base = "[AZURE_PATH E, ''storage'', ''account'', ''create'', ''--kind'', kind ?sa,
                ''--sku-name'', storage_type ?sa, AzureStorageAccount.name ?sa]
               @ AzureResourceGroup.args (groups w (AzureStorageAccount.resource_group ?sa))"
  let ?loc = "if AzureStorageAccount.location ?sa \<noteq> []
              then ?base @ [''--location'', AzureStorageAccount.location ?sa] else ?base"
  define c where "c = (if kind ?sa = ''BlobStorage''
              then ?loc @ [''--access-tier'', the (access_tier ?sa)] else ?loc)"
  have c: "AzureStorageAccount__Create E a w = (Inr (), w\<lparr>log := log w @ [c]\<rparr>)"
    using assms(2)
    by (cases "access_tier ?sa")
       (simp_all add: c_def AzureStorageAccount__Create_def IssueCommand_def Let_def)
  have sc: "step_of c = Some CreateStorageAccount"
    by (simp add: c_def step_of_simps)
  let ?w1 = "w\<lparr>log := log w @ [c]\<rparr>"
  let ?w2 = "?w1\<lparr>storage_accounts := (storage_accounts ?w1)
                (a := (storage_accounts ?w1 a)\<lparr>created := True\<rparr>)\<rparr>"
  obtain c1 c2 x where post: "AzureStorageAccount__PostCreate E a ?w2 =
            (Inr (), ?w2\<lparr>log := log ?w2 @ [c1, c2], storage_accounts := (storage_accounts ?w2)(a := x)\<rparr>)"
      and x: "created x = created (storage_accounts ?w2 a)" "deleted x = deleted (storage_accounts ?w2 a)"
        "kind x = kind (storage_accounts ?w2 a)" "access_tier x = access_tier (storage_accounts ?w2 a)"
      and s12: "step_of c1 = None" "step_of c2 = None"
    using AzureStorageAccount__PostCreate_effect [OF assms(1), of a ?w2] by blast
  have "AzureStorageAccount_Create E a w =
      (Inr (), w\<lparr>log := log w @ [c, c1, c2], storage_accounts := (storage_accounts w)(a := x)\<rparr>)"
    using False post c
    by (simp add: AzureStorageAccount_Create_def
        BaseResource_Create_ok [where ?w1.0 = "w\<lparr>log := log w @ [c]\<rparr>"])
  then show ?thesis using False x sc s12
    by (intro exI [of _ "[c, c1, c2]"] exI [of _ x]) simp
qed

lemma AzureVirtualNetwork_Create_effect:
  "\<exists>cs x. AzureVirtualNetwork_Create E a w =
            (Inr (), w\<lparr>log := log w @ cs, vnets := (vnets w)(a := x)\<rparr>)
          \<and> created x \<and> deleted x = deleted (vnets w a)
          \<and> map step_of cs = (if created (vnets w a) then [] else [Some CreateVirtualNetwork])"
proof (cases "created (vnets w a)")
  case True
  then have "AzureVirtualNetwork_Create E a w = (Inr (), w)"
    by (simp add: AzureVirtualNetwork_Create_def BaseResource_Create_done)
  then show ?thesis using True
    by (intro exI [of _ "[]"] exI [of _ "vnets w a"]) simp
next
  case False
  let ?c = "[AZURE_PATH E, ''network'', ''vnet'', ''create'',
             ''--location'', AzureVirtualNetwork.location (vnets w a),
             ''--address-prefixes'', address_space (vnets w a),
             AzureVirtualNetwork.name (vnets w a)]
            @ AzureResourceGroup.args (groups w (AzureVirtualNetwork.resource_group (vnets w a)))"
  have c: "AzureVirtualNetwork__Create E a w = (Inr (), w\<lparr>log := log w @ [?c]\<rparr>)"
    by (simp add: AzureVirtualNetwork__Create_def IssueCommand_def Let_def)
  have "AzureVirtualNetwork_Create E a w =
      (Inr (), w\<lparr>log := log w @ [?c], vnets := (vnets w)(a := (vnets w a)\<lparr>created := True\<rparr>)\<rparr>)"
    using False c
    by (simp add: AzureVirtualNetwork_Create_def BaseResource__PostCreate_def
        BaseResource_Create_ok [where ?w1.0 = "w\<lparr>log := log w @ [?c]\<rparr>"])
  then show ?thesis using False
    by (intro exI [of _ "[?c]"] exI [of _ "(vnets w a)\<lparr>created := True\<rparr>"]) (simp add: step_of_simps)
qed

lemma AzureSubnet_Create_effect:
  "\<exists>cs x. AzureSubnet_Create E a w =
            (Inr (), w\<lparr>log := log w @ cs, subnets := (subnets w)(a := x)\<rparr>)
          \<and> created x \<and> deleted x = deleted (subnets w a)
          \<and> map step_of cs = (if created (subnets w a) then [] else [Some CreateSubnet])"
proof (cases "created (subnets w a)")
  case True
  then have "AzureSubnet_Create E a w = (Inr (), w)"
    by (simp add: AzureSubnet_Create_def BaseResource_Create_done)
  then show ?thesis using True
    by (intro exI [of _ "[]"] exI [of _ "subnets w a"]) simp
next
  case False
  let ?c = "[AZURE_PATH E, ''network'', ''vnet'', ''subnet'', ''create'',
             ''--vnet-name'', AzureVirtualNetwork.name (vnets w (AzureSubnet.vnet (subnets w a))),
             ''--address-prefix'', address_space (vnets w (AzureSubnet.vnet (subnets w a))),
             AzureSubnet.name (subnets w a)]
            @ AzureResourceGroup.args (groups w (AzureSubnet.resource_group (subnets w a)))"
  have c: "AzureSubnet__Create E a w = (Inr (), w\<lparr>log := log w @ [?c]\<rparr>)"
    by (simp add: AzureSubnet__Create_def IssueCommand_def Let_def)
  have "AzureSubnet_Create E a w =
      (Inr (), w\<lparr>log := log w @ [?c], subnets := (subnets w)(a := (subnets w a)\<lparr>created := True\<rparr>)\<rparr>)"
    using False c
    by (simp add: AzureSubnet_Create_def BaseResource__PostCreate_def
        BaseResource_Create_ok [where ?w1.0 = "w\<lparr>log := log w @ [?c]\<rparr>"])
  then show ?thesis using False
    by (intro exI [of _ "[?c]"] exI [of _ "(subnets w a)\<lparr>created := True\<rparr>"]) (simp add: step_of_simps)
qed

lemma AzureNetworkSecurityGroup_Create_effect:
  "\<exists>cs x. AzureNetworkSecurityGroup_Create E a w =
            (Inr (), w\<lparr>log := log w @ cs, nsgs := (nsgs w)(a := x)\<rparr>)
          \<and> created x \<and> deleted x = deleted (nsgs w a)
          \<and> map step_of cs = (if created (nsgs w a) then [] else [Some CreateSecurityGroup])"
proof (cases "created (nsgs w a)")
  case True
  then have "AzureNetworkSecurityGroup_Create E a w = (Inr (), w)"
    by (simp add: AzureNetworkSecurityGroup_Create_def BaseResource_Create_done)
  then show ?thesis using True
    by (intro exI [of _ "[]"] exI [of _ "nsgs w a"]) simp
next
  case False
  let ?c = "[AZURE_PATH E, ''network'', ''nsg'', ''create'',
             ''--location'', AzureNetworkSecurityGroup.location (nsgs w a),
             AzureNetworkSecurityGroup.name (nsgs w a)]
            @ AzureResourceGroup.args (groups w (AzureNetworkSecurityGroup.resource_group (nsgs w a)))"
  have c: "AzureNetworkSecurityGroup__Create E a w = (Inr (), w\<lparr>log := log w @ [?c]\<rparr>)"
    by (simp add: AzureNetworkSecurityGroup__Create_def IssueCommand_def Let_def)
  have "AzureNetworkSecurityGroup_Create E a w =
      (Inr (), w\<lparr>log := log w @ [?c], nsgs := (nsgs w)(a := (nsgs w a)\<lparr>created := True\<rparr>)\<rparr>)"
    using False c
    by (simp add: AzureNetworkSecurityGroup_Create_def BaseResource__PostCreate_def
        BaseResource_Create_ok [where ?w1.0 = "w\<lparr>log := log w @ [?c]\<rparr>"])
  then show ?thesis using False
    by (intro exI [of _ "[?c]"] exI [of _ "(nsgs w a)\<lparr>created := True\<rparr>"]) (simp add: step_of_simps)
qed

lemma AttachToSubnet_effect:
  assumes "provider_succeeds E"
  shows "\<exists>c. AzureNetworkSecurityGroup_AttachToSubnet E a w = (Inr (), w\<lparr>log := log w @ [c]\<rparr>)
          \<and> step_of c = Some AttachToSubnet"
proof -
  let ?c = "[AZURE_PATH E, ''network'', ''vnet'', ''subnet'', ''set'',
             ''--name'', AzureSubnet.name (subnets w (AzureNetworkSecurityGroup.subnet (nsgs w a))),
             ''--network-security-group-name'', AzureNetworkSecurityGroup.name (nsgs w a)]
            @ AzureResourceGroup.args (groups w (AzureNetworkSecurityGroup.resource_group (nsgs w a)))
            @ AzureVirtualNetwork.args
                (vnets w (AzureSubnet.vnet (subnets w (AzureNetworkSecurityGroup.subnet (nsgs w a)))))"
  obtain out where "IssueRetryableCommand E ?c w = (Inr out, w\<lparr>log := log w @ [?c]\<rparr>)"
    using IssueRetryableCommand_ok [OF assms] by blast
  then have "AzureNetworkSecurityGroup_AttachToSubnet E a w = (Inr (), w\<lparr>log := log w @ [?c]\<rparr>)"
    by (simp add: AzureNetworkSecurityGroup_AttachToSubnet_def)
  then show ?thesis
    by (intro exI [of _ ?c]) (simp add: step_of_simps)
qed

lemma AzureResourceGroup_Delete_effect:
  "\<exists>cs x. AzureResourceGroup_Delete E a w =
            (Inr (), w\<lparr>log := log w @ cs, groups := (groups w)(a := x)\<rparr>)
          \<and> deleted x \<and> created x = created (groups w a)
          \<and> map step_of cs = (if deleted (groups w a) then [] else [Some DeleteResourceGroup])"
proof (cases "deleted (groups w a)")
  case True
  then have "AzureResourceGroup_Delete E a w = (Inr (), w)"
    by (simp add: AzureResourceGroup_Delete_def BaseResource_Delete_done)
  then show ?thesis using True
    by (intro exI [of _ "[]"] exI [of _ "groups w a"]) simp
next
  case False
  let ?c = "[AZURE_PATH E, ''group'', ''delete'', ''--quiet'', AzureResourceGroup.name (groups w a)]"
  have c: "AzureResourceGroup__Delete E a w = (Inr (), w\<lparr>log := log w @ [?c]\<rparr>)"
    by (simp add: AzureResourceGroup__Delete_def IssueCommand_def Let_def)
  have "AzureResourceGroup_Delete E a w =
      (Inr (), w\<lparr>log := log w @ [?c], groups := (groups w)(a := (groups w a)\<lparr>deleted := True\<rparr>)\<rparr>)"
    using False c
    by (simp add: AzureResourceGroup_Delete_def
        BaseResource_Delete_ok [where ?w1.0 = "w\<lparr>log := log w @ [?c]\<rparr>"])
  then show ?thesis using False
    by (intro exI [of _ "[?c]"] exI [of _ "(groups w a)\<lparr>deleted := True\<rparr>"]) (simp add: step_of_simps)
qed

lemma AzureStorageAccount_Delete_effect:
  "\<exists>cs x. AzureStorageAccount_Delete E a w =
            (Inr (), w\<lparr>log := log w @ cs, storage_accounts := (storage_accounts w)(a := x)\<rparr>)
          \<and> deleted x \<and> created x = created (storage_accounts w a)
          \<and> kind x = kind (storage_accounts w a)
          \<and> access_tier x = access_tier (storage_accounts w a)
          \<and> map step_of cs = (if deleted (storage_accounts w a) then [] else [Some DeleteStorageAccount])"
proof (cases "deleted (storage_accounts w a)")
  case True
  then have "AzureStorageAccount_Delete E a w = (Inr (), w)"
    by (simp add: AzureStorageAccount_Delete_def BaseResource_Delete_done)
  then show ?thesis using True
    by (intro exI [of _ "[]"] exI [of _ "storage_accounts w a"]) simp
next
  case False
  let ?c = "[AZURE_PATH E, ''storage'', ''account'', ''delete'', ''--quiet'',
             AzureStorageAccount.name (storage_accounts w a)]
            @ AzureResourceGroup.args
                (groups w (AzureStorageAccount.resource_group (storage_accounts w a)))"
  have c: "AzureStorageAccount__Delete E a w = (Inr (), w\<lparr>log := log w @ [?c]\<rparr>)"
    by (simp add: AzureStorageAccount__Delete_def IssueCommand_def Let_def)
  have "AzureStorageAccount_Delete E a w =
      (Inr (), w\<lparr>log := log w @ [?c],
                 storage_accounts := (storage_accounts w)(a := (storage_accounts w a)\<lparr>deleted := True\<rparr>)\<rparr>)"
    using False c
    by (simp add: AzureStorageAccount_Delete_def
        BaseResource_Delete_ok [where ?w1.0 = "w\<lparr>log := log w @ [?c]\<rparr>"])
  then show ?thesis using False
    by (intro exI [of _ "[?c]"] exI [of _ "(storage_accounts w a)\<lparr>deleted := True\<rparr>"])
       (simp add: step_of_simps)
qed

lemma AzureVirtualNetwork_Delete_effect:
  "\<exists>cs x. AzureVirtualNetwork_Delete E a w =
            (Inr (), w\<lparr>log := log w @ cs, vnets := (vnets w)(a := x)\<rparr>)
          \<and> deleted x \<and> created x = created (vnets w a)
          \<and> map step_of cs = (if deleted (vnets w a) then [] else [Some DeleteVirtualNetwork])"
proof (cases "deleted (vnets w a)")
  case True
  then have "AzureVirtualNetwork_Delete E a w = (Inr (), w)"
    by (simp add: AzureVirtualNetwork_Delete_def BaseResource_Delete_done)
  then show ?thesis using True
    by (intro exI [of _ "[]"] exI [of _ "vnets w a"]) simp
next
  case False
  let ?c = "[AZURE_PATH E, ''network'', ''vnet'', ''delete'', ''--quiet'',
             AzureVirtualNetwork.name (vnets w a)]
            @ AzureResourceGroup.args (groups w (AzureVirtualNetwork.resource_group (vnets w a)))"
  have c: "AzureVirtualNetwork__Delete E a w = (Inr (), w\<lparr>log := log w @ [?c]\<rparr>)"
    by (simp add: AzureVirtualNetwork__Delete_def IssueCommand_def Let_def)
  have "AzureVirtualNetwork_Delete E a w =
      (Inr (), w\<lparr>log := log w @ [?c], vnets := (vnets w)(a := (vnets w a)\<lparr>deleted := True\<rparr>)\<rparr>)"
    using False c
    by (simp add: AzureVirtualNetwork_Delete_def
        BaseResource_Delete_ok [where ?w1.0 = "w\<lparr>log := log w @ [?c]\<rparr>"])
  then show ?thesis using False
    by (intro exI [of _ "[?c]"] exI [of _ "(vnets w a)\<lparr>deleted := True\<rparr>"]) (simp add: step_of_simps)
qed

lemma AzureSubnet_Delete_effect:
  "\<exists>cs x. AzureSubnet_Delete E a w =
            (Inr (), w\<lparr>log := log w @ cs, subnets := (subnets w)(a := x)\<rparr>)
          \<and> deleted x \<and> created x = created (subnets w a)
          \<and> map step_of cs = (if deleted (subnets w a) then [] else [Some DeleteSubnet])"
proof (cases "deleted (subnets w a)")
  case True
  then have "AzureSubnet_Delete E a w = (Inr (), w)"
    by (simp add: AzureSubnet_Delete_def BaseResource_Delete_done)
  then show ?thesis using True
    by (intro exI [of _ "[]"] exI [of _ "subnets w a"]) simp
next
  case False
  let ?c = "[AZURE_PATH E, ''network'', ''vnet'', ''subnet'', ''delete'',
             ''--vnet-name'', AzureVirtualNetwork.name (vnets w (AzureSubnet.vnet (subnets w a))),
             ''--quiet'',
             AzureSubnet.name (subnets w a)]
            @ AzureResourceGroup.args (groups w (AzureSubnet.resource_group (subnets w a)))"
  have c: "AzureSubnet__Delete E a w = (Inr (), w\<lparr>log := log w @ [?c]\<rparr>)"
    by (simp add: AzureSubnet__Delete_def IssueCommand_def Let_def)
  have "AzureSubnet_Delete E a w =
      (Inr (), w\<lparr>log := log w @ [?c], subnets := (subnets w)(a := (subnets w a)\<lparr>deleted := True\<rparr>)\<rparr>)"
    using False c
    by (simp add: AzureSubnet_Delete_def
        BaseResource_Delete_ok [where ?w1.0 = "w\<lparr>log := log w @ [?c]\<rparr>"])
  then show ?thesis using False
    by (intro exI [of _ "[?c]"] exI [of _ "(subnets w a)\<lparr>deleted := True\<rparr>"]) (simp add: step_of_simps)
qed

lemma AzureNetworkSecurityGroup_Delete_effect:
  "\<exists>cs x. AzureNetworkSecurityGroup_Delete E a w =
            (Inr (), w\<lparr>log := log w @ cs, nsgs := (nsgs w)(a := x)\<rparr>)
          \<and> deleted x \<and> created x = created (nsgs w a)
          \<and> map step_of cs = (if deleted (nsgs w a) then [] else [Some DeleteSecurityGroup])"
proof (cases "deleted (nsgs w a)")
  case True
  then have "AzureNetworkSecurityGroup_Delete E a w = (Inr (), w)"
    by (simp add: AzureNetworkSecurityGroup_Delete_def BaseResource_Delete_done)
  then show ?thesis using True
    by (intro exI [of _ "[]"] exI [of _ "nsgs w a"]) simp
next
  case False
  let ?c = "[AZURE_PATH E, ''network'', ''nsg'', ''delete'', ''--quiet'',
             AzureNetworkSecurityGroup.name (nsgs w a)]
            @ AzureResourceGroup.args (groups w (AzureNetworkSecurityGroup.resource_group (nsgs w a)))"
  have c: "AzureNetworkSecurityGroup__Delete E a w = (Inr (), w\<lparr>log := log w @ [?c]\<rparr>)"
    by (simp add: AzureNetworkSecurityGroup__Delete_def IssueCommand_def Let_def)
  have "AzureNetworkSecurityGroup_Delete E a w =
      (Inr (), w\<lparr>log := log w @ [?c], nsgs := (nsgs w)(a := (nsgs w a)\<lparr>deleted := True\<rparr>)\<rparr>)"
    using False c
    by (simp add: AzureNetworkSecurityGroup_Delete_def
        BaseResource_Delete_ok [where ?w1.0 = "w\<lparr>log := log w @ [?c]\<rparr>"])
  then show ?thesis using False
    by (intro exI [of _ "[?c]"] exI [of _ "(nsgs w a)\<lparr>deleted := True\<rparr>"]) (simp add: step_of_simps)
qed

lemma Retry_returns: "\<not> isl (fst (f w)) \<Longrightarrow> Retry n p f w = f w"
  by (cases n; cases "f w"; cases "fst (f w)") auto

lemma and_then_Inr: "f w = (Inr (), w1) \<Longrightarrow> and_then f g w = g w1"
  by (simp add: and_then_def)

lemma AzureNetwork_Create_effect:
  assumes ok: "provider_succeeds E" and sok: "storage_ok w n"
  shows "\<exists>cs gx sx vx bx kx.
      AzureNetwork_Create E n w =
        (Inr (), w\<lparr>log := log w @ cs,
                   groups := (groups w)(AzureNetwork.resource_group (networks w n) := gx),
                   storage_accounts := (storage_accounts w)(storage_account (networks w n) := sx),
                   vnets := (vnets w)(AzureNetwork.vnet (networks w n) := vx),
                   subnets := (subnets w)(AzureNetwork.subnet (networks w n) := bx),
                   nsgs := (nsgs w)(nsg (networks w n) := kx)\<rparr>)
      \<and> created gx
      \<and> deleted gx = deleted (groups w (AzureNetwork.resource_group (networks w n)))
      \<and> kind sx = kind (storage_accounts w (storage_account (networks w n)))
      \<and> access_tier sx = access_tier (storage_accounts w (storage_account (networks w n)))
      \<and> map step_of cs =
          (if created (groups w (AzureNetwork.resource_group (networks w n)))
           then [] else [Some CreateResourceGroup])
          @ (if created (storage_accounts w (storage_account (networks w n)))
             then [] else [Some CreateStorageAccount, None, None])
          @ (if created (vnets w (AzureNetwork.vnet (networks w n)))
             then [] else [Some CreateVirtualNetwork])
          @ (if created (subnets w (AzureNetwork.subnet (networks w n)))
             then [] else [Some CreateSubnet])
          @ (if created (nsgs w (nsg (networks w n)))
             then [] else [Some CreateSecurityGroup])
          @ [Some AttachToSubnet]"
proof -
  let ?g = "AzureNetwork.resource_group (networks w n)"
  let ?s = "storage_account (networks w n)"
  let ?v = "AzureNetwork.vnet (networks w n)"
  let ?b = "AzureNetwork.subnet (networks w n)"
  let ?k = "nsg (networks w n)"
  obtain c1 gx where s1: "AzureResourceGroup_Create E ?g w =
        (Inr (), w\<lparr>log := log w @ c1, groups := (groups w)(?g := gx)\<rparr>)"
    and g: "created gx" "deleted gx = deleted (groups w ?g)"
    and m1: "map step_of c1 = (if created (groups w ?g) then [] else [Some CreateResourceGroup])"
    using AzureResourceGroup_Create_effect [OF ok, of ?g w] by blast
  let ?w1 = "w\<lparr>log := log w @ c1, groups := (groups w)(?g := gx)\<rparr>"
  have sok1: "kind (storage_accounts ?w1 ?s) = ''BlobStorage'' \<longrightarrow>
              access_tier (storage_accounts ?w1 ?s) \<noteq> None"
    using sok by (simp add: storage_ok_def)
  obtain c2 sx where s2: "AzureStorageAccount_Create E ?s ?w1 =
        (Inr (), ?w1\<lparr>log := log ?w1 @ c2, storage_accounts := (storage_accounts ?w1)(?s := sx)\<rparr>)"
    and s: "kind sx = kind (storage_accounts ?w1 ?s)" "access_tier sx = access_tier (storage_accounts ?w1 ?s)"
    and m2: "map step_of c2 = (if created (storage_accounts ?w1 ?s) then []
                               else [Some CreateStorageAccount, None, None])"
    using AzureStorageAccount_Create_effect [OF ok sok1] by blast
  let ?w2 = "?w1\<lparr>log := log ?w1 @ c2, storage_accounts := (storage_accounts ?w1)(?s := sx)\<rparr>"
  obtain c3 vx where s3: "AzureVirtualNetwork_Create E ?v ?w2 =
        (Inr (), ?w2\<lparr>log := log ?w2 @ c3, vnets := (vnets ?w2)(?v := vx)\<rparr>)"
    and m3: "map step_of c3 = (if created (vnets ?w2 ?v) then [] else [Some CreateVirtualNetwork])"
    using AzureVirtualNetwork_Create_effect [of E ?v ?w2] by blast
  let ?w3 = "?w2\<lparr>log := log ?w2 @ c3, vnets := (vnets ?w2)(?v := vx)\<rparr>"
  obtain c4 bx where s4: "AzureSubnet_Create E ?b ?w3 =
        (Inr (), ?w3\<lparr>log := log ?w3 @ c4, subnets := (subnets ?w3)(?b := bx)\<rparr>)"
    and m4: "map step_of c4 = (if created (subnets ?w3 ?b) then [] else [Some CreateSubnet])"
    using AzureSubnet_Create_effect [of E ?b ?w3] by blast
  let ?w4 = "?w3\<lparr>log := log ?w3 @ c4, subnets := (subnets ?w3)(?b := bx)\<rparr>"
  obtain c5 kx where s5: "AzureNetworkSecurityGroup_Create E ?k ?w4 =
        (Inr (), ?w4\<lparr>log := log ?w4 @ c5, nsgs := (nsgs ?w4)(?k := kx)\<rparr>)"
    and m5: "map step_of c5 = (if created (nsgs ?w4 ?k) then [] else [Some CreateSecurityGroup])"
    using AzureNetworkSecurityGroup_Create_effect [of E ?k ?w4] by blast
  let ?w5 = "?w4\<lparr>log := log ?w4 @ c5, nsgs := (nsgs ?w4)(?k := kx)\<rparr>"
  obtain c6 where s6: "AzureNetworkSecurityGroup_AttachToSubnet E ?k ?w5 =
        (Inr (), ?w5\<lparr>log := log ?w5 @ [c6]\<rparr>)"
    and m6: "step_of c6 = Some AttachToSubnet"
    using AttachToSubnet_effect [OF ok, of ?k ?w5] by blast
  have body: "AzureNetwork_Create_body E n w = (Inr (), ?w5\<lparr>log := log ?w5 @ [c6]\<rparr>)"
    using s1 s2 s3 s4 s5 s6
    by (simp add: AzureNetwork_Create_body_def and_then_def Let_def)
  have "AzureNetwork_Create E n w = (Inr (), ?w5\<lparr>log := log ?w5 @ [c6]\<rparr>)"
    unfolding AzureNetwork_Create_def using body by (simp add: Retry_returns)
  then have final: "AzureNetwork_Create E n w =
        (Inr (), w\<lparr>log := log w @ (c1 @ c2 @ c3 @ c4 @ c5 @ [c6]),
                   groups := (groups w)(?g := gx),
                   storage_accounts := (storage_accounts w)(?s := sx),
                   vnets := (vnets w)(?v := vx),
                   subnets := (subnets w)(?b := bx),
                   nsgs := (nsgs w)(?k := kx)\<rparr>)"
    by simp
  have steps: "map step_of (c1 @ c2 @ c3 @ c4 @ c5 @ [c6]) =
          (if created (groups w ?g) then [] else [Some CreateResourceGroup])
          @ (if created (storage_accounts w ?s) then [] else [Some CreateStorageAccount, None, None])
          @ (if created (vnets w ?v) then [] else [Some CreateVirtualNetwork])
          @ (if created (subnets w ?b) then [] else [Some CreateSubnet])
          @ (if created (nsgs w ?k) then [] else [Some CreateSecurityGroup])
          @ [Some AttachToSubnet]"
    using m1 m2 m3 m4 m5 m6 by simp
  have s': "kind sx = kind (storage_accounts w ?s)" "access_tier sx = access_tier (storage_accounts w ?s)"
    using s by simp_all
  show ?thesis
    using final g s' steps by blast
qed

lemma AzureNetwork_Delete_effect:
  "\<exists>cs gx sx vx bx kx.
      AzureNetwork_Delete E n w =
        (Inr (), w\<lparr>log := log w @ cs,
                   groups := (groups w)(AzureNetwork.resource_group (networks w n) := gx),
                   storage_accounts := (storage_accounts w)(storage_account (networks w n) := sx),
                   vnets := (vnets w)(AzureNetwork.vnet (networks w n) := vx),
                   subnets := (subnets w)(AzureNetwork.subnet (networks w n) := bx),
                   nsgs := (nsgs w)(nsg (networks w n) := kx)\<rparr>)
      \<and> deleted gx
      \<and> created gx = created (groups w (AzureNetwork.resource_group (networks w n)))
      \<and> kind sx = kind (storage_accounts w (storage_account (networks w n)))
      \<and> access_tier sx = access_tier (storage_accounts w (storage_account (networks w n)))
      \<and> map step_of cs =
          (if deleted (subnets w (AzureNetwork.subnet (networks w n)))
           then [] else [Some DeleteSubnet])
          @ (if deleted (nsgs w (nsg (networks w n)))
             then [] else [Some DeleteSecurityGroup])
          @ (if deleted (vnets w (AzureNetwork.vnet (networks w n)))
             then [] else [Some DeleteVirtualNetwork])
          @ (if deleted (storage_accounts w (storage_account (networks w n)))
             then [] else [Some DeleteStorageAccount])
          @ (if deleted (groups w (AzureNetwork.resource_group (networks w n)))
             then [] else [Some DeleteResourceGroup])"
proof -
  let ?g = "AzureNetwork.resource_group (networks w n)"
  let ?s = "storage_account (networks w n)"
  let ?v = "AzureNetwork.vnet (networks w n)"
  let ?b = "AzureNetwork.subnet (networks w n)"
  let ?k = "nsg (networks w n)"
  obtain c1 bx where s1: "AzureSubnet_Delete E ?b w =
        (Inr (), w\<lparr>log := log w @ c1, subnets := (subnets w)(?b := bx)\<rparr>)"
    and m1: "map step_of c1 = (if deleted (subnets w ?b) then [] else [Some DeleteSubnet])"
    using AzureSubnet_Delete_effect [of E ?b w] by blast
  let ?w1 = "w\<lparr>log := log w @ c1, subnets := (subnets w)(?b := bx)\<rparr>"
  obtain c2 kx where s2: "AzureNetworkSecurityGroup_Delete E ?k ?w1 =
        (Inr (), ?w1\<lparr>log := log ?w1 @ c2, nsgs := (nsgs ?w1)(?k := kx)\<rparr>)"
    and m2: "map step_of c2 = (if deleted (nsgs ?w1 ?k) then [] else [Some DeleteSecurityGroup])"
    using AzureNetworkSecurityGroup_Delete_effect [of E ?k ?w1] by blast
  let ?w2 = "?w1\<lparr>log := log ?w1 @ c2, nsgs := (nsgs ?w1)(?k := kx)\<rparr>"
  obtain c3 vx where s3: "AzureVirtualNetwork_Delete E ?v ?w2 =
        (Inr (), ?w2\<lparr>log := log ?w2 @ c3, vnets := (vnets ?w2)(?v := vx)\<rparr>)"
    and m3: "map step_of c3 = (if deleted (vnets ?w2 ?v) then [] else [Some DeleteVirtualNetwork])"
    using AzureVirtualNetwork_Delete_effect [of E ?v ?w2] by blast
  let ?w3 = "?w2\<lparr>log := log ?w2 @ c3, vnets := (vnets ?w2)(?v := vx)\<rparr>"
  obtain c4 sx where s4: "AzureStorageAccount_Delete E ?s ?w3 =
        (Inr (), ?w3\<lparr>log := log ?w3 @ c4, storage_accounts := (storage_accounts ?w3)(?s := sx)\<rparr>)"
    and s: "kind sx = kind (storage_accounts ?w3 ?s)" "access_tier sx = access_tier (storage_accounts ?w3 ?s)"
    and m4: "map step_of c4 = (if deleted (storage_accounts ?w3 ?s) then [] else [Some DeleteStorageAccount])"
    using AzureStorageAccount_Delete_effect [of E ?s ?w3] by blast
  let ?w4 = "?w3\<lparr>log := log ?w3 @ c4, storage_accounts := (storage_accounts ?w3)(?s := sx)\<rparr>"
  obtain c5 gx where s5: "AzureResourceGroup_Delete E ?g ?w4 =
        (Inr (), ?w4\<lparr>log := log ?w4 @ c5, groups := (groups ?w4)(?g := gx)\<rparr>)"
    and g: "deleted gx" "created gx = created (groups ?w4 ?g)"
    and m5: "map step_of c5 = (if deleted (groups ?w4 ?g) then [] else [Some DeleteResourceGroup])"
    using AzureResourceGroup_Delete_effect [of E ?g ?w4] by blast
  have "AzureNetwork_Delete E n w = (Inr (), ?w4\<lparr>log := log ?w4 @ c5, groups := (groups ?w4)(?g := gx)\<rparr>)"
    using s1 s2 s3 s4 s5
    by (simp add: AzureNetwork_Delete_def and_then_def Let_def)
  then have final: "AzureNetwork_Delete E n w =
        (Inr (), w\<lparr>log := log w @ (c1 @ c2 @ c3 @ c4 @ c5),
                   groups := (groups w)(?g := gx),
                   storage_accounts := (storage_accounts w)(?s := sx),
                   vnets := (vnets w)(?v := vx),
                   subnets := (subnets w)(?b := bx),
                   nsgs := (nsgs w)(?k := kx)\<rparr>)"
    by simp
  have steps: "map step_of (c1 @ c2 @ c3 @ c4 @ c5) =
          (if deleted (subnets w ?b) then [] else [Some DeleteSubnet])
          @ (if deleted (nsgs w ?k) then [] else [Some DeleteSecurityGroup])
          @ (if deleted (vnets w ?v) then [] else [Some DeleteVirtualNetwork])
          @ (if deleted (storage_accounts w ?s) then [] else [Some DeleteStorageAccount])
          @ (if deleted (groups w ?g) then [] else [Some DeleteResourceGroup])"
    using m1 m2 m3 m4 m5 by simp
  have s': "kind sx = kind (storage_accounts w ?s)" "access_tier sx = access_tier (storage_accounts w ?s)"
    using s by simp_all
  have g': "created gx = created (groups w ?g)" using g by simp
  show ?thesis
    using final g(1) g' s' steps by blast
qed

lemma map_filter_via_map: "List.map_filter f xs = List.map_filter id (map f xs)"
  by (induction xs) (simp_all split: option.splits)

lemma steps_between_append:
  "log w' = log w @ cs \<Longrightarrow> steps_between w w' = List.map_filter id (map step_of cs)"
  by (simp add: steps_between_def map_filter_via_map [of step_of])

lemma step_count_append:
  "log w' = log w @ cs \<Longrightarrow>
   step_count s w' = step_count s w + length (filter (\<lambda>x. x = Some s) (map step_of cs))"
  by (simp add: step_count_def filter_map comp_def)

lemma Create_order:
  assumes "provider_succeeds E" and "storage_ok w n" and "none_created w n"
  shows "fst (AzureNetwork_Create E n w) = Inr ()
       \<and> steps_between w (snd (AzureNetwork_Create E n w)) =
           [CreateResourceGroup, CreateStorageAccount, CreateVirtualNetwork, CreateSubnet,
            CreateSecurityGroup, AttachToSubnet]"
proof -
  obtain cs w' where r: "AzureNetwork_Create E n w = (Inr (), w')" and l: "log w' = log w @ cs"
    and m: "map step_of cs =
          [Some CreateResourceGroup, Some CreateStorageAccount, None, None,
           Some CreateVirtualNetwork, Some CreateSubnet, Some CreateSecurityGroup,
           Some AttachToSubnet]"
    using AzureNetwork_Create_effect [OF assms(1,2)] assms(3)
    by (auto simp: none_created_def)
  show ?thesis
    using steps_between_append [OF l] by (simp add: r m)
qed

lemma Delete_order:
  assumes "none_deleted w n"
  shows "fst (AzureNetwork_Delete E n w) = Inr ()
       \<and> steps_between w (snd (AzureNetwork_Delete E n w)) =
           [DeleteSubnet, DeleteSecurityGroup, DeleteVirtualNetwork, DeleteStorageAccount,
            DeleteResourceGroup]"
proof -
  obtain cs w' where r: "AzureNetwork_Delete E n w = (Inr (), w')" and l: "log w' = log w @ cs"
    and m: "map step_of cs =
          [Some DeleteSubnet, Some DeleteSecurityGroup, Some DeleteVirtualNetwork,
           Some DeleteStorageAccount, Some DeleteResourceGroup]"
    using AzureNetwork_Delete_effect [of E n w] assms
    by (auto simp: none_deleted_def)
  show ?thesis
    using steps_between_append [OF l] by (simp add: r m)
qed

lemma Create_counts:
  assumes ok: "provider_succeeds E" and sok: "storage_ok w n"
  shows "step_count CreateResourceGroup (snd (AzureNetwork_Create E n w)) =
           step_count CreateResourceGroup w
           + (if created (groups w (AzureNetwork.resource_group (networks w n))) then 0 else 1)
       \<and> step_count DeleteResourceGroup (snd (AzureNetwork_Create E n w)) =
           step_count DeleteResourceGroup w
       \<and> created (groups (snd (AzureNetwork_Create E n w)) (AzureNetwork.resource_group (networks w n)))
       \<and> (\<forall>a. deleted (groups (snd (AzureNetwork_Create E n w)) a) = deleted (groups w a))
       \<and> (\<forall>a. created (groups w a) \<longrightarrow> created (groups (snd (AzureNetwork_Create E n w)) a))
       \<and> networks (snd (AzureNetwork_Create E n w)) = networks w
       \<and> (\<forall>a. kind (storage_accounts (snd (AzureNetwork_Create E n w)) a) = kind (storage_accounts w a)
             \<and> access_tier (storage_accounts (snd (AzureNetwork_Create E n w)) a) =
                 access_tier (storage_accounts w a))"
proof -
  obtain cs gx sx vx bx kx where
    r: "AzureNetwork_Create E n w =
        (Inr (), w\<lparr>log := log w @ cs,
                   groups := (groups w)(AzureNetwork.resource_group (networks w n) := gx),
                   storage_accounts := (storage_accounts w)(storage_account (networks w n) := sx),
                   vnets := (vnets w)(AzureNetwork.vnet (networks w n) := vx),
                   subnets := (subnets w)(AzureNetwork.subnet (networks w n) := bx),
                   nsgs := (nsgs w)(nsg (networks w n) := kx)\<rparr>)"
    and g: "created gx" "deleted gx = deleted (groups w (AzureNetwork.resource_group (networks w n)))"
    and s: "kind sx = kind (storage_accounts w (storage_account (networks w n)))"
      "access_tier sx = access_tier (storage_accounts w (storage_account (networks w n)))"
    and m: "map step_of cs =
          (if created (groups w (AzureNetwork.resource_group (networks w n)))
           then [] else [Some CreateResourceGroup])
          @ (if created (storage_accounts w (storage_account (networks w n)))
             then [] else [Some CreateStorageAccount, None, None])
          @ (if created (vnets w (AzureNetwork.vnet (networks w n)))
             then [] else [Some CreateVirtualNetwork])
          @ (if created (subnets w (AzureNetwork.subnet (networks w n)))
             then [] else [Some CreateSubnet])
          @ (if created (nsgs w (nsg (networks w n)))
             then [] else [Some CreateSecurityGroup])
          @ [Some AttachToSubnet]"
    using AzureNetwork_Create_effect [OF ok sok] by blast
  let ?w' = "snd (AzureNetwork_Create E n w)"
  have l: "log ?w' = log w @ cs" by (simp add: r)
  have c1: "step_count CreateResourceGroup ?w' = step_count CreateResourceGroup w
           + (if created (groups w (AzureNetwork.resource_group (networks w n))) then 0 else 1)"
    unfolding step_count_append [OF l] m by simp
  have c2: "step_count DeleteResourceGroup ?w' = step_count DeleteResourceGroup w"
    unfolding step_count_append [OF l] m by simp
  show ?thesis
    using c1 c2 g s by (simp add: r)
qed

lemma Delete_counts:
  "step_count DeleteResourceGroup (snd (AzureNetwork_Delete E n w)) =
           step_count DeleteResourceGroup w
           + (if deleted (groups w (AzureNetwork.resource_group (networks w n))) then 0 else 1)
       \<and> step_count CreateResourceGroup (snd (AzureNetwork_Delete E n w)) =
           step_count CreateResourceGroup w
       \<and> deleted (groups (snd (AzureNetwork_Delete E n w)) (AzureNetwork.resource_group (networks w n)))
       \<and> (\<forall>a. created (groups (snd (AzureNetwork_Delete E n w)) a) = created (groups w a))
       \<and> (\<forall>a. deleted (groups w a) \<longrightarrow> deleted (groups (snd (AzureNetwork_Delete E n w)) a))
       \<and> networks (snd (AzureNetwork_Delete E n w)) = networks w
       \<and> (\<forall>a. kind (storage_accounts (snd (AzureNetwork_Delete E n w)) a) = kind (storage_accounts w a)
             \<and> access_tier (storage_accounts (snd (AzureNetwork_Delete E n w)) a) =
                 access_tier (storage_accounts w a))"
proof -
  obtain cs gx sx vx bx kx where
    r: "AzureNetwork_Delete E n w =
        (Inr (), w\<lparr>log := log w @ cs,
                   groups := (groups w)(AzureNetwork.resource_group (networks w n) := gx),
                   storage_accounts := (storage_accounts w)(storage_account (networks w n) := sx),
                   vnets := (vnets w)(AzureNetwork.vnet (networks w n) := vx),
                   subnets := (subnets w)(AzureNetwork.subnet (networks w n) := bx),
                   nsgs := (nsgs w)(nsg (networks w n) := kx)\<rparr>)"
    and g: "deleted gx" "created gx = created (groups w (AzureNetwork.resource_group (networks w n)))"
    and s: "kind sx = kind (storage_accounts w (storage_account (networks w n)))"
      "access_tier sx = access_tier (storage_accounts w (storage_account (networks w n)))"
    and m: "map step_of cs =
          (if deleted (subnets w (AzureNetwork.subnet (networks w n)))
           then [] else [Some DeleteSubnet])
          @ (if deleted (nsgs w (nsg (networks w n)))
             then [] else [Some DeleteSecurityGroup])
          @ (if deleted (vnets w (AzureNetwork.vnet (networks w n)))
             then [] else [Some DeleteVirtualNetwork])
          @ (if deleted (storage_accounts w (storage_account (networks w n)))
             then [] else [Some DeleteStorageAccount])
          @ (if deleted (groups w (AzureNetwork.resource_group (networks w n)))
             then [] else [Some DeleteResourceGroup])"
    using AzureNetwork_Delete_effect [of E n w] by blast
  let ?w' = "snd (AzureNetwork_Delete E n w)"
  have l: "log ?w' = log w @ cs" by (simp add: r)
  have c1: "step_count DeleteResourceGroup ?w' = step_count DeleteResourceGroup w
           + (if deleted (groups w (AzureNetwork.resource_group (networks w n))) then 0 else 1)"
    unfolding step_count_append [OF l] m by simp
  have c2: "step_count CreateResourceGroup ?w' = step_count CreateResourceGroup w"
    unfolding step_count_append [OF l] m by simp
  show ?thesis
    using c1 c2 g s by (simp add: r)
qed

lemma run_net_call_keeps:
  assumes ok: "provider_succeeds E" and sok: "storage_ok w (network_of c)"
  shows "share_group (snd (run_net_call E c w)) g calls = share_group w g calls"
proof (cases c)
  case (CallCreate n)
  then show ?thesis
    using Create_counts [OF ok, of w n] sok
    by (simp add: share_group_def storage_ok_def)
next
  case (CallDelete n)
  then show ?thesis
    using Delete_counts [of E n w]
    by (simp add: share_group_def storage_ok_def)
qed

lemma run_net_calls_created:
  assumes ok: "provider_succeeds E"
  shows "share_group w g calls \<Longrightarrow> created (groups w g) \<Longrightarrow>
         step_count CreateResourceGroup (snd (run_net_calls E calls w)) =
           step_count CreateResourceGroup w"
proof (induction calls arbitrary: w)
  case Nil
  then show ?case by simp
next
  case (Cons c calls)
  let ?w1 = "snd (run_net_call E c w)"
  have here: "AzureNetwork.resource_group (networks w (network_of c)) = g"
    and sok: "storage_ok w (network_of c)" and rest: "share_group w g calls"
    using Cons.prems(1) by (simp_all add: share_group_def)
  have rest1: "share_group ?w1 g calls"
    using run_net_call_keeps [OF ok sok] rest by simp
  have step: "step_count CreateResourceGroup ?w1 = step_count CreateResourceGroup w
              \<and> created (groups ?w1 g)"
  proof (cases c)
    case (CallCreate n)
    then show ?thesis
      using Create_counts [OF ok, of w n] sok here Cons.prems(2) by simp
  next
    case (CallDelete n)
    then show ?thesis
      using Delete_counts [of E n w] Cons.prems(2) by simp
  qed
  have "snd (run_net_calls E (c # calls) w) = snd (run_net_calls E calls ?w1)"
    by (simp add: split_beta Let_def)
  then show ?case using Cons.IH [OF rest1] step by simp
qed

lemma run_net_calls_create_once:
  assumes ok: "provider_succeeds E"
  shows "share_group w g calls \<Longrightarrow>
         step_count CreateResourceGroup (snd (run_net_calls E calls w)) \<le>
           step_count CreateResourceGroup w + 1"
proof (induction calls arbitrary: w)
  case Nil
  then show ?case by simp
next
  case (Cons c calls)
  let ?w1 = "snd (run_net_call E c w)"
  have here: "AzureNetwork.resource_group (networks w (network_of c)) = g"
    and sok: "storage_ok w (network_of c)" and rest: "share_group w g calls"
    using Cons.prems(1) by (simp_all add: share_group_def)
  have rest1: "share_group ?w1 g calls"
    using run_net_call_keeps [OF ok sok] rest by simp
  have unfold: "snd (run_net_calls E (c # calls) w) = snd (run_net_calls E calls ?w1)"
    by (simp add: split_beta Let_def)
  show ?case
  proof (cases c)
    case (CallCreate n)
    then have cnt: "step_count CreateResourceGroup ?w1 \<le> step_count CreateResourceGroup w + 1"
      and cr: "created (groups ?w1 g)"
      using Create_counts [OF ok, of w n] sok here by simp_all
    show ?thesis
      using run_net_calls_created [OF ok rest1 cr] cnt unfold by simp
  next
    case (CallDelete n)
    then have "step_count CreateResourceGroup ?w1 = step_count CreateResourceGroup w"
      using Delete_counts [of E n w] by simp
    then show ?thesis using Cons.IH [OF rest1] unfold by simp
  qed
qed

lemma run_net_calls_deleted:
  assumes ok: "provider_succeeds E"
  shows "share_group w g calls \<Longrightarrow> deleted (groups w g) \<Longrightarrow>
         step_count DeleteResourceGroup (snd (run_net_calls E calls w)) =
           step_count DeleteResourceGroup w"
proof (induction calls arbitrary: w)
  case Nil
  then show ?case by simp
next
  case (Cons c calls)
  let ?w1 = "snd (run_net_call E c w)"
  have here: "AzureNetwork.resource_group (networks w (network_of c)) = g"
    and sok: "storage_ok w (network_of c)" and rest: "share_group w g calls"
    using Cons.prems(1) by (simp_all add: share_group_def)
  have rest1: "share_group ?w1 g calls"
    using run_net_call_keeps [OF ok sok] rest by simp
  have step: "step_count DeleteResourceGroup ?w1 = step_count DeleteResourceGroup w
              \<and> deleted (groups ?w1 g)"
  proof (cases c)
    case (CallCreate n)
    then show ?thesis
      using Create_counts [OF ok, of w n] sok Cons.prems(2) by simp
  next
    case (CallDelete n)
    then show ?thesis
      using Delete_counts [of E n w] here Cons.prems(2) by simp
  qed
  have "snd (run_net_calls E (c # calls) w) = snd (run_net_calls E calls ?w1)"
    by (simp add: split_beta Let_def)
  then show ?case using Cons.IH [OF rest1] step by simp
qed

lemma run_net_calls_delete_once:
  assumes ok: "provider_succeeds E"
  shows "share_group w g calls \<Longrightarrow>
         step_count DeleteResourceGroup (snd (run_net_calls E calls w)) \<le>
           step_count DeleteResourceGroup w + 1"
proof (induction calls arbitrary: w)
  case Nil
  then show ?case by simp
next
  case (Cons c calls)
  let ?w1 = "snd (run_net_call E c w)"
  have here: "AzureNetwork.resource_group (networks w (network_of c)) = g"
    and sok: "storage_ok w (network_of c)" and rest: "share_group w g calls"
    using Cons.prems(1) by (simp_all add: share_group_def)
  have rest1: "share_group ?w1 g calls"
    using run_net_call_keeps [OF ok sok] rest by simp
  have unfold: "snd (run_net_calls E (c # calls) w) = snd (run_net_calls E calls ?w1)"
    by (simp add: split_beta Let_def)
  show ?case
  proof (cases c)
    case (CallDelete n)
    then have cnt: "step_count DeleteResourceGroup ?w1 \<le> step_count DeleteResourceGroup w + 1"
      and de: "deleted (groups ?w1 g)"
      using Delete_counts [of E n w] here by simp_all
    show ?thesis
      using run_net_calls_deleted [OF ok rest1 de] cnt unfold by simp
  next
    case (CallCreate n)
    then have "step_count DeleteResourceGroup ?w1 = step_count DeleteResourceGroup w"
      using Create_counts [OF ok, of w n] sok by simp
    then show ?thesis using Cons.IH [OF rest1] unfold by simp
  qed
qed

text \<open>
  Claim C5. With a provider that works, \<^verbatim>\<open>Create\<close> on a network none of whose
  handles is created yet returns after carrying out, in this order, the creation of the
  resource group, of the storage account, of the virtual network, of the subnet and of the
  security group, and the attachment of the security group to the subnet; \<^verbatim>\<open>Delete\<close>
  on a network none of whose handles is deleted yet carries out, in this order, the deletion
  of the subnet, of the security group, of the virtual network, of the storage account and
  of the resource group. When networks share their resource group, any sequence of
  \<^verbatim>\<open>Create\<close> and \<^verbatim>\<open>Delete\<close> calls on them issues the creation of the resource group
  at most once and its deletion at most once.
\<close>

theorem network_lifecycle:
  assumes "provider_succeeds E"
  shows "(storage_ok w n \<and> none_created w n \<longrightarrow>
            fst (AzureNetwork_Create E n w) = Inr ()
            \<and> steps_between w (snd (AzureNetwork_Create E n w)) =
                [CreateResourceGroup, CreateStorageAccount, CreateVirtualNetwork, CreateSubnet,
                 CreateSecurityGroup, AttachToSubnet])
       \<and> (none_deleted w n \<longrightarrow>
            fst (AzureNetwork_Delete E n w) = Inr ()
            \<and> steps_between w (snd (AzureNetwork_Delete E n w)) =
                [DeleteSubnet, DeleteSecurityGroup, DeleteVirtualNetwork, DeleteStorageAccount,
                 DeleteResourceGroup])
       \<and> (share_group w g calls \<longrightarrow>
            step_count CreateResourceGroup (snd (run_net_calls E calls w)) \<le>
              step_count CreateResourceGroup w + 1
            \<and> step_count DeleteResourceGroup (snd (run_net_calls E calls w)) \<le>
              step_count DeleteResourceGroup w + 1)"
  using Create_order [OF assms, of w n] Delete_order [of w n E]
    run_net_calls_create_once [OF assms, of w g calls]
    run_net_calls_delete_once [OF assms, of w g calls]
  by blast

lemmas network_init_defs = example_two_networks_world_def example_network_world_def
  AzureNetwork_init_def AzureStorageAccount_init_def AzureVirtualNetwork_init_def
  AzureSubnet_init_def AzureNetworkSecurityGroup_init_def GetResourceGroup_def
  AzureResourceGroup_init_def fresh_world_def example_env_def or_default_def slice_to_def
  str_int_def str_nat.simps digit_def Let_def

lemma example_two_networks:
  "networks example_two_networks_world 5 =
     \<lparr>zone = ''eastus2'', AzureNetwork.resource_group = 0, storage_account = 1,
      AzureNetwork.vnet = 2, AzureNetwork.subnet = 3, nsg = 4\<rparr>"
  "networks example_two_networks_world 10 =
     \<lparr>zone = ''westus'', AzureNetwork.resource_group = 0, storage_account = 6,
      AzureNetwork.vnet = 7, AzureNetwork.subnet = 8, nsg = 9\<rparr>"
  "log example_two_networks_world = []"
  by (simp_all add: network_init_defs)

lemma example_two_networks_fresh:
  "none_created example_two_networks_world 5" "none_deleted example_two_networks_world 5"
  "storage_ok example_two_networks_world 5" "storage_ok example_two_networks_world 10"
  unfolding none_created_def none_deleted_def storage_ok_def example_two_networks
  by (simp_all add: network_init_defs)

lemma example_env_succeeds: "provider_succeeds example_env"
  by (simp add: provider_succeeds_def example_env_def)


theorem network_lifecycle_witness:
  "fst (AzureNetwork_Create example_env 5 example_two_networks_world) = Inr ()
   \<and> steps_between example_two_networks_world
       (snd (AzureNetwork_Create example_env 5 example_two_networks_world)) =
     [CreateResourceGroup, CreateStorageAccount, CreateVirtualNetwork, CreateSubnet,
      CreateSecurityGroup, AttachToSubnet]
   \<and> steps_between example_two_networks_world
       (snd (AzureNetwork_Delete example_env 5 example_two_networks_world)) =
     [DeleteSubnet, DeleteSecurityGroup, DeleteVirtualNetwork, DeleteStorageAccount,
      DeleteResourceGroup]
   \<and> step_count CreateResourceGroup (snd (run_net_calls example_env
       [CallCreate 5, CallCreate 10, CallDelete 5, CallDelete 10] example_two_networks_world)) \<le> 1
   \<and> step_count DeleteResourceGroup (snd (run_net_calls example_env
       [CallCreate 5, CallCreate 10, CallDelete 5, CallDelete 10] example_two_networks_world)) \<le> 1"
proof -
  let ?calls = "[CallCreate 5, CallCreate 10, CallDelete 5, CallDelete 10]"
  have share: "share_group example_two_networks_world 0 ?calls"
    by (simp add: share_group_def example_two_networks example_two_networks_fresh)
  have zero: "step_count s example_two_networks_world = 0" for s
    by (simp add: step_count_def example_two_networks)
  note t = network_lifecycle [OF example_env_succeeds,
      where w = example_two_networks_world and n = 5 and g = 0 and calls = ?calls]
  show ?thesis
    using t example_two_networks_fresh share
    unfolding zero by simp
qed

end
